theory Spec2Isabelle
  imports Complex_Main "HOL-Library.Word"
begin

unbundle bit_operations_syntax

chapter \<open>The model\<close>

section \<open>GLSL built-ins used by the fragment shader\<close>

text \<open>
  The pixel stage is the fragment shader \<^verbatim>\<open>dither.glsl\<close>. Its \<^verbatim>\<open>float\<close> values are
  modelled as real numbers (idealised arithmetic: no rounding), its \<^verbatim>\<open>int\<close> values as
  integers and a \<^verbatim>\<open>vec3\<close> as a triple. The built-ins follow the GLSL ES definitions:
  \<^verbatim>\<open>mix(x,y,a) = x*(1-a) + y*a\<close>, \<^verbatim>\<open>mod(x,y) = x - y*floor(x/y)\<close>,
  \<^verbatim>\<open>smoothstep\<close> is the Hermite ramp of the clamped quotient, \<^verbatim>\<open>step(e,x)\<close> is 0 below
  the edge and 1 from it on, and the constructor \<^verbatim>\<open>int(f)\<close> drops the fractional part.
\<close>

type_synonym vec3 = "real \<times> real \<times> real"

type_synonym vec2 = "real \<times> real"

definition vec3s :: "real \<Rightarrow> vec3" where
  "vec3s a = (a, a, a)"

fun vmap :: "(real \<Rightarrow> real) \<Rightarrow> vec3 \<Rightarrow> vec3" where
  "vmap f (r, g, b) = (f r, f g, f b)"

fun vzip :: "(real \<Rightarrow> real \<Rightarrow> real) \<Rightarrow> vec3 \<Rightarrow> vec3 \<Rightarrow> vec3" where
  "vzip f (r, g, b) (r', g', b') = (f r r', f g g', f b b')"

definition vadd :: "vec3 \<Rightarrow> vec3 \<Rightarrow> vec3" where
  "vadd = vzip (\<lambda>a b. a + b)"

definition vsub :: "vec3 \<Rightarrow> vec3 \<Rightarrow> vec3" where
  "vsub = vzip (\<lambda>a b. a - b)"

definition mix :: "real \<Rightarrow> real \<Rightarrow> real \<Rightarrow> real" where
  "mix x y a = x * (1 - a) + y * a"

definition vmix :: "vec3 \<Rightarrow> vec3 \<Rightarrow> real \<Rightarrow> vec3" where
  "vmix u v a = vzip (\<lambda>x y. mix x y a) u v"

definition clampf :: "real \<Rightarrow> real \<Rightarrow> real \<Rightarrow> real" where
  "clampf x lo hi = min (max x lo) hi"

definition vclamp :: "vec3 \<Rightarrow> real \<Rightarrow> real \<Rightarrow> vec3" where
  "vclamp v lo hi = vmap (\<lambda>x. clampf x lo hi) v"

definition smoothstep :: "real \<Rightarrow> real \<Rightarrow> real \<Rightarrow> real" where
  "smoothstep e0 e1 x =
     (let t = clampf ((x - e0) / (e1 - e0)) 0 1 in t * t * (3 - 2 * t))"

definition step :: "real \<Rightarrow> real \<Rightarrow> real" where
  "step edge x = (if x < edge then 0 else 1)"

definition fract :: "real \<Rightarrow> real" where
  "fract x = x - of_int \<lfloor>x\<rfloor>"

definition glsl_mod :: "real \<Rightarrow> real \<Rightarrow> real" where
  "glsl_mod x y = x - y * of_int \<lfloor>x / y\<rfloor>"

definition to_int :: "real \<Rightarrow> int" where
  "to_int x = (if 0 \<le> x then \<lfloor>x\<rfloor> else \<lceil>x\<rceil>)"

definition dot2 :: "vec2 \<Rightarrow> vec2 \<Rightarrow> real" where
  "dot2 u v = fst u * fst v + snd u * snd v"

fun dot3 :: "vec3 \<Rightarrow> vec3 \<Rightarrow> real" where
  "dot3 (r, g, b) (r', g', b') = r * r' + g * g' + b * b'"

section \<open>Threshold matrices\<close>

text \<open>
  \<^verbatim>\<open>mat2(0,2,3,1)/4\<close> and \<^verbatim>\<open>mat4(...)/16\<close> are column-major: \<^verbatim>\<open>m[c][r]\<close> is entry
  \<open>r\<close> of column \<open>c\<close>, and the constructor fills column after column.
\<close>

definition bayerMatrix2x2 :: "nat \<Rightarrow> nat \<Rightarrow> real" where
  "bayerMatrix2x2 c r = [[0, 2], [3, 1]] ! c ! r / 4"

definition bayerMatrix4x4 :: "nat \<Rightarrow> nat \<Rightarrow> real" where
  "bayerMatrix4x4 c r =
     [[0, 8, 2, 10], [12, 4, 14, 6], [3, 11, 1, 9], [15, 7, 13, 5]] ! c ! r / 16"

definition toGrayscale :: "vec3 \<Rightarrow> real" where
  "toGrayscale color = dot3 color (299 / 1000, 587 / 1000, 114 / 1000)"

definition getBayer8x8Value :: "int \<Rightarrow> int \<Rightarrow> real" where
  "getBayer8x8Value x y =
    (if x = 0 then
       (if y = 0 then 0 else if y = 1 then 48 else if y = 2 then 12 else if y = 3 then 60
        else if y = 4 then 3 else if y = 5 then 51 else if y = 6 then 15
        else if y = 7 then 63 else 0)
     else if x = 1 then
       (if y = 0 then 32 else if y = 1 then 16 else if y = 2 then 44 else if y = 3 then 28
        else if y = 4 then 35 else if y = 5 then 19 else if y = 6 then 47
        else if y = 7 then 31 else 0)
     else if x = 2 then
       (if y = 0 then 8 else if y = 1 then 56 else if y = 2 then 4 else if y = 3 then 52
        else if y = 4 then 11 else if y = 5 then 59 else if y = 6 then 7
        else if y = 7 then 55 else 0)
     else if x = 3 then
       (if y = 0 then 40 else if y = 1 then 24 else if y = 2 then 36 else if y = 3 then 20
        else if y = 4 then 43 else if y = 5 then 27 else if y = 6 then 39
        else if y = 7 then 23 else 0)
     else if x = 4 then
       (if y = 0 then 2 else if y = 1 then 50 else if y = 2 then 14 else if y = 3 then 62
        else if y = 4 then 1 else if y = 5 then 49 else if y = 6 then 13
        else if y = 7 then 61 else 0)
     else if x = 5 then
       (if y = 0 then 34 else if y = 1 then 18 else if y = 2 then 46 else if y = 3 then 30
        else if y = 4 then 33 else if y = 5 then 17 else if y = 6 then 45
        else if y = 7 then 29 else 0)
     else if x = 6 then
       (if y = 0 then 10 else if y = 1 then 58 else if y = 2 then 6 else if y = 3 then 54
        else if y = 4 then 9 else if y = 5 then 57 else if y = 6 then 5
        else if y = 7 then 53 else 0)
     else if x = 7 then
       (if y = 0 then 42 else if y = 1 then 26 else if y = 2 then 38 else if y = 3 then 22
        else if y = 4 then 41 else if y = 5 then 25 else if y = 6 then 37
        else if y = 7 then 21 else 0)
     else 0)"

definition reduceColor :: "vec3 \<Rightarrow> real \<Rightarrow> vec3" where
  "reduceColor color levels = vmap (\<lambda>c. of_int \<lfloor>c * levels\<rfloor> / levels) color"

definition getBayerThreshold2x2 :: "int \<Rightarrow> int \<Rightarrow> real" where
  "getBayerThreshold2x2 x0 y0 =
    (let x = to_int (glsl_mod (of_int x0) 2);
         y = to_int (glsl_mod (of_int y0) 2)
     in if x = 0 then (if y = 0 then bayerMatrix2x2 0 0 else bayerMatrix2x2 0 1)
        else (if y = 0 then bayerMatrix2x2 1 0 else bayerMatrix2x2 1 1))"

definition getBayerThreshold4x4 :: "int \<Rightarrow> int \<Rightarrow> real" where
  "getBayerThreshold4x4 x0 y0 =
    (let x = to_int (glsl_mod (of_int x0) 4);
         y = to_int (glsl_mod (of_int y0) 4)
     in if x = 0 then
          (if y = 0 then bayerMatrix4x4 0 0 else if y = 1 then bayerMatrix4x4 0 1
           else if y = 2 then bayerMatrix4x4 0 2 else bayerMatrix4x4 0 3)
        else if x = 1 then
          (if y = 0 then bayerMatrix4x4 1 0 else if y = 1 then bayerMatrix4x4 1 1
           else if y = 2 then bayerMatrix4x4 1 2 else bayerMatrix4x4 1 3)
        else if x = 2 then
          (if y = 0 then bayerMatrix4x4 2 0 else if y = 1 then bayerMatrix4x4 2 1
           else if y = 2 then bayerMatrix4x4 2 2 else bayerMatrix4x4 2 3)
        else
          (if y = 0 then bayerMatrix4x4 3 0 else if y = 1 then bayerMatrix4x4 3 1
           else if y = 2 then bayerMatrix4x4 3 2 else bayerMatrix4x4 3 3))"

definition getBayerThreshold8x8 :: "int \<Rightarrow> int \<Rightarrow> real" where
  "getBayerThreshold8x8 x0 y0 =
    (let x = to_int (glsl_mod (of_int x0) 8);
         y = to_int (glsl_mod (of_int y0) 8)
     in getBayer8x8Value x y / 64)"

text \<open>\<open>bs\<close> is the uniform \<^verbatim>\<open>u_bayerSize\<close> (0 = 2x2, 1 = 4x4, anything else = 8x8).\<close>

definition getBayerThreshold :: "int \<Rightarrow> int \<Rightarrow> int \<Rightarrow> real" where
  "getBayerThreshold bs x y =
    (if bs = 0 then getBayerThreshold2x2 x y
     else if bs = 1 then getBayerThreshold4x4 x y
     else getBayerThreshold8x8 x y)"

definition matrixSize :: "int \<Rightarrow> int" where
  "matrixSize bs = (if bs = 0 then 2 else (if bs = 1 then 4 else 8))"

text \<open>
  The threshold that \<^verbatim>\<open>main\<close> uses at a fragment: the fragment coordinate is reduced
  modulo the matrix size, truncated to an integer and handed to \<^verbatim>\<open>getBayerThreshold\<close>.
\<close>

definition fragThreshold :: "int \<Rightarrow> vec2 \<Rightarrow> real" where
  "fragThreshold bs fragCoord =
    (let x = to_int (glsl_mod (fst fragCoord) (of_int (matrixSize bs)));
         y = to_int (glsl_mod (snd fragCoord) (of_int (matrixSize bs)))
     in getBayerThreshold bs x y)"

text \<open>The fragment of the pixel in column \<open>px\<close> and row \<open>py\<close> has its centre as coordinate.\<close>

definition pixelCentre :: "int \<Rightarrow> int \<Rightarrow> vec2" where
  "pixelCentre px py = (of_int px + 1 / 2, of_int py + 1 / 2)"

definition pixelThreshold :: "int \<Rightarrow> int \<Rightarrow> int \<Rightarrow> real" where
  "pixelThreshold bs px py = fragThreshold bs (pixelCentre px py)"

section \<open>The pixel stage\<close>

text \<open>
  The uniforms of the program. A sampler uniform holds the number of a texture unit;
  \<open>tex unit uv\<close> stands for \<^verbatim>\<open>texture2D(sampler, uv).rgb\<close> of the texture bound to that
  unit.
\<close>

record uniforms =
  u_image :: int
  u_errorTexture :: int
  u_palette :: int
  u_resolution :: vec2
  u_ditherAmount :: real
  u_ditherType :: int
  u_passIndex :: int
  u_pixelStep :: vec2
  u_bayerSize :: int
  u_usePalette :: bool
  u_contrast :: real
  u_highlights :: real
  u_midtones :: real
  u_brightness :: real

type_synonym samplers = "int \<Rightarrow> vec2 \<Rightarrow> vec3"

definition adjustContrast :: "vec3 \<Rightarrow> real \<Rightarrow> vec3" where
  "adjustContrast color contrast =
    (let factor = (if contrast > 0 then 1 + contrast else 1 / (1 - contrast));
         adjusted = vmap (\<lambda>c. (c - 1 / 2) * factor + 1 / 2) color
     in vclamp adjusted 0 1)"

definition adjustHighlights :: "vec3 \<Rightarrow> real \<Rightarrow> vec3" where
  "adjustHighlights color highlights =
    (let luminance = toGrayscale color;
         highlightMask = smoothstep (1 / 2) 1 luminance;
         factor = (if highlights > 0 then mix 1 (1 / 2) highlights
                   else mix 1 2 (- highlights));
         adjusted = vmix color (vmap (\<lambda>c. c * factor) color) highlightMask
     in vclamp adjusted 0 1)"

text \<open>\<^verbatim>\<open>pow\<close> is modelled by \<open>powr\<close>; its base is a clamped channel, never negative.\<close>

definition adjustMidtones :: "vec3 \<Rightarrow> real \<Rightarrow> vec3" where
  "adjustMidtones color midtones =
    (let luminance = toGrayscale color;
         midtoneMask0 = 1 - \<bar>luminance - 1 / 2\<bar> * 2;
         midtoneMask = smoothstep 0 (1 / 2) midtoneMask0;
         factor = (if midtones > 0 then mix 1 (3 / 2) midtones
                   else mix 1 (1 / 2) (- midtones));
         adjusted = vmix color (vmap (\<lambda>c. c powr factor) color) midtoneMask
     in vclamp adjusted 0 1)"

definition preprocessImage :: "uniforms \<Rightarrow> vec3 \<Rightarrow> vec3" where
  "preprocessImage u color0 =
    (let color1 = adjustContrast color0 (u_contrast u);
         color2 = adjustHighlights color1 (u_highlights u);
         color3 = adjustMidtones color2 (u_midtones u);
         luminance = toGrayscale color3
     in if u_brightness u \<noteq> 1 / 2
        then vmix (vec3s (step (u_brightness u) luminance)) color3 (1 / 2)
        else color3)"

definition findClosestPaletteColor :: "uniforms \<Rightarrow> samplers \<Rightarrow> vec3 \<Rightarrow> vec3" where
  "findClosestPaletteColor u tex color =
    (if u_usePalette u then
       (let lum = toGrayscale color in tex (u_palette u) (lum, 1 / 2))
     else color)"

text \<open>
  \<^verbatim>\<open>applyFloydSteinberg\<close>. The local \<^verbatim>\<open>error\<close> is computed in the source and then not
  used; the model keeps it.
\<close>

definition applyFloydSteinberg ::
    "uniforms \<Rightarrow> samplers \<Rightarrow> vec2 \<Rightarrow> vec2 \<Rightarrow> vec3 \<Rightarrow> real \<Rightarrow> vec3" where
  "applyFloydSteinberg u tex fragCoord uv color levels =
    (let oldColor = color;
         newColor0 = reduceColor oldColor levels;
         newColor = (if u_usePalette u then findClosestPaletteColor u tex oldColor
                     else newColor0);
         error = vsub oldColor newColor
     in if u_passIndex u = 0 then newColor
        else
          (let errCoord = (fst fragCoord / fst (u_resolution u),
                           snd fragCoord / snd (u_resolution u));
               accumulatedError = tex (u_errorTexture u) errCoord;
               adjustedColor = vadd oldColor accumulatedError;
               newColor1 = reduceColor adjustedColor levels
           in if u_usePalette u then findClosestPaletteColor u tex adjustedColor
              else newColor1))"

text \<open>The preprocessed colour of the fragment, as the first lines of \<^verbatim>\<open>main\<close> compute it.\<close>

definition fragUV :: "uniforms \<Rightarrow> vec2 \<Rightarrow> vec2" where
  "fragUV u fragCoord =
    (fst fragCoord / fst (u_resolution u), snd fragCoord / snd (u_resolution u))"

definition preprocessed :: "uniforms \<Rightarrow> samplers \<Rightarrow> vec2 \<Rightarrow> vec3" where
  "preprocessed u tex fragCoord = preprocessImage u (tex (u_image u) (fragUV u fragCoord))"

text \<open>\<^verbatim>\<open>main\<close>: the result is the \<^verbatim>\<open>rgb\<close> part of \<^verbatim>\<open>gl_FragColor\<close>; its alpha is 1.\<close>

definition main :: "uniforms \<Rightarrow> samplers \<Rightarrow> vec2 \<Rightarrow> vec3" where
  "main u tex fragCoord =
    (let uv = fragUV u fragCoord;
         color = preprocessed u tex fragCoord
     in if u_ditherType u = 0 then
          (let threshold = fragThreshold (u_bayerSize u) fragCoord;
               gray = toGrayscale color;
               levels = mix 16 2 (u_ditherAmount u);
               reduced = reduceColor color levels;
               thresholdColor = (if gray > threshold then vec3s 1 else vec3s 0);
               color1 = vmix reduced thresholdColor (u_ditherAmount u)
           in if u_usePalette u then findClosestPaletteColor u tex color1 else color1)
        else if u_ditherType u = 2 then
          (let rand = fract (sin (dot2 uv (12.9898, 78.233)) * 43758.5453);
               thresholdColor = (if toGrayscale color > rand then vec3s 1 else vec3s 0);
               color1 = vmix color thresholdColor (u_ditherAmount u)
           in if u_usePalette u then findClosestPaletteColor u tex color1 else color1)
        else
          (let levels = mix 16 2 (u_ditherAmount u)
           in applyFloydSteinberg u tex fragCoord uv color levels))"

section \<open>Colour utilities\<close>

text \<open>
  \<^verbatim>\<open>hexToRgb\<close> of \<^verbatim>\<open>color-utils.ts\<close>. A JavaScript string is modelled as a \<open>string\<close> (for
  the ASCII text of a colour code the two agree, also on \<^verbatim>\<open>length\<close>).
  \<^verbatim>\<open>Number.parseInt(s, 16)\<close> skips leading white space, reads a sign, skips a prefix
  \<^verbatim>\<open>0x\<close> or \<^verbatim>\<open>0X\<close>, and reads hexadecimal digits as far as they go; with no digit the
  result is \<^verbatim>\<open>NaN\<close>, here \<open>None\<close>. The value is an exact integer (a double is exact up
  to 13 hexadecimal digits). The operators \<^verbatim>\<open>>>\<close> and \<^verbatim>\<open>&\<close> first convert their operand
  to a signed 32-bit integer, \<^verbatim>\<open>NaN\<close> to 0.
\<close>

definition isWhiteSpace :: "char \<Rightarrow> bool" where
  "isWhiteSpace c = (c \<in> set [CHR '' '', CHR 0x09, CHR 0x0A, CHR 0x0B, CHR 0x0C, CHR 0x0D])"

definition hexDigit :: "char \<Rightarrow> int option" where
  "hexDigit c =
    (let n = int (of_char c :: nat) in
     if 48 \<le> n \<and> n \<le> 57 then Some (n - 48)
     else if 65 \<le> n \<and> n \<le> 70 then Some (n - 55)
     else if 97 \<le> n \<and> n \<le> 102 then Some (n - 87)
     else None)"

fun hexValue :: "int \<Rightarrow> string \<Rightarrow> int" where
  "hexValue acc [] = acc"
| "hexValue acc (c # cs) =
    (case hexDigit c of None \<Rightarrow> acc | Some d \<Rightarrow> hexValue (16 * acc + d) cs)"

definition stripSign :: "string \<Rightarrow> int \<times> string" where
  "stripSign s =
    (case s of
       [] \<Rightarrow> (1, [])
     | c # cs \<Rightarrow> if c = CHR ''-'' then (- 1, cs) else if c = CHR ''+'' then (1, cs) else (1, s))"

definition stripHexPrefix :: "string \<Rightarrow> string" where
  "stripHexPrefix s =
    (case s of
       a # b # cs \<Rightarrow> if a = CHR ''0'' \<and> (b = CHR ''x'' \<or> b = CHR ''X'') then cs else s
     | _ \<Rightarrow> s)"

definition parseInt16 :: "string \<Rightarrow> int option" where
  "parseInt16 s =
    (let (sign, s1) = stripSign (dropWhile isWhiteSpace s);
         s2 = stripHexPrefix s1
     in case s2 of
          [] \<Rightarrow> None
        | c # cs \<Rightarrow> (case hexDigit c of None \<Rightarrow> None | Some d \<Rightarrow> Some (sign * hexValue 0 s2)))"

definition toInt32 :: "int option \<Rightarrow> int" where
  "toInt32 v = (case v of None \<Rightarrow> 0 | Some n \<Rightarrow> (n + 2 ^ 31) mod 2 ^ 32 - 2 ^ 31)"

definition hexToRgb :: "string \<Rightarrow> int \<times> int \<times> int" where
  "hexToRgb hex =
    (let cleanHex = (case hex of c # cs \<Rightarrow> if c = CHR ''#'' then cs else hex | [] \<Rightarrow> hex);
         bigint = toInt32 (parseInt16 cleanHex)
     in if length cleanHex \<le> 3 then
          ((drop_bit 8 bigint AND 15) * 17, (drop_bit 4 bigint AND 15) * 17, (bigint AND 15) * 17)
        else
          (drop_bit 16 bigint AND 255, drop_bit 8 bigint AND 255, bigint AND 255))"

section \<open>Palette service\<close>

record userPaletteDefinition =
  up_id :: int
  up_name :: string
  up_colors :: "string list"

text \<open>
  \<^verbatim>\<open>DitherOptions\<close>. An optional field is an \<open>option\<close> (\<open>None\<close> is \<^verbatim>\<open>undefined\<close>). The
  fields that select something (types, counts, identifiers, the down-sampling factor)
  are integers; the amounts that become \<^verbatim>\<open>float\<close> uniforms are reals.
\<close>

record ditherOptions =
  ditherAmount :: real
  ditherType :: int
  bayerSize :: "int option"
  downSampling :: "int option"
  contrast :: "real option"
  highlights :: "real option"
  midtones :: "real option"
  brightness :: "real option"
  usePalette :: "bool option"
  paletteType :: "int option"
  paletteColors :: "int option"
  customPalette :: "string list option"
  userPalettes :: "userPaletteDefinition list option"
  selectedUserPalette :: "int option"

text \<open>The members of \<^verbatim>\<open>enum PaletteType\<close>.\<close>

definition PaletteType_BW :: int where "PaletteType_BW = 0"
definition PaletteType_CGA :: int where "PaletteType_CGA = 1"
definition PaletteType_GAMEBOY :: int where "PaletteType_GAMEBOY = 2"
definition PaletteType_GAMEBOY_CLASSIC :: int where "PaletteType_GAMEBOY_CLASSIC = 5"
definition PaletteType_GAMEBOY_POCKET :: int where "PaletteType_GAMEBOY_POCKET = 6"
definition PaletteType_GRAYSCALE :: int where "PaletteType_GRAYSCALE = 7"
definition PaletteType_SEPIA :: int where "PaletteType_SEPIA = 8"
definition PaletteType_CUSTOM :: int where "PaletteType_CUSTOM = 3"
definition PaletteType_USER :: int where "PaletteType_USER = 4"

text \<open>The keys of the record \<^verbatim>\<open>PALETTES\<close> and the colours stored under them.\<close>

datatype paletteName = BW | CGA | GAMEBOY | GAMEBOY_CLASSIC | GAMEBOY_POCKET | GRAYSCALE | SEPIA

fun PALETTES :: "paletteName \<Rightarrow> string list" where
  "PALETTES BW = [''#000000'', ''#FFFFFF'']"
| "PALETTES CGA = [''#000000'', ''#55FFFF'', ''#FF55FF'', ''#FFFFFF'']"
| "PALETTES GAMEBOY = [''#0F380F'', ''#306230'', ''#8BAC0F'', ''#9BBC0F'']"
| "PALETTES GAMEBOY_CLASSIC = [''#0f1b0f'', ''#306850'', ''#86c06c'', ''#e0f8d0'']"
| "PALETTES GAMEBOY_POCKET = [''#000000'', ''#565656'', ''#aaaaaa'', ''#ffffff'']"
| "PALETTES GRAYSCALE = [''#000000'', ''#444444'', ''#888888'', ''#CCCCCC'', ''#FFFFFF'']"
| "PALETTES SEPIA = [''#402417'', ''#865C37'', ''#C49D5A'', ''#E6D1A7'']"

definition DEFAULT_USER_PALETTES :: "userPaletteDefinition list" where
  "DEFAULT_USER_PALETTES =
    [\<lparr>up_id = 1, up_name = ''Ocean Blue'',
       up_colors = [''#001F3F'', ''#0074D9'', ''#7FDBFF'', ''#FFFFFF'']\<rparr>,
     \<lparr>up_id = 2, up_name = ''Forest Green'',
       up_colors = [''#1D3520'', ''#4A7E3A'', ''#A3D65C'', ''#CBEDA8'']\<rparr>,
     \<lparr>up_id = 3, up_name = ''Vintage Red'',
       up_colors = [''#4A0000'', ''#900000'', ''#CE3B3B'', ''#FF9999'']\<rparr>]"

text \<open>The \<^verbatim>\<open>switch\<close> of \<^verbatim>\<open>getPaletteColors\<close>; its default is black and white.\<close>

definition predefinedKey :: "int option \<Rightarrow> paletteName" where
  "predefinedKey t =
    (if t = Some PaletteType_BW then BW
     else if t = Some PaletteType_CGA then CGA
     else if t = Some PaletteType_GAMEBOY then GAMEBOY
     else if t = Some PaletteType_GAMEBOY_CLASSIC then GAMEBOY_CLASSIC
     else if t = Some PaletteType_GAMEBOY_POCKET then GAMEBOY_POCKET
     else if t = Some PaletteType_GRAYSCALE then GRAYSCALE
     else if t = Some PaletteType_SEPIA then SEPIA
     else BW)"

text \<open>
  The loop that picks \<open>numColors\<close> colours of \<open>palette\<close> (the local \<^verbatim>\<open>paletteColors\<close>) evenly; \<open>step\<close> is the quotient of the two
  lengths, a real number. The loop runs only with \<open>numColors\<close> below the length of the
  palette, so every index it reads is inside the palette.
\<close>

function pickEvenly :: "string list \<Rightarrow> int \<Rightarrow> int \<Rightarrow> string list \<Rightarrow> string list" where
  "pickEvenly palette numColors i result =
    (if i < numColors then
       (let step = real (length palette) / real_of_int numColors;
            index = min \<lfloor>real_of_int i * step\<rfloor> (int (length palette) - 1)
        in pickEvenly palette numColors (i + 1) (result @ [palette ! nat index]))
     else result)"
  by pat_completeness auto
termination
  by (relation "measure (\<lambda>(p, n, i, r). nat (n - i))") auto

declare pickEvenly.simps [simp del]

definition getPaletteColors :: "ditherOptions \<Rightarrow> string list" where
  "getPaletteColors options =
    (if usePalette options \<noteq> Some True then []
     else
       case (if paletteType options = Some PaletteType_CUSTOM then customPalette options
             else None) of
         Some custom \<Rightarrow> custom
       | None \<Rightarrow>
          (case (if paletteType options = Some PaletteType_USER
                    \<and> selectedUserPalette options \<noteq> None
                 then (case userPalettes options of
                         None \<Rightarrow> None
                       | Some ups \<Rightarrow>
                           find (\<lambda>p. Some (up_id p) = selectedUserPalette options) ups)
                 else None) of
             Some selectedPalette \<Rightarrow> up_colors selectedPalette
           | None \<Rightarrow>
              (let paletteColors0 = PALETTES (predefinedKey (paletteType options));
                   numColors = (case paletteColors options of
                                  None \<Rightarrow> 2
                                | Some n \<Rightarrow> if n = 0 then 2 else n)
               in if numColors \<ge> int (length paletteColors0) then paletteColors0
                  else pickEvenly paletteColors0 numColors 0 [])))"

text \<open>
  The loop shared by \<^verbatim>\<open>createPaletteTexture\<close> and \<^verbatim>\<open>updatePaletteTexture\<close>: it fills
  a \<^verbatim>\<open>Uint8Array\<close> of \<open>256 * 4\<close> bytes, four per position. A store into the array keeps
  the value modulo 256. With an empty colour list the index is \<open>-1\<close> and the read
  \<^verbatim>\<open>colors[-1]\<close> gives \<^verbatim>\<open>undefined\<close>, on which \<^verbatim>\<open>hexToRgb\<close> throws: the result is
  \<open>None\<close>. Position \<open>i\<close> divided by 255 and multiplied by the number of colours is
  computed exactly (for up to 39 colours the doubles of the source give the same floor at
  every position).
\<close>

definition colorIndexAt :: "nat \<Rightarrow> nat \<Rightarrow> int" where
  "colorIndexAt n i =
    (let normalizedPos = real i / (256 - 1);
         colorIndex = \<lfloor>normalizedPos * real n\<rfloor>
     in min colorIndex (int n - 1))"

definition storeByte :: "nat list \<Rightarrow> nat \<Rightarrow> int \<Rightarrow> nat list" where
  "storeByte data offset v = data[offset := nat (v mod 256)]"

function fillPaletteData :: "string list \<Rightarrow> nat \<Rightarrow> nat list \<Rightarrow> nat list option" where
  "fillPaletteData colors i data =
    (if i < 256 then
       (let colorIndex = colorIndexAt (length colors) i
        in if colorIndex < 0 then None
           else
             (let rgb = hexToRgb (colors ! nat colorIndex);
                  offset = i * 4;
                  data1 = storeByte data offset (fst rgb);
                  data2 = storeByte data1 (offset + 1) (fst (snd rgb));
                  data3 = storeByte data2 (offset + 2) (snd (snd rgb));
                  data4 = storeByte data3 (offset + 3) 255
              in fillPaletteData colors (i + 1) data4))
     else Some data)"
  by pat_completeness auto
termination
  by (relation "measure (\<lambda>(c, i, d). 256 - i)") auto

declare fillPaletteData.simps [simp del]

definition paletteData :: "string list \<Rightarrow> nat list option" where
  "paletteData colors = fillPaletteData colors 0 (replicate (256 * 4) 0)"

text \<open>
  Two abbreviations for stating what the loop stores: the four bytes at a position of a
  buffer, and the four bytes the loop stores at position \<open>i\<close> for a colour list.
\<close>

definition texelAt :: "nat list \<Rightarrow> nat \<Rightarrow> nat \<times> nat \<times> nat \<times> nat" where
  "texelAt data i = (data ! (4 * i), data ! (4 * i + 1), data ! (4 * i + 2), data ! (4 * i + 3))"

definition paletteTexel :: "string list \<Rightarrow> nat \<Rightarrow> nat \<times> nat \<times> nat \<times> nat" where
  "paletteTexel colors i =
     (case hexToRgb (colors ! nat (colorIndexAt (length colors) i)) of
        (r, g, b) \<Rightarrow> (nat r, nat g, nat b, 255))"

section \<open>The WebGL context\<close>

text \<open>
  The part of the browser and of the GPU that the service drives, as a state that its
  calls update.

  \<^item> The service creates three texture objects; they are told apart by name.
  \<^item> A texture holds no image, the image of an \<^verbatim>\<open>HTMLImageElement\<close>, a float image
    allocated with \<^verbatim>\<open>null\<close> data (all zero), or a byte image. An image element is
    abstract: it is given by its size and by the colour that sampling its uploaded
    content returns at a normalised coordinate.
  \<^item> A byte image is sampled with linear filtering and edge clamping, as
    \<^verbatim>\<open>createPaletteTexture\<close> configures the palette texture; its only use has height 1, so
    only the horizontal coordinate matters. A texture without image samples as black.
  \<^item> \<open>texUploads\<close> counts the \<^verbatim>\<open>texImage2D\<close> calls on each texture.
  \<^item> A pixel of the canvas holds the colour written to it; the conversion to the 8-bit
    storage of the drawing buffer is not modelled. Pixel coordinates are window
    coordinates (the fragment of pixel \<open>(x, y)\<close> has centre \<open>(x + 1/2, y + 1/2)\<close>).
\<close>

datatype exn = JsError

datatype tex_name = MainTexture | ErrorTexture | PaletteTexture

datatype tex_image =
    NoImage
  | ElementImage "vec2 \<Rightarrow> vec3"
  | FloatImage nat nat
  | BytesImage nat nat "nat list"

type_synonym vec4 = "real \<times> real \<times> real \<times> real"

record image =
  imageWidth :: nat
  imageHeight :: nat
  imageSample :: "vec2 \<Rightarrow> vec3"

record canvas =
  canvasWidth :: nat
  canvasHeight :: nat
  pixels :: "nat \<times> nat \<Rightarrow> vec4"

record gl_state =
  quadReady :: bool
  activeUnit :: nat
  boundTexture :: "nat \<Rightarrow> tex_name option"
  texImage :: "tex_name \<Rightarrow> tex_image"
  texUploads :: "tex_name \<Rightarrow> nat"
  uniformValues :: uniforms
  viewportSize :: "nat \<times> nat"

definition texelColor :: "nat list \<Rightarrow> nat \<Rightarrow> vec3" where
  "texelColor data i =
    (case texelAt data i of (r, g, b, a) \<Rightarrow> (real r / 255, real g / 255, real b / 255))"

definition sampleLinear :: "nat \<Rightarrow> nat list \<Rightarrow> real \<Rightarrow> vec3" where
  "sampleLinear w data u =
    (let u' = clampf u (1 / (2 * real w)) (1 - 1 / (2 * real w));
         f = u' * real w - 1 / 2;
         i0 = \<lfloor>f\<rfloor>;
         a = f - of_int i0;
         i1 = min (i0 + 1) (int w - 1)
     in vmix (texelColor data (nat i0)) (texelColor data (nat i1)) a)"

fun sampleImage :: "tex_image \<Rightarrow> vec2 \<Rightarrow> vec3" where
  "sampleImage NoImage uv = (0, 0, 0)"
| "sampleImage (ElementImage f) uv = f uv"
| "sampleImage (FloatImage w h) uv = (0, 0, 0)"
| "sampleImage (BytesImage w h data) uv = sampleLinear w data (fst uv)"

text \<open>\<^verbatim>\<open>texture2D(sampler, uv).rgb\<close> for a sampler uniform holding \<open>unit\<close>.\<close>

definition texture2D :: "gl_state \<Rightarrow> samplers" where
  "texture2D g unit uv =
    (if unit < 0 then (0, 0, 0)
     else case boundTexture g (nat unit) of
            None \<Rightarrow> (0, 0, 0)
          | Some t \<Rightarrow> sampleImage (texImage g t) uv)"

definition bindTexture :: "tex_name option \<Rightarrow> gl_state \<Rightarrow> gl_state" where
  "bindTexture t g = g\<lparr>boundTexture := (boundTexture g)(activeUnit g := t)\<rparr>"

definition activeTexture :: "nat \<Rightarrow> gl_state \<Rightarrow> gl_state" where
  "activeTexture n g = g\<lparr>activeUnit := n\<rparr>"

definition texImage2D :: "tex_image \<Rightarrow> gl_state \<Rightarrow> gl_state" where
  "texImage2D img g =
    (case boundTexture g (activeUnit g) of
       None \<Rightarrow> g
     | Some t \<Rightarrow> g\<lparr>texImage := (texImage g)(t := img),
                    texUploads := (texUploads g)(t := Suc (texUploads g t))\<rparr>)"

definition setUniforms :: "(uniforms \<Rightarrow> uniforms) \<Rightarrow> gl_state \<Rightarrow> gl_state" where
  "setUniforms f g = g\<lparr>uniformValues := f (uniformValues g)\<rparr>"

text \<open>
  \<^verbatim>\<open>gl.drawArrays(gl.TRIANGLE_STRIP, 0, 4)\<close> with the quad of \<^verbatim>\<open>setupPositionBuffer\<close>
  and the default framebuffer: every pixel of the canvas inside the viewport receives
  the colour that \<^verbatim>\<open>main\<close> computes for its fragment, with alpha 1. No texture is
  written.
\<close>

definition drawArrays :: "gl_state \<Rightarrow> canvas \<Rightarrow> canvas" where
  "drawArrays g cv =
    (if \<not> quadReady g then cv
     else cv\<lparr>pixels := (\<lambda>(x, y).
            if x < min (fst (viewportSize g)) (canvasWidth cv)
               \<and> y < min (snd (viewportSize g)) (canvasHeight cv)
            then (case main (uniformValues g) (texture2D g) (pixelCentre (int x) (int y)) of
                    (r, gr, b) \<Rightarrow> (r, gr, b, 1))
            else pixels cv (x, y))\<rparr>)"

text \<open>Assigning \<^verbatim>\<open>canvas.width\<close> and \<^verbatim>\<open>canvas.height\<close> resets the drawing buffer.\<close>

definition resizeCanvas :: "nat \<Rightarrow> nat \<Rightarrow> canvas \<Rightarrow> canvas" where
  "resizeCanvas w h cv = \<lparr>canvasWidth = w, canvasHeight = h, pixels = (\<lambda>p. (0, 0, 0, 0))\<rparr>"

text \<open>\<^verbatim>\<open>gl.clearColor(0, 0, 0, 0); gl.clear(gl.COLOR_BUFFER_BIT)\<close>.\<close>

definition clearCanvas :: "canvas \<Rightarrow> canvas" where
  "clearCanvas cv = cv\<lparr>pixels := (\<lambda>p. (0, 0, 0, 0))\<rparr>"

section \<open>The browser\<close>

text \<open>
  What the code cannot decide is a parameter: whether a context, a shader, a program or
  a texture can be created, whether the shaders compile and the program links, what
  down-sampling returns (\<open>Inl\<close> when its promise rejects), and whether a call throws.
  A helper that uploads a texture image throws at its \<^verbatim>\<open>texImage2D\<close> call, after it has
  bound the texture; any other helper that throws does so before its first effect.
\<close>

datatype shaderKind = VERTEX_SHADER | FRAGMENT_SHADER

datatype api =
    GetContext
  | CreateShader shaderKind
  | CreateProgram
  | UseProgram
  | SetupPositionBuffer
  | CreateMainTexture
  | CreateErrorTexture
  | CreatePaletteTexture
  | AnimationFrame
  | Viewport
  | Clear
  | LoadImageTexture
  | UpdatePaletteTexture
  | SetupShaderUniforms
  | BindMainTexture
  | InitErrorTexture
  | DrawArrays nat

record browser =
  throws :: "api \<Rightarrow> bool"
  contextAvailable :: bool
  shaderCreated :: "shaderKind \<Rightarrow> bool"
  shaderCompiles :: "shaderKind \<Rightarrow> bool"
  programCreated :: bool
  programLinks :: bool
  textureCreated :: "tex_name \<Rightarrow> bool"
  downSampleImage :: "image \<Rightarrow> int \<Rightarrow> exn + image"

section \<open>Shader and texture services\<close>

text \<open>
  \<^verbatim>\<open>createShader\<close>, \<^verbatim>\<open>createProgram\<close> and the functions that create a texture return the
  object or \<^verbatim>\<open>null\<close>; the model returns whether the result is an object. The three
  textures are distinct objects: \<open>MainTexture\<close> is the one \<^verbatim>\<open>createMainTexture\<close> creates,
  \<open>ErrorTexture\<close> and \<open>PaletteTexture\<close> likewise. A texture argument that may be
  \<^verbatim>\<open>null\<close> is passed as an \<open>option\<close>.
\<close>

definition createShader :: "browser \<Rightarrow> shaderKind \<Rightarrow> bool" where
  "createShader env kind =
    (if \<not> shaderCreated env kind then False
     else if \<not> shaderCompiles env kind then False
     else True)"

definition createProgram :: "browser \<Rightarrow> bool" where
  "createProgram env =
    (if \<not> programCreated env then False
     else if \<not> programLinks env then False
     else True)"

definition createMainTexture :: "browser \<Rightarrow> gl_state \<Rightarrow> bool \<times> gl_state" where
  "createMainTexture env g =
    (if \<not> textureCreated env MainTexture then (False, g)
     else (True, bindTexture (Some MainTexture) g))"

definition createErrorTexture :: "browser \<Rightarrow> gl_state \<Rightarrow> bool \<times> gl_state" where
  "createErrorTexture env g =
    (if \<not> textureCreated env ErrorTexture then (False, g)
     else (True, bindTexture (Some ErrorTexture) g))"

definition loadImageTexture ::
    "browser \<Rightarrow> tex_name \<Rightarrow> image \<Rightarrow> gl_state \<Rightarrow> exn option \<times> gl_state" where
  "loadImageTexture env t img g =
    (let g1 = bindTexture (Some t) g
     in if throws env LoadImageTexture then (Some JsError, g1)
        else (None, texImage2D (ElementImage (imageSample img)) g1))"

definition createPaletteTexture ::
    "browser \<Rightarrow> string list \<Rightarrow> gl_state \<Rightarrow> (exn + bool) \<times> gl_state" where
  "createPaletteTexture env colors g =
    (if length colors = 0 then (Inr False, g)
     else if \<not> textureCreated env PaletteTexture then (Inr False, g)
     else
       (let g1 = bindTexture (Some PaletteTexture) g
        in case paletteData colors of
             None \<Rightarrow> (Inl JsError, g1)
           | Some data \<Rightarrow>
               if throws env CreatePaletteTexture then (Inl JsError, g1)
               else (Inr True, texImage2D (BytesImage 256 1 data) g1)))"

definition updatePaletteTexture ::
    "browser \<Rightarrow> tex_name \<Rightarrow> string list \<Rightarrow> gl_state \<Rightarrow> exn option \<times> gl_state" where
  "updatePaletteTexture env t colors g =
    (let g1 = bindTexture (Some t) g
     in case paletteData colors of
          None \<Rightarrow> (Some JsError, g1)
        | Some data \<Rightarrow>
            if throws env UpdatePaletteTexture then (Some JsError, g1)
            else (None, texImage2D (BytesImage 256 1 data) g1))"

section \<open>Renderer service\<close>

text \<open>
  \<^verbatim>\<open>renderFloydSteinberg\<close>. The error texture is allocated with \<^verbatim>\<open>null\<close> data and
  bound to unit 1 as a sampler; both draw calls render to the default framebuffer,
  the canvas. Whether or not the context accepts the float format of the allocation,
  the texture samples as zero afterwards.
\<close>

definition renderFloydSteinberg ::
    "browser \<Rightarrow> tex_name option \<Rightarrow> tex_name \<Rightarrow> nat \<Rightarrow> nat \<Rightarrow> gl_state \<Rightarrow> canvas
      \<Rightarrow> bool \<times> gl_state \<times> canvas" where
  "renderFloydSteinberg env tex errTex w h g cv =
    (if throws env InitErrorTexture then (False, bindTexture (Some errTex) g, cv)
     else
       (let g1 = texImage2D (FloatImage w h) (bindTexture (Some errTex) g);
            g2 = setUniforms (\<lambda>u. u\<lparr>u_passIndex := 0\<rparr>) g1;
            g3 = bindTexture tex (activeTexture 0 g2);
            g4 = setUniforms (\<lambda>u. u\<lparr>u_image := 0\<rparr>) g3;
            g5 = bindTexture (Some errTex) (activeTexture 1 g4);
            g6 = setUniforms (\<lambda>u. u\<lparr>u_errorTexture := 1\<rparr>) g5
        in if throws env (DrawArrays 0) then (False, g6, cv)
           else
             (let cv1 = drawArrays g6 cv;
                  g7 = setUniforms (\<lambda>u. u\<lparr>u_passIndex := 1\<rparr>) g6;
                  g8 = bindTexture tex (activeTexture 0 g7);
                  g9 = bindTexture (Some errTex) (activeTexture 1 g8)
              in if throws env (DrawArrays 1) then (False, g9, cv1)
                 else (True, g9, drawArrays g9 cv1))))"

definition renderStandardDither :: "browser \<Rightarrow> gl_state \<Rightarrow> canvas \<Rightarrow> bool \<times> canvas" where
  "renderStandardDither env g cv =
    (if throws env (DrawArrays 0) then (False, cv) else (True, drawArrays g cv))"

definition setupShaderUniforms ::
    "image \<Rightarrow> ditherOptions \<Rightarrow> tex_name option \<Rightarrow> gl_state \<Rightarrow> gl_state" where
  "setupShaderUniforms img options paletteTex g =
    (let g1 = activeTexture 0 g;
         g2 = setUniforms (\<lambda>u. u\<lparr>
                u_image := 0,
                u_resolution := (real (imageWidth img), real (imageHeight img)),
                u_ditherAmount := ditherAmount options,
                u_ditherType := ditherType options,
                u_bayerSize := (case bayerSize options of None \<Rightarrow> 1 | Some b \<Rightarrow> b),
                u_contrast := (case contrast options of None \<Rightarrow> 0 | Some c \<Rightarrow> c),
                u_highlights := (case highlights options of None \<Rightarrow> 0 | Some c \<Rightarrow> c),
                u_midtones := (case midtones options of None \<Rightarrow> 0 | Some c \<Rightarrow> c),
                u_brightness := (case brightness options of None \<Rightarrow> 1 / 2 | Some c \<Rightarrow> c),
                u_pixelStep := (1 / real (imageWidth img), 1 / real (imageHeight img)),
                u_usePalette := (usePalette options = Some True)\<rparr>) g1
     in case paletteTex of
          None \<Rightarrow> g2
        | Some pt \<Rightarrow>
            activeTexture 0
              (setUniforms (\<lambda>u. u\<lparr>u_palette := 2\<rparr>)
                (bindTexture (Some pt) (activeTexture 2 g2))))"

section \<open>The WebGL service\<close>

text \<open>
  The fields of \<^verbatim>\<open>class WebGLService\<close>. \<open>gl\<close> is the state of the context, \<open>None\<close> while
  the field is \<^verbatim>\<open>null\<close>; \<open>program\<close>, \<open>texture\<close>, \<open>errorTexture\<close> and \<open>paletteTexture\<close> tell
  whether the field holds its object. The key
  that \<^verbatim>\<open>updatePaletteIfNeeded\<close> builds with \<^verbatim>\<open>JSON.stringify\<close> is modelled by the tuple
  of the five option values it serialises: two keys are the same string exactly when
  these values agree (a field that is \<^verbatim>\<open>undefined\<close> is left out of the string). The
  initial value \<^verbatim>\<open>""\<close> of \<^verbatim>\<open>lastPaletteOptions\<close>, which is no key, is \<open>None\<close>.
\<close>

type_synonym paletteKey =
  "bool option \<times> int option \<times> int option \<times> string list option \<times> int option"

record service =
  gl :: "gl_state option"
  program :: bool
  texture :: bool
  errorTexture :: bool
  paletteTexture :: bool
  canvas :: "canvas option"
  lastPaletteOptions :: "paletteKey option"
  isOffscreenCanvas :: bool

definition newService :: service where
  "newService = \<lparr>gl = None, program = False, texture = False, errorTexture = False,
     paletteTexture = False, canvas = None, lastPaletteOptions = None,
     isOffscreenCanvas = False\<rparr>"

definition zeroUniforms :: uniforms where
  "zeroUniforms = \<lparr>u_image = 0, u_errorTexture = 0, u_palette = 0, u_resolution = (0, 0),
     u_ditherAmount = 0, u_ditherType = 0, u_passIndex = 0, u_pixelStep = (0, 0),
     u_bayerSize = 0, u_usePalette = False, u_contrast = 0, u_highlights = 0,
     u_midtones = 0, u_brightness = 0\<rparr>"

text \<open>The state of a context that \<^verbatim>\<open>getContext\<close> has just created for a canvas.\<close>

definition initialGl :: "canvas \<Rightarrow> gl_state" where
  "initialGl cv = \<lparr>quadReady = False, activeUnit = 0, boundTexture = (\<lambda>n. None),
     texImage = (\<lambda>t. NoImage), texUploads = (\<lambda>t. 0), uniformValues = zeroUniforms,
     viewportSize = (canvasWidth cv, canvasHeight cv)\<rparr>"

definition paletteOptionsKey :: "ditherOptions \<Rightarrow> paletteKey" where
  "paletteOptionsKey options =
    (usePalette options, paletteType options, paletteColors options, customPalette options,
     selectedUserPalette options)"

text \<open>
  The body of the \<^verbatim>\<open>try\<close> block of \<^verbatim>\<open>setupWebGL\<close>: \<open>Inl\<close> is an exception that reaches
  the \<^verbatim>\<open>catch\<close>, and the service is returned as the assignments made until then have
  left it. \<open>isHtml\<close> tells whether the canvas is an \<^verbatim>\<open>HTMLCanvasElement\<close>.
\<close>

definition setupWebGL_try ::
    "browser \<Rightarrow> canvas \<Rightarrow> bool \<Rightarrow> service \<Rightarrow> (exn + bool) \<times> service" where
  "setupWebGL_try env cv isHtml s0 =
    (let s1 = s0\<lparr>canvas := Some cv, isOffscreenCanvas := \<not> isHtml\<rparr>
     in if throws env GetContext then (Inl JsError, s1)
        else
          (let s2 = s1\<lparr>gl := (if contextAvailable env then Some (initialGl cv) else None)\<rparr>
           in case gl s2 of
                None \<Rightarrow> (Inr False, s2)
              | Some g \<Rightarrow>
                 if throws env (CreateShader VERTEX_SHADER) then (Inl JsError, s2)
                 else if throws env (CreateShader FRAGMENT_SHADER) then (Inl JsError, s2)
                 else if \<not> createShader env VERTEX_SHADER \<or> \<not> createShader env FRAGMENT_SHADER
                   then (Inr False, s2)
                 else if throws env CreateProgram then (Inl JsError, s2)
                 else
                   (let s3 = s2\<lparr>program := createProgram env\<rparr>
                    in if \<not> program s3 then (Inr False, s3)
                       else if throws env UseProgram then (Inl JsError, s3)
                       else if throws env SetupPositionBuffer then (Inl JsError, s3)
                       else
                         (let g1 = g\<lparr>quadReady := True\<rparr>;
                              s4 = s3\<lparr>gl := Some g1\<rparr>
                          in if throws env CreateMainTexture then (Inl JsError, s4)
                             else
                               (let (t, g2) = createMainTexture env g1;
                                    s5 = s4\<lparr>texture := t, gl := Some g2\<rparr>
                                in if throws env CreateErrorTexture then (Inl JsError, s5)
                                   else
                                     (let (et, g3) = createErrorTexture env g2;
                                          s6 = s5\<lparr>errorTexture := et, gl := Some g3\<rparr>
                                      in case createPaletteTexture env
                                                [''#000000'', ''#FFFFFF''] g3 of
                                           (Inl e, g4) \<Rightarrow> (Inl e, s6\<lparr>gl := Some g4\<rparr>)
                                         | (Inr pt, g4) \<Rightarrow>
                                             (Inr True,
                                              s6\<lparr>paletteTexture := pt, gl := Some g4\<rparr>)))))))"

text \<open>\<^verbatim>\<open>setupWebGL\<close>: the \<^verbatim>\<open>catch\<close> turns an exception into the result \<^verbatim>\<open>false\<close>.\<close>

definition setupWebGL ::
    "browser \<Rightarrow> canvas \<Rightarrow> bool \<Rightarrow> service \<Rightarrow> (exn + bool) \<times> service" where
  "setupWebGL env cv isHtml s =
    (case setupWebGL_try env cv isHtml s of
       (Inl e, s') \<Rightarrow> (Inr False, s')
     | (Inr b, s') \<Rightarrow> (Inr b, s'))"

definition updatePaletteIfNeeded ::
    "browser \<Rightarrow> ditherOptions \<Rightarrow> service \<Rightarrow> exn option \<times> service" where
  "updatePaletteIfNeeded env options s =
    (case gl s of
       None \<Rightarrow> (None, s)
     | Some g \<Rightarrow>
        if \<not> paletteTexture s then (None, s)
        else
          (let paletteOptionsKey0 = paletteOptionsKey options
           in if lastPaletteOptions s = Some paletteOptionsKey0 then (None, s)
              else
                (let colors = getPaletteColors options
                 in case (if length colors \<noteq> 0
                          then updatePaletteTexture env PaletteTexture colors g
                          else updatePaletteTexture env PaletteTexture
                                 [''#000000'', ''#FFFFFF''] g) of
                      (Some e, g1) \<Rightarrow> (Some e, s\<lparr>gl := Some g1\<rparr>)
                    | (None, g1) \<Rightarrow>
                        (None, s\<lparr>gl := Some g1,
                                  lastPaletteOptions := Some paletteOptionsKey0\<rparr>))))"

text \<open>
  The body of the \<^verbatim>\<open>try\<close> block of \<^verbatim>\<open>ditherImage\<close>, entered with the context \<open>g\<close> and
  the canvas \<open>cv\<close> of the service (the guard has found them).
\<close>

definition ditherImage_try ::
    "browser \<Rightarrow> image \<Rightarrow> ditherOptions \<Rightarrow> gl_state \<Rightarrow> canvas \<Rightarrow> service
      \<Rightarrow> (exn + bool) \<times> service" where
  "ditherImage_try env processedImage options g cv s =
    (if throws env AnimationFrame then (Inl JsError, s)
     else
       (let w = imageWidth processedImage;
            h = imageHeight processedImage;
            cv1 = resizeCanvas w h cv;
            s1 = s\<lparr>canvas := Some cv1\<rparr>
        in if throws env Viewport then (Inl JsError, s1)
           else
             (let g1 = g\<lparr>viewportSize := (w, h)\<rparr>;
                  s2 = s1\<lparr>gl := Some g1\<rparr>
              in if throws env Clear then (Inl JsError, s2)
                 else
                   (let cv2 = clearCanvas cv1;
                        s3 = s2\<lparr>canvas := Some cv2\<rparr>
                    in case (if texture s
                             then loadImageTexture env MainTexture processedImage
                                    (activeTexture 0 g1)
                             else (None, g1)) of
                         (Some e, g2) \<Rightarrow> (Inl e, s3\<lparr>gl := Some g2\<rparr>)
                       | (None, g2) \<Rightarrow>
                          (let g3 = activeTexture 0 g2;
                               s4 = s3\<lparr>gl := Some g3\<rparr>
                           in case updatePaletteIfNeeded env options s4 of
                                (Some e, s5) \<Rightarrow> (Inl e, s5)
                              | (None, s5) \<Rightarrow>
                                 if throws env SetupShaderUniforms then (Inl JsError, s5)
                                 else
                                   (let g4 = (case gl s5 of None \<Rightarrow> g3 | Some g' \<Rightarrow> g');
                                        g5 = setupShaderUniforms processedImage options
                                               (if paletteTexture s5 then Some PaletteTexture
                                                else None) g4;
                                        s6 = s5\<lparr>gl := Some g5\<rparr>
                                    in if ditherType options = 1 then
                                         (if \<not> errorTexture s6 then (Inr False, s6)
                                          else
                                            (case renderFloydSteinberg env
                                                    (if texture s6 then Some MainTexture
                                                     else None)
                                                    ErrorTexture w h g5 cv2 of
                                               (ok, g6, cv3) \<Rightarrow>
                                                 (Inr ok,
                                                  s6\<lparr>gl := Some g6, canvas := Some cv3\<rparr>)))
                                       else if throws env BindMainTexture
                                         then (Inl JsError, s6)
                                       else
                                         (let g6 = bindTexture
                                                     (if texture s6 then Some MainTexture
                                                      else None)
                                                     (activeTexture 0 g5)
                                          in case renderStandardDither env g6 cv2 of
                                               (ok, cv3) \<Rightarrow>
                                                 (Inr ok,
                                                  s6\<lparr>gl := Some g6,
                                                     canvas := Some cv3\<rparr>))))))))"

text \<open>
  The image that \<^verbatim>\<open>ditherImage\<close> processes: the down-sampled image when a factor
  above 1 is requested and down-sampling (the browser's) succeeds, the original image
  otherwise.
\<close>

definition processedImageOf :: "browser \<Rightarrow> image \<Rightarrow> ditherOptions \<Rightarrow> image" where
  "processedImageOf env img options =
    (let downSamplingFactor =
           (case downSampling options of
              None \<Rightarrow> 1
            | Some f \<Rightarrow> if f = 0 then 1 else f)
     in if downSamplingFactor > 1 then
          (case downSampleImage env img downSamplingFactor of
             Inl e \<Rightarrow> img
           | Inr small \<Rightarrow> small)
        else img)"

text \<open>\<^verbatim>\<open>ditherImage\<close>. The result \<open>Inl\<close> would be a rejected promise.\<close>

definition ditherImage ::
    "browser \<Rightarrow> image \<Rightarrow> ditherOptions \<Rightarrow> service \<Rightarrow> (exn + bool) \<times> service" where
  "ditherImage env img options s =
    (case gl s of
       None \<Rightarrow> (Inr False, s)
     | Some g \<Rightarrow>
        if \<not> program s then (Inr False, s)
        else
          (case canvas s of
             None \<Rightarrow> (Inr False, s)
           | Some cv \<Rightarrow>
              (let processedImage = processedImageOf env img options
               in case ditherImage_try env processedImage options g cv s of
                    (Inl e, s') \<Rightarrow> (Inr False, s')
                  | (Inr b, s') \<Rightarrow> (Inr b, s'))))"

section \<open>Notions used in the statements\<close>

text \<open>
  The colours that \<^verbatim>\<open>updatePaletteIfNeeded\<close> rasterizes when it uploads (the resolved
  palette, or black and white when that is empty), and the bytes it uploads for them
  (the rasterization never fails on a list that is not empty, see \<open>paletteData_effective\<close>
  below).
\<close>

definition effectiveColors :: "ditherOptions \<Rightarrow> string list" where
  "effectiveColors options =
     (if length (getPaletteColors options) \<noteq> 0 then getPaletteColors options
      else [''#000000'', ''#FFFFFF''])"

definition uploadedBytes :: "ditherOptions \<Rightarrow> nat list" where
  "uploadedBytes options =
     (case paletteData (effectiveColors options) of None \<Rightarrow> [] | Some d \<Rightarrow> d)"

definition rgba :: "vec3 \<Rightarrow> real \<Rightarrow> vec4" where
  "rgba c a = (case c of (r, g, b) \<Rightarrow> (r, g, b, a))"

text \<open>
  The states of the context along a render call in which nothing throws, written out
  from the body of \<^verbatim>\<open>ditherImage\<close>: \<open>preparedGl\<close> after \<^verbatim>\<open>setupShaderUniforms\<close>,
  \<open>pass0Gl\<close> at the first draw call of \<^verbatim>\<open>renderFloydSteinberg\<close>, and \<open>finalGl\<close> at the last
  draw call of the render call. They serve the proofs; \<open>ditherImage_try_success\<close> below
  proves that they are what the code computes.
\<close>

definition preparedGl :: "image \<Rightarrow> ditherOptions \<Rightarrow> gl_state \<Rightarrow> service \<Rightarrow> gl_state" where
  "preparedGl p options g s =
    (let g1 = g\<lparr>viewportSize := (imageWidth p, imageHeight p)\<rparr>;
         g2 = (if texture s
               then texImage2D (ElementImage (imageSample p))
                      (bindTexture (Some MainTexture) (activeTexture 0 g1))
               else g1);
         g3 = activeTexture 0 g2;
         g4 = (if paletteTexture s \<and> lastPaletteOptions s \<noteq> Some (paletteOptionsKey options)
               then texImage2D (BytesImage 256 1 (uploadedBytes options))
                      (bindTexture (Some PaletteTexture) g3)
               else g3)
     in setupShaderUniforms p options
          (if paletteTexture s then Some PaletteTexture else None) g4)"

definition pass0Gl :: "image \<Rightarrow> ditherOptions \<Rightarrow> gl_state \<Rightarrow> service \<Rightarrow> gl_state" where
  "pass0Gl p options g s =
    (let g5 = preparedGl p options g s;
         g1 = texImage2D (FloatImage (imageWidth p) (imageHeight p))
                (bindTexture (Some ErrorTexture) g5);
         g2 = setUniforms (\<lambda>u. u\<lparr>u_passIndex := 0\<rparr>) g1;
         g3 = bindTexture (if texture s then Some MainTexture else None) (activeTexture 0 g2);
         g4 = setUniforms (\<lambda>u. u\<lparr>u_image := 0\<rparr>) g3;
         g5' = bindTexture (Some ErrorTexture) (activeTexture 1 g4)
     in setUniforms (\<lambda>u. u\<lparr>u_errorTexture := 1\<rparr>) g5')"

definition finalGl :: "image \<Rightarrow> ditherOptions \<Rightarrow> gl_state \<Rightarrow> service \<Rightarrow> gl_state" where
  "finalGl p options g s =
    (if ditherType options = 1 then
       (let g7 = setUniforms (\<lambda>u. u\<lparr>u_passIndex := 1\<rparr>) (pass0Gl p options g s);
            g8 = bindTexture (if texture s then Some MainTexture else None)
                   (activeTexture 0 g7)
        in bindTexture (Some ErrorTexture) (activeTexture 1 g8))
     else bindTexture (if texture s then Some MainTexture else None)
            (activeTexture 0 (preparedGl p options g s)))"

text \<open>
  Concrete inputs for the closed theorems: a browser in which every creation succeeds
  and nothing throws, one in which no texture can be created, a canvas of one pixel,
  an image of one pixel of the grey 0.6, and options that leave every optional field
  undefined.
\<close>

definition okBrowser :: browser where
  "okBrowser = \<lparr>throws = (\<lambda>c. False), contextAvailable = True,
     shaderCreated = (\<lambda>k. True), shaderCompiles = (\<lambda>k. True), programCreated = True,
     programLinks = True, textureCreated = (\<lambda>t. True),
     downSampleImage = (\<lambda>img f. Inr img)\<rparr>"

definition noTextureBrowser :: browser where
  "noTextureBrowser = okBrowser\<lparr>textureCreated := (\<lambda>t. False)\<rparr>"

definition noErrorTextureBrowser :: browser where
  "noErrorTextureBrowser = okBrowser\<lparr>textureCreated := (\<lambda>t. t \<noteq> ErrorTexture)\<rparr>"

definition onePixelCanvas :: canvas where
  "onePixelCanvas = \<lparr>canvasWidth = 1, canvasHeight = 1, pixels = (\<lambda>p. (0, 0, 0, 0))\<rparr>"

definition greyImage :: image where
  "greyImage = \<lparr>imageWidth = 1, imageHeight = 1, imageSample = (\<lambda>uv. (3 / 5, 3 / 5, 3 / 5))\<rparr>"

definition plainOptions :: "real \<Rightarrow> int \<Rightarrow> ditherOptions" where
  "plainOptions amount type = \<lparr>ditherAmount = amount, ditherType = type, bayerSize = None,
     downSampling = None, contrast = None, highlights = None, midtones = None,
     brightness = None, usePalette = None, paletteType = None, paletteColors = None,
     customPalette = None, userPalettes = None, selectedUserPalette = None\<rparr>"

text \<open>
  The uniforms \<open>U\<close> carry the option values and the size of the processed image \<open>p\<close>, as
  \<^verbatim>\<open>setupShaderUniforms\<close> sets them.
\<close>

definition optionUniforms :: "image \<Rightarrow> ditherOptions \<Rightarrow> uniforms \<Rightarrow> bool" where
  "optionUniforms p options U =
    (u_resolution U = (real (imageWidth p), real (imageHeight p))
     \<and> u_ditherAmount U = ditherAmount options
     \<and> u_ditherType U = ditherType options
     \<and> u_bayerSize U = (case bayerSize options of None \<Rightarrow> 1 | Some b \<Rightarrow> b)
     \<and> u_usePalette U = (usePalette options = Some True)
     \<and> u_contrast U = (case contrast options of None \<Rightarrow> 0 | Some c \<Rightarrow> c)
     \<and> u_highlights U = (case highlights options of None \<Rightarrow> 0 | Some c \<Rightarrow> c)
     \<and> u_midtones U = (case midtones options of None \<Rightarrow> 0 | Some c \<Rightarrow> c)
     \<and> u_brightness U = (case brightness options of None \<Rightarrow> 1 / 2 | Some c \<Rightarrow> c))"

text \<open>
  Options with the palette enabled: one built-in palette type with a colour count, and
  the user palette 1 with a given list of user palettes.
\<close>

definition builtinOptions :: "int \<Rightarrow> int \<Rightarrow> ditherOptions" where
  "builtinOptions t n =
     (plainOptions 0 0)\<lparr>usePalette := Some True, paletteType := Some t, paletteColors := Some n\<rparr>"

definition userOptions :: "userPaletteDefinition list \<Rightarrow> ditherOptions" where
  "userOptions ups =
     (plainOptions 0 0)\<lparr>usePalette := Some True, paletteType := Some PaletteType_USER,
        userPalettes := Some ups, selectedUserPalette := Some 1\<rparr>"

definition emptiedUserPalettes :: "userPaletteDefinition list" where
  "emptiedUserPalettes = [\<lparr>up_id = 1, up_name = ''Ocean Blue'', up_colors = []\<rparr>]"

text \<open>
  The render calls whose only failure is the second draw call of error diffusion: the
  type is error diffusion, the error texture exists, no step before the second draw
  call throws, and the second draw call throws. The conditions are those of the
  statements of \<^verbatim>\<open>ditherImage\<close> and \<^verbatim>\<open>renderFloydSteinberg\<close>, in their order.
\<close>

definition secondDrawFails :: "browser \<Rightarrow> ditherOptions \<Rightarrow> service \<Rightarrow> bool" where
  "secondDrawFails env options s \<longleftrightarrow>
     ditherType options = 1 \<and> errorTexture s
     \<and> \<not> throws env AnimationFrame \<and> \<not> throws env Viewport \<and> \<not> throws env Clear
     \<and> (texture s \<longrightarrow> \<not> throws env LoadImageTexture)
     \<and> (paletteTexture s \<and> lastPaletteOptions s \<noteq> Some (paletteOptionsKey options)
          \<longrightarrow> \<not> throws env UpdatePaletteTexture)
     \<and> \<not> throws env SetupShaderUniforms \<and> \<not> throws env InitErrorTexture
     \<and> \<not> throws env (DrawArrays 0) \<and> throws env (DrawArrays 1)"

text \<open>A browser in which the second draw call of a render, and nothing else, throws.\<close>

definition secondDrawBrowser :: browser where
  "secondDrawBrowser = okBrowser\<lparr>throws := (\<lambda>c. c = DrawArrays 1)\<rparr>"

chapter \<open>Verified properties\<close>

section \<open>Periodicity of the threshold lookup\<close>

lemma glsl_mod_shift: "y \<noteq> 0 \<Longrightarrow> glsl_mod (x + y) y = glsl_mod x y"
proof -
  assume y: "y \<noteq> 0"
  have "(x + y) / y = x / y + 1"
    using y by (simp add: add_divide_distrib)
  then have "\<lfloor>(x + y) / y\<rfloor> = \<lfloor>x / y\<rfloor> + 1"
    by simp
  then show ?thesis
    by (simp add: glsl_mod_def algebra_simps)
qed

lemma getBayerThreshold_period_x:
  "getBayerThreshold bs (x + matrixSize bs) y = getBayerThreshold bs x y"
  using glsl_mod_shift [of 2 "of_int x"] glsl_mod_shift [of 4 "of_int x"]
    glsl_mod_shift [of 8 "of_int x"]
  by (simp add: getBayerThreshold_def matrixSize_def getBayerThreshold2x2_def
      getBayerThreshold4x4_def getBayerThreshold8x8_def)

lemma getBayerThreshold_period_y:
  "getBayerThreshold bs x (y + matrixSize bs) = getBayerThreshold bs x y"
  using glsl_mod_shift [of 2 "of_int y"] glsl_mod_shift [of 4 "of_int y"]
    glsl_mod_shift [of 8 "of_int y"]
  by (simp add: getBayerThreshold_def matrixSize_def getBayerThreshold2x2_def
      getBayerThreshold4x4_def getBayerThreshold8x8_def)

lemma matrixSize_nonzero: "(of_int (matrixSize bs) :: real) \<noteq> 0"
  by (simp add: matrixSize_def)

lemma pixelThreshold_period_x:
  "pixelThreshold bs (px + matrixSize bs) py = pixelThreshold bs px py"
proof -
  have "glsl_mod (of_int px + 1 / 2 + of_int (matrixSize bs)) (of_int (matrixSize bs))
      = glsl_mod (of_int px + 1 / 2) (of_int (matrixSize bs))"
    by (rule glsl_mod_shift [OF matrixSize_nonzero])
  then show ?thesis
    by (simp add: pixelThreshold_def fragThreshold_def pixelCentre_def add.commute
        add.left_commute)
qed

lemma pixelThreshold_period_y:
  "pixelThreshold bs px (py + matrixSize bs) = pixelThreshold bs px py"
proof -
  have "glsl_mod (of_int py + 1 / 2 + of_int (matrixSize bs)) (of_int (matrixSize bs))
      = glsl_mod (of_int py + 1 / 2) (of_int (matrixSize bs))"
    by (rule glsl_mod_shift [OF matrixSize_nonzero])
  then show ?thesis
    by (simp add: pixelThreshold_def fragThreshold_def pixelCentre_def add.commute
        add.left_commute)
qed

text \<open>
  Claim C7. For every integer pixel coordinate and every setting of the matrix-size
  uniform (sizes 2, 4 and 8), the Bayer threshold is periodic with the matrix size as
  period in both directions. This holds for the threshold the shader computes at the
  pixel's fragment and for the lookup function \<^verbatim>\<open>getBayerThreshold\<close> itself; the sizes
  the uniform can select are exactly 2, 4 and 8.
\<close>

theorem bayer_threshold_periodic:
  "pixelThreshold bs (px + matrixSize bs) py = pixelThreshold bs px py
   \<and> pixelThreshold bs px (py + matrixSize bs) = pixelThreshold bs px py
   \<and> getBayerThreshold bs (x + matrixSize bs) y = getBayerThreshold bs x y
   \<and> getBayerThreshold bs x (y + matrixSize bs) = getBayerThreshold bs x y
   \<and> matrixSize 0 = 2 \<and> matrixSize 1 = 4 \<and> matrixSize 2 = 8"
  using pixelThreshold_period_x [of bs px py] pixelThreshold_period_y [of bs px py]
    getBayerThreshold_period_x [of bs x y] getBayerThreshold_period_y [of bs x y]
  by (simp add: matrixSize_def)

section \<open>The pixel stage at the ends of the dither amount\<close>

lemma mix_zero: "mix x y 0 = x"
  by (simp add: mix_def)

lemma mix_one: "mix x y 1 = y"
  by (simp add: mix_def)

lemma mix_same: "mix x x a = x"
  by (simp add: mix_def algebra_simps)

lemma vmix_zero: "vmix u v 0 = u"
  by (cases u; cases v) (simp add: vmix_def mix_zero)

lemma vmix_one: "vmix u v 1 = v"
  by (cases u; cases v) (simp add: vmix_def mix_one)

lemma vmix_same: "vmix u u a = u"
  by (cases u) (simp add: vmix_def mix_same)

lemma main_bayer_zero:
  "u_ditherAmount u = 0 \<Longrightarrow> u_ditherType u = 0 \<Longrightarrow>
   main u tex fc = findClosestPaletteColor u tex (reduceColor (preprocessed u tex fc) 16)"
  by (simp add: main_def Let_def mix_zero vmix_zero findClosestPaletteColor_def)

lemma main_ordered_zero:
  "u_ditherAmount u = 0 \<Longrightarrow> u_ditherType u = 2 \<Longrightarrow>
   main u tex fc = findClosestPaletteColor u tex (preprocessed u tex fc)"
  by (simp add: main_def Let_def mix_zero vmix_zero findClosestPaletteColor_def)

lemma main_bayer_one:
  "u_ditherAmount u = 1 \<Longrightarrow> u_ditherType u = 0 \<Longrightarrow>
   main u tex fc = findClosestPaletteColor u tex
     (if toGrayscale (preprocessed u tex fc) > fragThreshold (u_bayerSize u) fc
      then vec3s 1 else vec3s 0)"
  by (simp add: main_def Let_def vmix_one findClosestPaletteColor_def)

lemma main_ordered_one:
  "u_ditherAmount u = 1 \<Longrightarrow> u_ditherType u = 2 \<Longrightarrow>
   main u tex fc = findClosestPaletteColor u tex
     (if toGrayscale (preprocessed u tex fc)
           > fract (sin (dot2 (fragUV u fc) (12.9898, 78.233)) * 43758.5453)
      then vec3s 1 else vec3s 0)"
  by (simp add: main_def Let_def vmix_one findClosestPaletteColor_def)

text \<open>
  Error diffusion: when the error sampler reads zero, the second pass computes what the
  first pass computed.
\<close>

lemma vadd_zero: "vadd c (0, 0, 0) = c"
  by (cases c) (simp add: vadd_def)

lemma applyFloydSteinberg_zero_error:
  assumes "\<And>uv. tex (u_errorTexture u) uv = (0, 0, 0)"
  shows "applyFloydSteinberg u tex fc uv c levels =
     (if u_usePalette u then findClosestPaletteColor u tex c else reduceColor c levels)"
  by (simp add: applyFloydSteinberg_def Let_def assms vadd_zero)

lemma main_error_diffusion:
  assumes "u_ditherType u \<noteq> 0" "u_ditherType u \<noteq> 2"
    and "\<And>uv. tex (u_errorTexture u) uv = (0, 0, 0)"
  shows "main u tex fc =
     (if u_usePalette u then findClosestPaletteColor u tex (preprocessed u tex fc)
      else reduceColor (preprocessed u tex fc) (mix 16 2 (u_ditherAmount u)))"
proof -
  have "applyFloydSteinberg u tex fc (fragUV u fc) (preprocessed u tex fc)
          (mix 16 2 (u_ditherAmount u)) =
        (if u_usePalette u then findClosestPaletteColor u tex (preprocessed u tex fc)
         else reduceColor (preprocessed u tex fc) (mix 16 2 (u_ditherAmount u)))"
    by (rule applyFloydSteinberg_zero_error) (rule assms(3))
  with assms(1,2) show ?thesis by (simp add: main_def Let_def)
qed

text \<open>Preprocessing with neutral settings leaves a colour of the unit cube as it is.\<close>

lemma adjustContrast_neutral:
  "0 \<le> r \<Longrightarrow> r \<le> 1 \<Longrightarrow> 0 \<le> g \<Longrightarrow> g \<le> 1 \<Longrightarrow> 0 \<le> b \<Longrightarrow> b \<le> 1 \<Longrightarrow>
   adjustContrast (r, g, b) 0 = (r, g, b)"
  by (simp add: adjustContrast_def vclamp_def clampf_def)

lemma adjustHighlights_neutral:
  "0 \<le> r \<Longrightarrow> r \<le> 1 \<Longrightarrow> 0 \<le> g \<Longrightarrow> g \<le> 1 \<Longrightarrow> 0 \<le> b \<Longrightarrow> b \<le> 1 \<Longrightarrow>
   adjustHighlights (r, g, b) 0 = (r, g, b)"
  by (simp add: adjustHighlights_def vclamp_def clampf_def Let_def mix_zero vmix_same)

lemma adjustMidtones_neutral:
  "0 \<le> r \<Longrightarrow> r \<le> 1 \<Longrightarrow> 0 \<le> g \<Longrightarrow> g \<le> 1 \<Longrightarrow> 0 \<le> b \<Longrightarrow> b \<le> 1 \<Longrightarrow>
   adjustMidtones (r, g, b) 0 = (r, g, b)"
  by (simp add: adjustMidtones_def vclamp_def clampf_def Let_def mix_zero vmix_same)

lemma preprocessImage_neutral:
  "0 \<le> r \<Longrightarrow> r \<le> 1 \<Longrightarrow> 0 \<le> g \<Longrightarrow> g \<le> 1 \<Longrightarrow> 0 \<le> b \<Longrightarrow> b \<le> 1 \<Longrightarrow>
   u_contrast u = 0 \<Longrightarrow> u_highlights u = 0 \<Longrightarrow> u_midtones u = 0 \<Longrightarrow>
   u_brightness u = 1 / 2 \<Longrightarrow> preprocessImage u (r, g, b) = (r, g, b)"
  by (simp add: preprocessImage_def Let_def adjustContrast_neutral adjustHighlights_neutral
      adjustMidtones_neutral)

text \<open>The palette lookup at the luminance of black and of white.\<close>

lemma toGrayscale_black: "toGrayscale (vec3s 0) = 0"
  by (simp add: toGrayscale_def vec3s_def)

lemma toGrayscale_white: "toGrayscale (vec3s 1) = 1"
  by (simp add: toGrayscale_def vec3s_def)

lemma sampleLinear_first: "sampleLinear 256 data 0 = texelColor data 0"
  by (simp add: sampleLinear_def clampf_def Let_def vmix_zero)

lemma sampleLinear_last: "sampleLinear 256 data 1 = texelColor data 255"
  by (simp add: sampleLinear_def clampf_def Let_def vmix_zero)

section \<open>Rasterization of a palette\<close>

lemma and_255_range: "0 \<le> (x::int) AND 255 \<and> x AND 255 \<le> 255"
  by (simp add: AND_upper2')

lemma and_15_range: "0 \<le> (x::int) AND 15 \<and> x AND 15 \<le> 15"
  by (simp add: AND_upper2')

lemma hexToRgb_range:
  "hexToRgb h = (r, g, b) \<Longrightarrow> 0 \<le> r \<and> r \<le> 255 \<and> 0 \<le> g \<and> g \<le> 255 \<and> 0 \<le> b \<and> b \<le> 255"
  using and_255_range and_15_range
  by (auto simp: hexToRgb_def Let_def split: if_splits)

lemma colorIndexAt_nonneg: "0 < n \<Longrightarrow> 0 \<le> colorIndexAt n i"
  by (simp add: colorIndexAt_def Let_def)

lemma colorIndexAt_less: "colorIndexAt n i < int n"
  by (simp add: colorIndexAt_def Let_def min_def)

lemma colorIndexAt_alt: "colorIndexAt n i = min (int (i * n div 255)) (int n - 1)"
proof -
  have "\<lfloor>real i / 255 * real n\<rfloor> = \<lfloor>real (i * n) / real 255\<rfloor>" by simp
  also have "\<dots> = int (i * n div 255)"
    by (simp only: floor_divide_of_nat_eq)
  finally show ?thesis by (simp add: colorIndexAt_def Let_def)
qed

lemma colorIndexAt_mono: "i \<le> j \<Longrightarrow> colorIndexAt n i \<le> colorIndexAt n j"
proof -
  assume "i \<le> j"
  then have "i * n div 255 \<le> j * n div 255"
    by (intro div_le_mono mult_le_mono1)
  then show ?thesis by (simp add: colorIndexAt_alt min_def)
qed

text \<open>The position at which the band of colour \<open>k\<close> starts.\<close>

lemma band_nonempty:
  assumes "0 < n" "n \<le> 255" "k < n"
  shows "\<exists>i<256. colorIndexAt n i = int k"
proof -
  define i where "i = (255 * k + n - 1) div n"
  define r where "r = (255 * k + n - 1) mod n"
  have r: "r < n" using assms(1) by (simp add: r_def)
  have eq: "i * n + r = 255 * k + n - 1"
    by (simp add: i_def r_def)
  have lo: "255 * k \<le> i * n" using eq r by linarith
  have hi: "i * n < 255 * k + 255" using eq assms by linarith
  have "i * n div 255 < k + 1"
    using hi by (simp add: less_mult_imp_div_less mult.commute)
  moreover have "k \<le> i * n div 255"
  proof -
    have "255 * k div 255 \<le> i * n div 255" by (rule div_le_mono [OF lo])
    then show ?thesis by simp
  qed
  ultimately have c: "i * n div 255 = k" by simp
  have "k + 1 \<le> n" using assms by simp
  then have "255 * (k + 1) \<le> 255 * n" by (rule mult_le_mono2)
  then have "255 * k + 255 \<le> 255 * n" by simp
  with hi have "i * n < 255 * n" by (rule less_le_trans)
  then have "i < 256" by simp
  moreover have "colorIndexAt n i = int k"
    using c assms by (simp add: colorIndexAt_alt)
  ultimately show ?thesis by blast
qed

text \<open>One round of the loop, and the loop unfolded by one round.\<close>

lemma fill_unfold:
  "colors \<noteq> [] \<Longrightarrow> i < 256 \<Longrightarrow>
   fillPaletteData colors i data =
     fillPaletteData colors (i + 1)
       (storeByte (storeByte (storeByte (storeByte data (i * 4)
          (fst (hexToRgb (colors ! nat (colorIndexAt (length colors) i))))) (i * 4 + 1)
          (fst (snd (hexToRgb (colors ! nat (colorIndexAt (length colors) i)))))) (i * 4 + 2)
          (snd (snd (hexToRgb (colors ! nat (colorIndexAt (length colors) i)))))) (i * 4 + 3)
          255)"
  using colorIndexAt_nonneg [of "length colors" i]
  by (subst fillPaletteData.simps) (simp add: Let_def)

lemma fill_done: "\<not> i < 256 \<Longrightarrow> fillPaletteData colors i data = Some data"
  by (subst fillPaletteData.simps) simp

lemma round_texel:
  assumes "4 * i + 3 < length data"
  shows "texelAt (storeByte (storeByte (storeByte (storeByte data (i * 4)
          (fst (hexToRgb (colors ! nat (colorIndexAt (length colors) i))))) (i * 4 + 1)
          (fst (snd (hexToRgb (colors ! nat (colorIndexAt (length colors) i)))))) (i * 4 + 2)
          (snd (snd (hexToRgb (colors ! nat (colorIndexAt (length colors) i)))))) (i * 4 + 3)
          255) i = paletteTexel colors i"
proof -
  obtain r g b where rgb: "hexToRgb (colors ! nat (colorIndexAt (length colors) i)) = (r, g, b)"
    by (cases "hexToRgb (colors ! nat (colorIndexAt (length colors) i))") auto
  from hexToRgb_range [OF rgb] have "r mod 256 = r" "g mod 256 = g" "b mod 256 = b"
    by simp_all
  with assms rgb show ?thesis
    by (simp add: texelAt_def paletteTexel_def storeByte_def mult.commute)
qed

lemma fill_invariant:
  "colors \<noteq> [] \<Longrightarrow> length data = 1024 \<Longrightarrow>
   \<exists>d. fillPaletteData colors i data = Some d \<and> length d = 1024
       \<and> (\<forall>k. k < 4 * i \<longrightarrow> d ! k = data ! k)
       \<and> (\<forall>j. i \<le> j \<and> j < 256 \<longrightarrow> texelAt d j = paletteTexel colors j)"
proof (induction colors i data rule: fillPaletteData.induct)
  case (1 colors i data)
  show ?case
  proof (cases "i < 256")
    case False
    then show ?thesis using "1.prems" by (auto simp: fill_done)
  next
    case True
    define d1 where "d1 = storeByte (storeByte (storeByte (storeByte data (i * 4)
          (fst (hexToRgb (colors ! nat (colorIndexAt (length colors) i))))) (i * 4 + 1)
          (fst (snd (hexToRgb (colors ! nat (colorIndexAt (length colors) i)))))) (i * 4 + 2)
          (snd (snd (hexToRgb (colors ! nat (colorIndexAt (length colors) i)))))) (i * 4 + 3)
          255"
    have nn: "\<not> colorIndexAt (length colors) i < 0"
      using colorIndexAt_nonneg [of "length colors" i] "1.prems" by simp
    have len1: "length d1 = 1024"
      using "1.prems" by (simp add: d1_def storeByte_def)
    have "\<exists>d. fillPaletteData colors (i + 1) d1 = Some d \<and> length d = 1024
       \<and> (\<forall>k. k < 4 * (i + 1) \<longrightarrow> d ! k = d1 ! k)
       \<and> (\<forall>j. i + 1 \<le> j \<and> j < 256 \<longrightarrow> texelAt d j = paletteTexel colors j)"
      unfolding d1_def
      by (rule "1.IH" [OF True refl nn refl refl refl refl refl refl])
         (use "1.prems" in \<open>simp_all add: storeByte_def\<close>)
    then obtain d where d: "fillPaletteData colors (i + 1) d1 = Some d" "length d = 1024"
      and keep: "\<And>k. k < 4 * (i + 1) \<Longrightarrow> d ! k = d1 ! k"
      and rest: "\<And>j. i + 1 \<le> j \<Longrightarrow> j < 256 \<Longrightarrow> texelAt d j = paletteTexel colors j"
      by blast
    have here: "texelAt d i = paletteTexel colors i"
    proof -
      have "texelAt d i = texelAt d1 i"
        by (simp add: texelAt_def keep)
      also have "\<dots> = paletteTexel colors i"
        unfolding d1_def using True "1.prems" by (intro round_texel) simp
      finally show ?thesis .
    qed
    have "\<forall>j. i \<le> j \<and> j < 256 \<longrightarrow> texelAt d j = paletteTexel colors j"
    proof (intro allI impI)
      fix j assume "i \<le> j \<and> j < 256"
      then show "texelAt d j = paletteTexel colors j"
        using here rest [of j] by (cases "j = i") auto
    qed
    moreover have "\<forall>k. k < 4 * i \<longrightarrow> d ! k = data ! k"
    proof (intro allI impI)
      fix k assume k: "k < 4 * i"
      then have "d ! k = d1 ! k" by (simp add: keep)
      also have "\<dots> = data ! k" using k by (simp add: d1_def storeByte_def)
      finally show "d ! k = data ! k" .
    qed
    moreover have "fillPaletteData colors i data = fillPaletteData colors (i + 1) d1"
      unfolding d1_def using True "1.prems" by (intro fill_unfold) simp_all
    ultimately show ?thesis
      using d by simp
  qed
qed

lemma paletteData_texels:
  assumes "colors \<noteq> []"
  shows "\<exists>d. paletteData colors = Some d \<and> length d = 1024
           \<and> (\<forall>j<256. texelAt d j = paletteTexel colors j)"
  using fill_invariant [of colors "replicate (256 * 4) 0" 0] assms
  by (auto simp: paletteData_def)

text \<open>
  Claim C6. Rasterizing a list of \<open>n\<close> colours, \<open>2 \<le> n \<le> 16\<close>, succeeds and gives a
  buffer of 256 entries of four bytes. Entry \<open>i\<close> holds the red, green and blue bytes
  of the colour at list index \<open>min (floor (i / 255 * n)) (n - 1)\<close> and alpha 255. That
  index lies in the list, it does not decrease as \<open>i\<close> grows, and every list index is
  the index of some entry: the entries form \<open>n\<close> contiguous bands in list order. Both
  \<^verbatim>\<open>updatePaletteTexture\<close> and \<^verbatim>\<open>createPaletteTexture\<close> upload exactly this buffer as a
  256 by 1 image.
\<close>

theorem palette_rasterization_bands:
  assumes "2 \<le> length colors" and "length colors \<le> 16"
  shows "\<exists>data. paletteData colors = Some data \<and> length data = 256 * 4
    \<and> (\<forall>i<256.
          texelAt data i =
            (case hexToRgb (colors ! nat (colorIndexAt (length colors) i)) of
               (r, g, b) \<Rightarrow> (nat r, nat g, nat b, 255))
          \<and> colorIndexAt (length colors) i
              = min \<lfloor>real i / 255 * real (length colors)\<rfloor> (int (length colors) - 1)
          \<and> 0 \<le> colorIndexAt (length colors) i
          \<and> colorIndexAt (length colors) i < int (length colors))
    \<and> (\<forall>i j. i \<le> j \<longrightarrow> colorIndexAt (length colors) i \<le> colorIndexAt (length colors) j)
    \<and> (\<forall>k<length colors. \<exists>i<256. colorIndexAt (length colors) i = int k)
    \<and> updatePaletteTexture env t colors g =
        (if throws env UpdatePaletteTexture then (Some JsError, bindTexture (Some t) g)
         else (None, texImage2D (BytesImage 256 1 data) (bindTexture (Some t) g)))
    \<and> createPaletteTexture env colors g =
        (if \<not> textureCreated env PaletteTexture then (Inr False, g)
         else if throws env CreatePaletteTexture
           then (Inl JsError, bindTexture (Some PaletteTexture) g)
         else (Inr True,
               texImage2D (BytesImage 256 1 data) (bindTexture (Some PaletteTexture) g)))"
proof -
  have pos: "0 < length colors" using assms(1) by linarith
  then have ne: "colors \<noteq> []" by auto
  from paletteData_texels [OF ne] obtain d where d: "paletteData colors = Some d"
    "length d = 1024" and tex: "\<And>j. j < 256 \<Longrightarrow> texelAt d j = paletteTexel colors j"
    by blast
  have a: "\<forall>i<256.
          texelAt d i =
            (case hexToRgb (colors ! nat (colorIndexAt (length colors) i)) of
               (r, g, b) \<Rightarrow> (nat r, nat g, nat b, 255))
          \<and> colorIndexAt (length colors) i
              = min \<lfloor>real i / 255 * real (length colors)\<rfloor> (int (length colors) - 1)
          \<and> 0 \<le> colorIndexAt (length colors) i
          \<and> colorIndexAt (length colors) i < int (length colors)"
    using tex colorIndexAt_nonneg [OF pos] colorIndexAt_less [of "length colors"]
    by (simp add: paletteTexel_def) (simp add: colorIndexAt_def)
  have b: "\<forall>i j. i \<le> j \<longrightarrow> colorIndexAt (length colors) i \<le> colorIndexAt (length colors) j"
    by (simp add: colorIndexAt_mono)
  have c: "\<forall>k<length colors. \<exists>i<256. colorIndexAt (length colors) i = int k"
    using band_nonempty [OF pos] assms by simp
  have u: "updatePaletteTexture env t colors g =
        (if throws env UpdatePaletteTexture then (Some JsError, bindTexture (Some t) g)
         else (None, texImage2D (BytesImage 256 1 d) (bindTexture (Some t) g)))"
    by (simp add: updatePaletteTexture_def d)
  have cr: "createPaletteTexture env colors g =
        (if \<not> textureCreated env PaletteTexture then (Inr False, g)
         else if throws env CreatePaletteTexture
           then (Inl JsError, bindTexture (Some PaletteTexture) g)
         else (Inr True,
               texImage2D (BytesImage 256 1 d) (bindTexture (Some PaletteTexture) g)))"
    using ne by (simp add: createPaletteTexture_def d)
  have l: "length d = 256 * 4" using d(2) by simp
  show ?thesis
    by (rule exI [of _ d]) (intro conjI d(1) l a b c u cr)
qed

theorem palette_rasterization_bands_witness:
  "\<exists>data. paletteData [''#000000'', ''#FFFFFF''] = Some data \<and> length data = 1024
     \<and> texelAt data 0 = (0, 0, 0, 255) \<and> texelAt data 127 = (0, 0, 0, 255)
     \<and> texelAt data 128 = (255, 255, 255, 255) \<and> texelAt data 255 = (255, 255, 255, 255)"
proof -
  have h: "hexToRgb ''#000000'' = (0, 0, 0)" "hexToRgb ''#FFFFFF'' = (255, 255, 255)"
    by (simp_all add: hexToRgb_def parseInt16_def stripSign_def stripHexPrefix_def
        isWhiteSpace_def hexDigit_def toInt32_def)
  have i: "colorIndexAt 2 0 = 0" "colorIndexAt 2 127 = 0" "colorIndexAt 2 128 = 1"
    "colorIndexAt 2 255 = 1"
    by (simp_all add: colorIndexAt_alt)
  have len: "length [''#000000'', ''#FFFFFF''] = 2" by simp
  have hyp: "2 \<le> length [''#000000'', ''#FFFFFF'']" "length [''#000000'', ''#FFFFFF''] \<le> 16"
    by simp_all
  note th = palette_rasterization_bands [where colors = "[''#000000'', ''#FFFFFF'']"
      and env = undefined and t = undefined and g = undefined, OF hyp, unfolded len]
  from th obtain data where "paletteData [''#000000'', ''#FFFFFF''] = Some data"
    "length data = 256 * 4"
    and t: "\<forall>i<256. texelAt data i =
            (case hexToRgb ([''#000000'', ''#FFFFFF''] ! nat (colorIndexAt 2 i)) of
               (r, g, b) \<Rightarrow> (nat r, nat g, nat b, 255))"
    by blast
  moreover from t have "texelAt data 0 = (0, 0, 0, 255)" "texelAt data 127 = (0, 0, 0, 255)"
    "texelAt data 128 = (255, 255, 255, 255)" "texelAt data 255 = (255, 255, 255, 255)"
    by (simp_all add: h i)
  ultimately show ?thesis by auto
qed

section \<open>The service: results and states\<close>

lemma effectiveColors_nonempty: "effectiveColors options \<noteq> []"
  by (simp add: effectiveColors_def)

lemma paletteData_effective:
  "paletteData (effectiveColors options) = Some (uploadedBytes options)"
  using paletteData_texels [OF effectiveColors_nonempty, of options]
  by (auto simp: uploadedBytes_def)

lemma updatePaletteIfNeeded_eq:
  "updatePaletteIfNeeded env options s =
    (case gl s of
       None \<Rightarrow> (None, s)
     | Some g \<Rightarrow>
        if \<not> paletteTexture s \<or> lastPaletteOptions s = Some (paletteOptionsKey options)
        then (None, s)
        else if throws env UpdatePaletteTexture
          then (Some JsError, s\<lparr>gl := Some (bindTexture (Some PaletteTexture) g)\<rparr>)
        else (None, s\<lparr>gl := Some (texImage2D (BytesImage 256 1 (uploadedBytes options))
                                    (bindTexture (Some PaletteTexture) g)),
                      lastPaletteOptions := Some (paletteOptionsKey options)\<rparr>))"
proof -
  have "getPaletteColors options \<noteq> [] \<Longrightarrow>
      paletteData (getPaletteColors options) = Some (uploadedBytes options)"
    "getPaletteColors options = [] \<Longrightarrow>
      paletteData [''#000000'', ''#FFFFFF''] = Some (uploadedBytes options)"
    using paletteData_effective [of options] by (simp_all add: effectiveColors_def)
  then show ?thesis
    by (auto simp: updatePaletteIfNeeded_def Let_def updatePaletteTexture_def
        split: option.splits)
qed

text \<open>When \<^verbatim>\<open>ditherImage\<close> returns true, in terms of what the browser does.\<close>

lemma ditherImage_try_true_iff:
  "fst (ditherImage_try env p options g cv s) = Inr True \<longleftrightarrow>
     \<not> throws env AnimationFrame \<and> \<not> throws env Viewport \<and> \<not> throws env Clear
     \<and> (texture s \<longrightarrow> \<not> throws env LoadImageTexture)
     \<and> (paletteTexture s \<and> lastPaletteOptions s \<noteq> Some (paletteOptionsKey options)
          \<longrightarrow> \<not> throws env UpdatePaletteTexture)
     \<and> \<not> throws env SetupShaderUniforms
     \<and> (if ditherType options = 1
         then errorTexture s \<and> \<not> throws env InitErrorTexture \<and> \<not> throws env (DrawArrays 0)
              \<and> \<not> throws env (DrawArrays 1)
         else \<not> throws env BindMainTexture \<and> \<not> throws env (DrawArrays 0))"
proof -
  note defs = ditherImage_try_def Let_def loadImageTexture_def updatePaletteIfNeeded_eq
  show ?thesis
  proof (cases "throws env AnimationFrame \<or> throws env Viewport \<or> throws env Clear
      \<or> (texture s \<and> throws env LoadImageTexture)")
    case True
    then show ?thesis by (auto simp: defs)
  next
    case a: False
    show ?thesis
    proof (cases "paletteTexture s \<and> lastPaletteOptions s \<noteq> Some (paletteOptionsKey options)
        \<and> throws env UpdatePaletteTexture")
      case True
      then show ?thesis using a by (auto simp: defs)
    next
      case b: False
      show ?thesis
      proof (cases "throws env SetupShaderUniforms")
        case True
        then show ?thesis using a b by (auto simp: defs)
      next
        case c: False
        show ?thesis
        proof (cases "ditherType options = 1")
          case True
          then show ?thesis using a b c
            by (auto simp: defs renderFloydSteinberg_def)
        next
          case False
          then show ?thesis using a b c
            by (auto simp: defs renderStandardDither_def)
        qed
      qed
    qed
  qed
qed

text \<open>The state that a render call leaves when it returns true.\<close>

lemma ditherImage_try_success:
  assumes "fst (ditherImage_try env p options g cv s) = Inr True"
  shows "snd (ditherImage_try env p options g cv s) =
     s\<lparr>gl := Some (finalGl p options g s),
       canvas := Some
         (if ditherType options = 1
          then drawArrays (finalGl p options g s)
                 (drawArrays (pass0Gl p options g s)
                    (clearCanvas (resizeCanvas (imageWidth p) (imageHeight p) cv)))
          else drawArrays (finalGl p options g s)
                 (clearCanvas (resizeCanvas (imageWidth p) (imageHeight p) cv))),
       lastPaletteOptions :=
         (if paletteTexture s then Some (paletteOptionsKey options)
          else lastPaletteOptions s)\<rparr>"
proof -
  note facts = assms [unfolded ditherImage_try_true_iff]
  note defs = ditherImage_try_def Let_def loadImageTexture_def updatePaletteIfNeeded_eq
    finalGl_def pass0Gl_def preparedGl_def renderFloydSteinberg_def renderStandardDither_def
  show ?thesis
  proof (cases "ditherType options = 1")
    case True
    with facts show ?thesis
      by (cases "texture s"; cases "paletteTexture s";
          cases "lastPaletteOptions s = Some (paletteOptionsKey options)")
         (simp_all add: defs)
  next
    case False
    with facts show ?thesis
      by (cases "texture s"; cases "paletteTexture s";
          cases "lastPaletteOptions s = Some (paletteOptionsKey options)")
         (simp_all add: defs)
  qed
qed

section \<open>The context at the last draw call\<close>

text \<open>What each call on the context changes, selector by selector.\<close>

lemma bindTexture_sel:
  "quadReady (bindTexture t g) = quadReady g"
  "activeUnit (bindTexture t g) = activeUnit g"
  "boundTexture (bindTexture t g) = (boundTexture g)(activeUnit g := t)"
  "texImage (bindTexture t g) = texImage g"
  "texUploads (bindTexture t g) = texUploads g"
  "uniformValues (bindTexture t g) = uniformValues g"
  "viewportSize (bindTexture t g) = viewportSize g"
  by (simp_all add: bindTexture_def)

lemma activeTexture_sel:
  "quadReady (activeTexture n g) = quadReady g"
  "activeUnit (activeTexture n g) = n"
  "boundTexture (activeTexture n g) = boundTexture g"
  "texImage (activeTexture n g) = texImage g"
  "texUploads (activeTexture n g) = texUploads g"
  "uniformValues (activeTexture n g) = uniformValues g"
  "viewportSize (activeTexture n g) = viewportSize g"
  by (simp_all add: activeTexture_def)

lemma texImage2D_sel:
  "quadReady (texImage2D img g) = quadReady g"
  "activeUnit (texImage2D img g) = activeUnit g"
  "boundTexture (texImage2D img g) = boundTexture g"
  "uniformValues (texImage2D img g) = uniformValues g"
  "viewportSize (texImage2D img g) = viewportSize g"
  by (simp_all add: texImage2D_def split: option.splits)

lemma texImage2D_bound:
  "boundTexture g (activeUnit g) = Some t \<Longrightarrow>
     texImage (texImage2D img g) = (texImage g)(t := img)
     \<and> texUploads (texImage2D img g) = (texUploads g)(t := Suc (texUploads g t))"
  by (simp add: texImage2D_def)

lemma setUniforms_sel:
  "quadReady (setUniforms f g) = quadReady g"
  "activeUnit (setUniforms f g) = activeUnit g"
  "boundTexture (setUniforms f g) = boundTexture g"
  "texImage (setUniforms f g) = texImage g"
  "texUploads (setUniforms f g) = texUploads g"
  "uniformValues (setUniforms f g) = f (uniformValues g)"
  "viewportSize (setUniforms f g) = viewportSize g"
  by (simp_all add: setUniforms_def)

lemma setupShaderUniforms_sel:
  "quadReady (setupShaderUniforms p options pt g) = quadReady g"
  "activeUnit (setupShaderUniforms p options pt g) = 0"
  "boundTexture (setupShaderUniforms p options pt g) =
     (case pt of None \<Rightarrow> boundTexture g | Some t \<Rightarrow> (boundTexture g)(2 := Some t))"
  "texImage (setupShaderUniforms p options pt g) = texImage g"
  "texUploads (setupShaderUniforms p options pt g) = texUploads g"
  "viewportSize (setupShaderUniforms p options pt g) = viewportSize g"
  by (simp_all add: setupShaderUniforms_def Let_def bindTexture_sel activeTexture_sel
      setUniforms_sel split: option.splits)

lemma setupShaderUniforms_uniforms:
  "uniformValues (setupShaderUniforms p options pt g) =
     (uniformValues g)\<lparr>
        u_image := 0,
        u_palette := (case pt of None \<Rightarrow> u_palette (uniformValues g) | Some t \<Rightarrow> 2),
        u_resolution := (real (imageWidth p), real (imageHeight p)),
        u_ditherAmount := ditherAmount options,
        u_ditherType := ditherType options,
        u_pixelStep := (1 / real (imageWidth p), 1 / real (imageHeight p)),
        u_bayerSize := (case bayerSize options of None \<Rightarrow> 1 | Some b \<Rightarrow> b),
        u_usePalette := (usePalette options = Some True),
        u_contrast := (case contrast options of None \<Rightarrow> 0 | Some c \<Rightarrow> c),
        u_highlights := (case highlights options of None \<Rightarrow> 0 | Some c \<Rightarrow> c),
        u_midtones := (case midtones options of None \<Rightarrow> 0 | Some c \<Rightarrow> c),
        u_brightness := (case brightness options of None \<Rightarrow> 1 / 2 | Some c \<Rightarrow> c)\<rparr>"
  by (cases pt)
     (simp_all add: setupShaderUniforms_def Let_def bindTexture_sel activeTexture_sel
       setUniforms_sel)

lemmas gl_sel = bindTexture_sel activeTexture_sel texImage2D_sel setUniforms_sel
  setupShaderUniforms_sel texImage2D_bound

lemmas gl_states = finalGl_def pass0Gl_def preparedGl_def Let_def

lemma finalGl_quad: "quadReady (finalGl p options g s) = quadReady g"
  by (simp add: gl_states gl_sel)

lemma finalGl_viewport:
  "viewportSize (finalGl p options g s) = (imageWidth p, imageHeight p)"
  by (simp add: gl_states gl_sel)

lemma pass0Gl_quad: "quadReady (pass0Gl p options g s) = quadReady g"
  by (simp add: gl_states gl_sel)

lemma pass0Gl_viewport:
  "viewportSize (pass0Gl p options g s) = (imageWidth p, imageHeight p)"
  by (simp add: gl_states gl_sel)

text \<open>The uniforms at the last draw call are the option values.\<close>

lemma finalGl_uniforms:
  "uniformValues (finalGl p options g s) =
     (uniformValues g)\<lparr>
        u_image := 0,
        u_errorTexture := (if ditherType options = 1 then 1
                           else u_errorTexture (uniformValues g)),
        u_palette := (if paletteTexture s then 2 else u_palette (uniformValues g)),
        u_resolution := (real (imageWidth p), real (imageHeight p)),
        u_ditherAmount := ditherAmount options,
        u_ditherType := ditherType options,
        u_passIndex := (if ditherType options = 1 then 1 else u_passIndex (uniformValues g)),
        u_pixelStep := (1 / real (imageWidth p), 1 / real (imageHeight p)),
        u_bayerSize := (case bayerSize options of None \<Rightarrow> 1 | Some b \<Rightarrow> b),
        u_usePalette := (usePalette options = Some True),
        u_contrast := (case contrast options of None \<Rightarrow> 0 | Some c \<Rightarrow> c),
        u_highlights := (case highlights options of None \<Rightarrow> 0 | Some c \<Rightarrow> c),
        u_midtones := (case midtones options of None \<Rightarrow> 0 | Some c \<Rightarrow> c),
        u_brightness := (case brightness options of None \<Rightarrow> 1 / 2 | Some c \<Rightarrow> c)\<rparr>"
  by (simp add: gl_states gl_sel setupShaderUniforms_uniforms)

lemma pass0Gl_uniforms:
  "ditherType options = 1 \<Longrightarrow>
   uniformValues (pass0Gl p options g s) =
     (uniformValues (finalGl p options g s))\<lparr>u_passIndex := 0\<rparr>"
  by (simp add: gl_states gl_sel setupShaderUniforms_uniforms)

text \<open>The images of the textures at the last draw call.\<close>

lemma preparedGl_images:
  "texImage (preparedGl p options g s) =
     (texImage g)
       (MainTexture := (if texture s then ElementImage (imageSample p)
                        else texImage g MainTexture),
        PaletteTexture :=
          (if paletteTexture s \<and> lastPaletteOptions s \<noteq> Some (paletteOptionsKey options)
           then BytesImage 256 1 (uploadedBytes options) else texImage g PaletteTexture))"
  by (rule ext) (simp add: gl_states gl_sel)

lemma preparedGl_uploads:
  "texUploads (preparedGl p options g s) =
     (texUploads g)
       (MainTexture := (if texture s then Suc (texUploads g MainTexture)
                        else texUploads g MainTexture),
        PaletteTexture :=
          (if paletteTexture s \<and> lastPaletteOptions s \<noteq> Some (paletteOptionsKey options)
           then Suc (texUploads g PaletteTexture) else texUploads g PaletteTexture))"
  by (rule ext) (simp add: gl_states gl_sel)

lemma preparedGl_active: "activeUnit (preparedGl p options g s) = 0"
  by (simp add: gl_states gl_sel)

lemma pass0Gl_images:
  "texImage (pass0Gl p options g s) =
     (texImage (preparedGl p options g s))
       (ErrorTexture := FloatImage (imageWidth p) (imageHeight p))"
  by (simp add: pass0Gl_def Let_def gl_sel preparedGl_active)

lemma pass0Gl_uploads:
  "texUploads (pass0Gl p options g s) =
     (texUploads (preparedGl p options g s))
       (ErrorTexture := Suc (texUploads (preparedGl p options g s) ErrorTexture))"
  by (simp add: pass0Gl_def Let_def gl_sel preparedGl_active)

lemma finalGl_images:
  "texImage (finalGl p options g s) =
     (if ditherType options = 1 then texImage (pass0Gl p options g s)
      else texImage (preparedGl p options g s))"
  by (simp add: finalGl_def Let_def gl_sel)

lemma finalGl_uploads:
  "texUploads (finalGl p options g s) =
     (if ditherType options = 1 then texUploads (pass0Gl p options g s)
      else texUploads (preparedGl p options g s))"
  by (simp add: finalGl_def Let_def gl_sel)

lemma finalGl_main_image:
  "texImage (finalGl p options g s) MainTexture =
     (if texture s then ElementImage (imageSample p) else texImage g MainTexture)"
  by (simp add: finalGl_images pass0Gl_images preparedGl_images)

lemma finalGl_error_image:
  "texImage (finalGl p options g s) ErrorTexture =
     (if ditherType options = 1 then FloatImage (imageWidth p) (imageHeight p)
      else texImage g ErrorTexture)"
  by (simp add: finalGl_images pass0Gl_images preparedGl_images)

lemma finalGl_palette_image:
  "texImage (finalGl p options g s) PaletteTexture =
     (if paletteTexture s \<and> lastPaletteOptions s \<noteq> Some (paletteOptionsKey options)
      then BytesImage 256 1 (uploadedBytes options) else texImage g PaletteTexture)"
  by (simp add: finalGl_images pass0Gl_images preparedGl_images)

lemma finalGl_palette_uploads:
  "texUploads (finalGl p options g s) PaletteTexture =
     (if paletteTexture s \<and> lastPaletteOptions s \<noteq> Some (paletteOptionsKey options)
      then Suc (texUploads g PaletteTexture) else texUploads g PaletteTexture)"
  by (simp add: finalGl_uploads pass0Gl_uploads preparedGl_uploads)

lemma finalGl_error_uploads:
  "texUploads (finalGl p options g s) ErrorTexture =
     (if ditherType options = 1 then Suc (texUploads g ErrorTexture)
      else texUploads g ErrorTexture)"
  by (simp add: finalGl_uploads pass0Gl_uploads preparedGl_uploads)

text \<open>The texture bound to each of the three units at the draw calls.\<close>

lemma preparedGl_unit2:
  "paletteTexture s \<Longrightarrow> boundTexture (preparedGl p options g s) 2 = Some PaletteTexture"
  by (simp add: gl_states gl_sel)

lemma finalGl_unit0:
  "boundTexture (finalGl p options g s) 0 = (if texture s then Some MainTexture else None)"
  by (simp add: finalGl_def pass0Gl_def Let_def gl_sel)

lemma finalGl_unit1:
  "ditherType options = 1 \<Longrightarrow>
   boundTexture (finalGl p options g s) (Suc 0) = Some ErrorTexture"
  by (simp add: finalGl_def pass0Gl_def Let_def gl_sel)

lemma finalGl_unit2:
  "paletteTexture s \<Longrightarrow> boundTexture (finalGl p options g s) 2 = Some PaletteTexture"
  by (simp add: finalGl_def pass0Gl_def Let_def gl_sel preparedGl_unit2 preparedGl_active)

lemma pass0Gl_bound:
  "ditherType options = 1 \<Longrightarrow>
   boundTexture (pass0Gl p options g s) = boundTexture (finalGl p options g s)"
  by (rule ext) (simp add: finalGl_def pass0Gl_def Let_def gl_sel)

text \<open>What the three samplers of the shader read at the last draw call.\<close>

lemma finalGl_sample_image:
  "texture2D (finalGl p options g s) (u_image (uniformValues (finalGl p options g s))) uv
     = (if texture s then imageSample p uv else (0, 0, 0))"
  by (simp add: finalGl_uniforms texture2D_def finalGl_unit0 finalGl_main_image)

lemma finalGl_sample_error:
  "ditherType options = 1 \<Longrightarrow>
   texture2D (finalGl p options g s) (u_errorTexture (uniformValues (finalGl p options g s))) uv
     = (0, 0, 0)"
  by (simp add: finalGl_uniforms texture2D_def finalGl_unit1 finalGl_error_image)

lemma finalGl_sample_palette:
  "paletteTexture s \<Longrightarrow>
   texture2D (finalGl p options g s) (u_palette (uniformValues (finalGl p options g s))) uv
     = sampleImage (texImage (finalGl p options g s) PaletteTexture) uv"
  by (simp add: finalGl_uniforms texture2D_def finalGl_unit2)

lemma pass0Gl_samplers:
  "ditherType options = 1 \<Longrightarrow>
   texture2D (pass0Gl p options g s) = texture2D (finalGl p options g s)"
  by (rule ext)+ (simp add: texture2D_def pass0Gl_bound finalGl_images cong: option.case_cong)

text \<open>A draw call fills the canvas inside the viewport.\<close>

lemma drawArrays_size:
  "canvasWidth (drawArrays g cv) = canvasWidth cv \<and> canvasHeight (drawArrays g cv) = canvasHeight cv"
  by (simp add: drawArrays_def)

lemma drawArrays_pixel:
  assumes "quadReady g" "viewportSize g = (canvasWidth cv, canvasHeight cv)"
    "x < canvasWidth cv" "y < canvasHeight cv"
  shows "pixels (drawArrays g cv) (x, y)
     = rgba (main (uniformValues g) (texture2D g) (pixelCentre (int x) (int y))) 1"
  using assms by (simp add: drawArrays_def rgba_def)

section \<open>The frame of a render call\<close>

lemma ditherImage_guard:
  "gl s = None \<or> \<not> program s \<or> canvas s = None \<Longrightarrow>
   ditherImage env img options s = (Inr False, s)"
  by (auto simp: ditherImage_def split: option.splits)

lemma ditherImage_run:
  assumes "gl s = Some g" "program s" "canvas s = Some cv"
  shows "fst (ditherImage env img options s) =
           (case fst (ditherImage_try env (processedImageOf env img options) options g cv s) of
              Inl e \<Rightarrow> Inr False | Inr b \<Rightarrow> Inr b)
       \<and> snd (ditherImage env img options s) =
           snd (ditherImage_try env (processedImageOf env img options) options g cv s)"
  using assms
  by (cases "ditherImage_try env (processedImageOf env img options) options g cv s";
      cases "fst (ditherImage_try env (processedImageOf env img options) options g cv s)")
     (auto simp: ditherImage_def Let_def)

lemma ditherImage_true:
  assumes "fst (ditherImage env img options s) = Inr True"
  shows "\<exists>g cv. gl s = Some g \<and> program s \<and> canvas s = Some cv
     \<and> fst (ditherImage_try env (processedImageOf env img options) options g cv s) = Inr True
     \<and> snd (ditherImage env img options s) =
         snd (ditherImage_try env (processedImageOf env img options) options g cv s)"
proof -
  from assms ditherImage_guard [of s env img options]
  obtain g cv where s: "gl s = Some g" "program s" "canvas s = Some cv"
    by (cases "gl s"; cases "canvas s"; cases "program s") auto
  from ditherImage_run [OF s, of env img options] assms
  have "fst (ditherImage_try env (processedImageOf env img options) options g cv s) = Inr True"
    by (cases "fst (ditherImage_try env (processedImageOf env img options) options g cv s)")
       auto
  with s ditherImage_run [OF s, of env img options] show ?thesis by auto
qed

text \<open>
  After a render call that returned true, the canvas has the size of the processed
  image and every pixel holds what \<^verbatim>\<open>main\<close> computes for it from the uniforms and the
  textures of the last draw call.
\<close>

lemma rendered_frame:
  assumes ok: "fst (ditherImage env img options s) = Inr True"
    and g: "gl s = Some g" and ready: "quadReady g"
  shows "\<exists>cv'. canvas (snd (ditherImage env img options s)) = Some cv'
     \<and> gl (snd (ditherImage env img options s))
         = Some (finalGl (processedImageOf env img options) options g s)
     \<and> lastPaletteOptions (snd (ditherImage env img options s))
         = (if paletteTexture s then Some (paletteOptionsKey options)
            else lastPaletteOptions s)
     \<and> canvasWidth cv' = imageWidth (processedImageOf env img options)
     \<and> canvasHeight cv' = imageHeight (processedImageOf env img options)
     \<and> (\<forall>x<canvasWidth cv'. \<forall>y<canvasHeight cv'.
          pixels cv' (x, y) =
            rgba (main (uniformValues (finalGl (processedImageOf env img options) options g s))
                    (texture2D (finalGl (processedImageOf env img options) options g s))
                    (pixelCentre (int x) (int y))) 1)"
proof -
  define p where "p = processedImageOf env img options"
  from ditherImage_true [OF ok] g obtain cv where
    t: "fst (ditherImage_try env p options g cv s) = Inr True"
    and e: "snd (ditherImage env img options s) = snd (ditherImage_try env p options g cv s)"
    by (auto simp: p_def)
  define cv0 where "cv0 = clearCanvas (resizeCanvas (imageWidth p) (imageHeight p) cv)"
  define cv1 where "cv1 = (if ditherType options = 1
      then drawArrays (pass0Gl p options g s) cv0 else cv0)"
  have size1: "canvasWidth cv1 = imageWidth p" "canvasHeight cv1 = imageHeight p"
    by (simp_all add: cv1_def cv0_def drawArrays_size clearCanvas_def resizeCanvas_def)
  have s': "snd (ditherImage env img options s) =
      s\<lparr>gl := Some (finalGl p options g s),
        canvas := Some (drawArrays (finalGl p options g s) cv1),
        lastPaletteOptions := (if paletteTexture s then Some (paletteOptionsKey options)
                               else lastPaletteOptions s)\<rparr>"
    using ditherImage_try_success [OF t] by (simp add: e cv1_def cv0_def)
  have px: "\<forall>x<imageWidth p. \<forall>y<imageHeight p.
      pixels (drawArrays (finalGl p options g s) cv1) (x, y) =
        rgba (main (uniformValues (finalGl p options g s)) (texture2D (finalGl p options g s))
                (pixelCentre (int x) (int y))) 1"
    using ready by (simp add: drawArrays_pixel finalGl_quad finalGl_viewport size1)
  show ?thesis
    unfolding p_def [symmetric]
    by (rule exI [of _ "drawArrays (finalGl p options g s) cv1"])
       (simp add: s' drawArrays_size size1 px)
qed

text \<open>A render call that returned true has changed no other field of the service.\<close>

lemma rendered_fields:
  assumes "fst (ditherImage env img options s) = Inr True"
  shows "program (snd (ditherImage env img options s)) = program s
     \<and> texture (snd (ditherImage env img options s)) = texture s
     \<and> errorTexture (snd (ditherImage env img options s)) = errorTexture s
     \<and> paletteTexture (snd (ditherImage env img options s)) = paletteTexture s"
proof -
  from ditherImage_true [OF assms] obtain g cv where
    t: "fst (ditherImage_try env (processedImageOf env img options) options g cv s) = Inr True"
    and e: "snd (ditherImage env img options s) =
      snd (ditherImage_try env (processedImageOf env img options) options g cv s)"
    by blast
  show ?thesis by (simp add: e ditherImage_try_success [OF t])
qed

text \<open>
  The service that \<^verbatim>\<open>setupWebGL\<close> leaves in a browser where nothing throws and the
  context, the shaders and the program can be built; the textures may be missing.
\<close>

lemma setup_quiet:
  assumes "\<forall>c. \<not> throws env c" "contextAvailable env"
    "\<forall>k. shaderCreated env k \<and> shaderCompiles env k" "programCreated env" "programLinks env"
  shows "\<exists>g0. setupWebGL env cv isHtml newService =
      (Inr True, \<lparr>gl = Some g0, program = True, texture = textureCreated env MainTexture,
         errorTexture = textureCreated env ErrorTexture,
         paletteTexture = textureCreated env PaletteTexture, canvas = Some cv,
         lastPaletteOptions = None, isOffscreenCanvas = \<not> isHtml\<rparr>)
     \<and> quadReady g0 \<and> texUploads g0 ErrorTexture = 0 \<and> texImage g0 ErrorTexture = NoImage"
proof -
  obtain d where d: "paletteData [''#000000'', ''#FFFFFF''] = Some d"
    using paletteData_texels [of "[''#000000'', ''#FFFFFF'']"] by auto
  show ?thesis
    using assms
    by (simp add: setupWebGL_def setupWebGL_try_def newService_def Let_def
        createShader_def createProgram_def createMainTexture_def createErrorTexture_def
        createPaletteTexture_def d initialGl_def bindTexture_def texImage2D_def)
qed

lemma setup_ok:
  "\<exists>g0. setupWebGL okBrowser cv isHtml newService =
      (Inr True, \<lparr>gl = Some g0, program = True, texture = True, errorTexture = True,
         paletteTexture = True, canvas = Some cv, lastPaletteOptions = None,
         isOffscreenCanvas = \<not> isHtml\<rparr>)
     \<and> quadReady g0 \<and> texUploads g0 ErrorTexture = 0 \<and> texImage g0 ErrorTexture = NoImage"
  using setup_quiet [of okBrowser cv isHtml] by (simp add: okBrowser_def)

text \<open>Rendering in a browser where nothing throws.\<close>

lemma render_quiet:
  assumes "\<forall>c. \<not> throws env c" "gl s = Some g" "program s" "canvas s = Some cv"
  shows "fst (ditherImage env img options s) = Inr (ditherType options = 1 \<longrightarrow> errorTexture s)"
proof -
  let ?r = "fst (ditherImage_try env (processedImageOf env img options) options g cv s)"
  have iff: "?r = Inr True \<longleftrightarrow> (ditherType options = 1 \<longrightarrow> errorTexture s)"
    using assms(1) by (simp add: ditherImage_try_true_iff)
  show ?thesis
  proof (cases ?r)
    case (Inl e)
    with iff ditherImage_run [OF assms(2-4), of env img options] show ?thesis by auto
  next
    case (Inr b)
    with iff ditherImage_run [OF assms(2-4), of env img options] show ?thesis by auto
  qed
qed

lemma render_ok:
  assumes "gl s = Some g" "program s" "canvas s = Some cv" "errorTexture s"
  shows "fst (ditherImage okBrowser img options s) = Inr True"
  using render_quiet [of okBrowser s g cv img options] assms by (simp add: okBrowser_def)

section \<open>The one-pixel grey image\<close>

lemma finalGl_optionUniforms:
  "optionUniforms p options (uniformValues (finalGl p options g s))"
  by (simp add: optionUniforms_def finalGl_uniforms)

lemma finalGl_preprocessed:
  "preprocessed (uniformValues (finalGl p options g s)) (texture2D (finalGl p options g s)) fc
     = preprocessImage (uniformValues (finalGl p options g s))
         (if texture s then imageSample p (fragUV (uniformValues (finalGl p options g s)) fc)
          else (0, 0, 0))"
  by (simp add: preprocessed_def finalGl_sample_image)

text \<open>Rendering the one-pixel grey image after a set-up in which everything works.\<close>

lemma grey_render:
  assumes "s0 = snd (setupWebGL okBrowser onePixelCanvas True newService)"
  shows "\<exists>g0. gl s0 = Some g0 \<and> quadReady g0 \<and> texture s0 \<and> paletteTexture s0
      \<and> lastPaletteOptions s0 = None \<and> texUploads g0 ErrorTexture = 0
      \<and> fst (ditherImage okBrowser greyImage options s0) = Inr True
      \<and> processedImageOf okBrowser greyImage options = greyImage"
proof -
  from setup_ok [of onePixelCanvas True] obtain g0 where
    s0: "s0 = \<lparr>gl = Some g0, program = True, texture = True, errorTexture = True,
         paletteTexture = True, canvas = Some onePixelCanvas, lastPaletteOptions = None,
         isOffscreenCanvas = \<not> True\<rparr>"
    and q: "quadReady g0" "texUploads g0 ErrorTexture = 0"
    unfolding assms by auto
  have "fst (ditherImage okBrowser greyImage options s0) = Inr True"
    by (rule render_ok [where s = s0 and g = g0 and cv = onePixelCanvas])
       (simp_all add: s0)
  moreover have "processedImageOf okBrowser greyImage options = greyImage"
    by (simp add: processedImageOf_def okBrowser_def Let_def)
  ultimately show ?thesis using q by (simp add: s0)
qed

lemma grey_preprocessed:
  assumes "optionUniforms greyImage (plainOptions a t) U"
  shows "preprocessImage U (imageSample greyImage uv) = (3 / 5, 3 / 5, 3 / 5)"
  using assms
  by (simp add: optionUniforms_def plainOptions_def greyImage_def preprocessImage_neutral)

text \<open>
  The frame of an error-diffusion render of the one-pixel grey image: the pixel is the
  grey quantized once, at the levels of the dither amount.
\<close>

lemma grey_error_diffusion:
  "\<exists>g' cv'.
      fst (ditherImage okBrowser greyImage (plainOptions a 1)
             (snd (setupWebGL okBrowser onePixelCanvas True newService))) = Inr True
    \<and> gl (snd (ditherImage okBrowser greyImage (plainOptions a 1)
             (snd (setupWebGL okBrowser onePixelCanvas True newService)))) = Some g'
    \<and> canvas (snd (ditherImage okBrowser greyImage (plainOptions a 1)
             (snd (setupWebGL okBrowser onePixelCanvas True newService)))) = Some cv'
    \<and> texImage g' ErrorTexture = FloatImage 1 1
    \<and> texUploads g' ErrorTexture = 1
    \<and> texture2D g' (u_errorTexture (uniformValues g')) (1 / 2, 1 / 2) = (0, 0, 0)
    \<and> pixels cv' (0, 0) = rgba (reduceColor (3 / 5, 3 / 5, 3 / 5) (mix 16 2 a)) 1"
proof -
  define s0 where "s0 = snd (setupWebGL okBrowser onePixelCanvas True newService)"
  from grey_render [OF s0_def, of "plainOptions a 1"] obtain g0 where
    h: "gl s0 = Some g0" "quadReady g0" "texture s0"
    "fst (ditherImage okBrowser greyImage (plainOptions a 1) s0) = Inr True"
    and e0: "texUploads g0 ErrorTexture = 0"
    and p: "processedImageOf okBrowser greyImage (plainOptions a 1) = greyImage"
    by blast
  define g' where "g' = finalGl greyImage (plainOptions a 1) g0 s0"
  have t: "ditherType (plainOptions a 1) = 1" by (simp add: plainOptions_def)
  from rendered_frame [OF h(4) h(1) h(2)] obtain cv' where
    cv: "canvas (snd (ditherImage okBrowser greyImage (plainOptions a 1) s0)) = Some cv'"
    and gl': "gl (snd (ditherImage okBrowser greyImage (plainOptions a 1) s0)) = Some g'"
    and size: "canvasWidth cv' = 1" "canvasHeight cv' = 1"
    and px: "\<forall>x<canvasWidth cv'. \<forall>y<canvasHeight cv'. pixels cv' (x, y) =
            rgba (main (uniformValues g') (texture2D g') (pixelCentre (int x) (int y))) 1"
    unfolding p g'_def by (auto simp: greyImage_def)
  have ou: "optionUniforms greyImage (plainOptions a 1) (uniformValues g')"
    unfolding g'_def by (rule finalGl_optionUniforms)
  then have u: "u_ditherAmount (uniformValues g') = a" "u_ditherType (uniformValues g') = 1"
    "\<not> u_usePalette (uniformValues g')"
    by (simp_all add: optionUniforms_def plainOptions_def)
  have z: "texture2D g' (u_errorTexture (uniformValues g')) uv = (0, 0, 0)" for uv
    unfolding g'_def by (rule finalGl_sample_error [OF t])
  have pre: "preprocessed (uniformValues g') (texture2D g') fc = (3 / 5, 3 / 5, 3 / 5)" for fc
    unfolding g'_def finalGl_preprocessed
    using h(3) grey_preprocessed [OF ou [unfolded g'_def]] by simp
  have "main (uniformValues g') (texture2D g') fc = reduceColor (3 / 5, 3 / 5, 3 / 5) (mix 16 2 a)"
    for fc
    using u z by (subst main_error_diffusion) (simp_all add: pre)
  with px size have a: "pixels cv' (0, 0) = rgba (reduceColor (3 / 5, 3 / 5, 3 / 5) (mix 16 2 a)) 1"
    by simp
  have b: "texImage g' ErrorTexture = FloatImage 1 1" "texUploads g' ErrorTexture = 1"
    unfolding g'_def using t e0
    by (simp_all add: finalGl_error_image finalGl_error_uploads greyImage_def)
  from h(4) gl' cv a b z [of "(1 / 2, 1 / 2)"] show ?thesis
    unfolding s0_def by blast
qed

section \<open>Dither amount 0\<close>

text \<open>
  Claim C3, as amended. Take a render call that returns true with dither amount 0, on
  a context whose quad is set up. With type Bayer every pixel of the frame is the
  preprocessed colour of that pixel quantized to 16 levels; with type Ordered it is the
  preprocessed colour itself, not quantized. In both cases the threshold contributes
  nothing, and when the palette is enabled the colour is then replaced by the palette
  lookup (\<^verbatim>\<open>findClosestPaletteColor\<close> returns its argument when the palette is off).
  The preprocessed colour is \<^verbatim>\<open>preprocessImage\<close> of the image sample under the
  uniforms of the call, which carry the option values.
\<close>

theorem zero_amount_frame:
  assumes "fst (ditherImage env img options s) = Inr True"
    and "gl s = Some g" and "quadReady g"
    and "ditherAmount options = 0"
    and "ditherType options = 0 \<or> ditherType options = 2"
  shows "\<exists>g' cv'.
      gl (snd (ditherImage env img options s)) = Some g'
    \<and> canvas (snd (ditherImage env img options s)) = Some cv'
    \<and> canvasWidth cv' = imageWidth (processedImageOf env img options)
    \<and> canvasHeight cv' = imageHeight (processedImageOf env img options)
    \<and> optionUniforms (processedImageOf env img options) options (uniformValues g')
    \<and> (\<forall>x<canvasWidth cv'. \<forall>y<canvasHeight cv'.
         pixels cv' (x, y) =
           rgba (findClosestPaletteColor (uniformValues g') (texture2D g')
                  (if ditherType options = 0
                   then reduceColor (preprocessed (uniformValues g') (texture2D g')
                                       (pixelCentre (int x) (int y))) 16
                   else preprocessed (uniformValues g') (texture2D g')
                          (pixelCentre (int x) (int y)))) 1
         \<and> preprocessed (uniformValues g') (texture2D g') (pixelCentre (int x) (int y))
             = preprocessImage (uniformValues g')
                 (if texture s
                  then imageSample (processedImageOf env img options)
                         (fragUV (uniformValues g') (pixelCentre (int x) (int y)))
                  else (0, 0, 0)))"
proof -
  define p where "p = processedImageOf env img options"
  define g' where "g' = finalGl p options g s"
  from rendered_frame [OF assms(1-3)] obtain cv' where
    cv: "canvas (snd (ditherImage env img options s)) = Some cv'"
    and gl': "gl (snd (ditherImage env img options s)) = Some g'"
    and size: "canvasWidth cv' = imageWidth p" "canvasHeight cv' = imageHeight p"
    and px: "\<And>x y. x < canvasWidth cv' \<Longrightarrow> y < canvasHeight cv' \<Longrightarrow>
          pixels cv' (x, y) =
            rgba (main (uniformValues g') (texture2D g') (pixelCentre (int x) (int y))) 1"
    unfolding p_def [symmetric] g'_def [symmetric] by blast
  have ou: "optionUniforms p options (uniformValues g')"
    unfolding g'_def by (rule finalGl_optionUniforms)
  then have amount: "u_ditherAmount (uniformValues g') = 0"
    and type: "u_ditherType (uniformValues g') = ditherType options"
    using assms(4) by (simp_all add: optionUniforms_def)
  have m: "main (uniformValues g') (texture2D g') fc =
      findClosestPaletteColor (uniformValues g') (texture2D g')
        (if ditherType options = 0
         then reduceColor (preprocessed (uniformValues g') (texture2D g') fc) 16
         else preprocessed (uniformValues g') (texture2D g') fc)" for fc
    using assms(5) amount type
    by (auto simp: main_bayer_zero main_ordered_zero)
  have pre: "preprocessed (uniformValues g') (texture2D g') fc
      = preprocessImage (uniformValues g')
          (if texture s then imageSample p (fragUV (uniformValues g') fc) else (0, 0, 0))" for fc
    unfolding g'_def by (rule finalGl_preprocessed)
  show ?thesis
    unfolding p_def [symmetric]
    by (rule exI [of _ g'], rule exI [of _ cv'])
       (simp add: cv gl' size ou px m pre)
qed

theorem zero_amount_frame_witness:
  "\<exists>cv'. canvas (snd (ditherImage okBrowser greyImage (plainOptions 0 0)
             (snd (setupWebGL okBrowser onePixelCanvas True newService)))) = Some cv'
     \<and> pixels cv' (0, 0) = (9 / 16, 9 / 16, 9 / 16, 1)"
proof -
  define s0 where "s0 = snd (setupWebGL okBrowser onePixelCanvas True newService)"
  from grey_render [OF s0_def, of "plainOptions 0 0"] obtain g0 where
    h: "gl s0 = Some g0" "quadReady g0" "texture s0"
    "fst (ditherImage okBrowser greyImage (plainOptions 0 0) s0) = Inr True"
    and p: "processedImageOf okBrowser greyImage (plainOptions 0 0) = greyImage"
    by blast
  have o: "ditherAmount (plainOptions 0 0) = 0"
    "ditherType (plainOptions 0 0) = 0 \<or> ditherType (plainOptions 0 0) = 2"
    by (simp_all add: plainOptions_def)
  from zero_amount_frame [OF h(4) h(1) h(2) o] obtain g' cv' where
    cv: "canvas (snd (ditherImage okBrowser greyImage (plainOptions 0 0) s0)) = Some cv'"
    and size: "canvasWidth cv' = 1" "canvasHeight cv' = 1"
    and ou: "optionUniforms greyImage (plainOptions 0 0) (uniformValues g')"
    and px: "\<forall>x<canvasWidth cv'. \<forall>y<canvasHeight cv'.
         pixels cv' (x, y) =
           rgba (findClosestPaletteColor (uniformValues g') (texture2D g')
                  (if ditherType (plainOptions 0 0) = 0
                   then reduceColor (preprocessed (uniformValues g') (texture2D g')
                                       (pixelCentre (int x) (int y))) 16
                   else preprocessed (uniformValues g') (texture2D g')
                          (pixelCentre (int x) (int y)))) 1
         \<and> preprocessed (uniformValues g') (texture2D g') (pixelCentre (int x) (int y))
             = preprocessImage (uniformValues g')
                 (if texture s0
                  then imageSample greyImage
                         (fragUV (uniformValues g') (pixelCentre (int x) (int y)))
                  else (0, 0, 0))"
    unfolding p by (auto simp: greyImage_def)
  have np: "\<not> u_usePalette (uniformValues g')"
    using ou by (simp add: optionUniforms_def plainOptions_def)
  from px size have "pixels cv' (0, 0) =
      rgba (findClosestPaletteColor (uniformValues g') (texture2D g')
             (reduceColor (3 / 5, 3 / 5, 3 / 5) 16)) 1"
    using h(3) grey_preprocessed [OF ou] by (simp add: plainOptions_def)
  then have "pixels cv' (0, 0) = (9 / 16, 9 / 16, 9 / 16, 1)"
    using np by (simp add: findClosestPaletteColor_def reduceColor_def rgba_def)
  with cv show ?thesis unfolding s0_def by blast
qed

text \<open>
  The claim as stated fails for Ordered dithering: with amount 0 the one-pixel grey
  image is rendered as the grey 0.6 itself, while its preprocessed colour quantized at
  16 levels is 9/16.
\<close>

theorem zero_amount_ordered_counterexample:
  "\<exists>cv'. canvas (snd (ditherImage okBrowser greyImage (plainOptions 0 2)
             (snd (setupWebGL okBrowser onePixelCanvas True newService)))) = Some cv'
     \<and> pixels cv' (0, 0) = (3 / 5, 3 / 5, 3 / 5, 1)
     \<and> rgba (reduceColor (preprocessImage
               (zeroUniforms\<lparr>u_brightness := 1 / 2\<rparr>) (imageSample greyImage (1 / 2, 1 / 2)))
             16) 1 = (9 / 16, 9 / 16, 9 / 16, 1)
     \<and> pixels cv' (0, 0) \<noteq> (9 / 16, 9 / 16, 9 / 16, 1)"
proof -
  define s0 where "s0 = snd (setupWebGL okBrowser onePixelCanvas True newService)"
  from grey_render [OF s0_def, of "plainOptions 0 2"] obtain g0 where
    h: "gl s0 = Some g0" "quadReady g0" "texture s0"
    "fst (ditherImage okBrowser greyImage (plainOptions 0 2) s0) = Inr True"
    and p: "processedImageOf okBrowser greyImage (plainOptions 0 2) = greyImage"
    by blast
  define g' where "g' = finalGl greyImage (plainOptions 0 2) g0 s0"
  from rendered_frame [OF h(4) h(1) h(2)] obtain cv' where
    cv: "canvas (snd (ditherImage okBrowser greyImage (plainOptions 0 2) s0)) = Some cv'"
    and size: "canvasWidth cv' = 1" "canvasHeight cv' = 1"
    and px: "\<forall>x<canvasWidth cv'. \<forall>y<canvasHeight cv'. pixels cv' (x, y) =
            rgba (main (uniformValues g') (texture2D g') (pixelCentre (int x) (int y))) 1"
    unfolding p g'_def by (auto simp: greyImage_def)
  have ou: "optionUniforms greyImage (plainOptions 0 2) (uniformValues g')"
    unfolding g'_def by (rule finalGl_optionUniforms)
  then have u: "u_ditherAmount (uniformValues g') = 0" "u_ditherType (uniformValues g') = 2"
    "\<not> u_usePalette (uniformValues g')"
    by (simp_all add: optionUniforms_def plainOptions_def)
  have "preprocessed (uniformValues g') (texture2D g') fc = (3 / 5, 3 / 5, 3 / 5)" for fc
    unfolding g'_def finalGl_preprocessed
    using h(3) grey_preprocessed [OF ou [unfolded g'_def]] by simp
  then have "main (uniformValues g') (texture2D g') fc = (3 / 5, 3 / 5, 3 / 5)" for fc
    using u by (simp add: main_ordered_zero findClosestPaletteColor_def)
  with px size have a: "pixels cv' (0, 0) = (3 / 5, 3 / 5, 3 / 5, 1)"
    by (simp add: rgba_def)
  have b: "rgba (reduceColor (preprocessImage
               (zeroUniforms\<lparr>u_brightness := 1 / 2\<rparr>) (imageSample greyImage (1 / 2, 1 / 2)))
             16) 1 = (9 / 16, 9 / 16, 9 / 16, 1)"
    by (simp add: greyImage_def preprocessImage_neutral zeroUniforms_def reduceColor_def
        rgba_def)
  from a have c: "pixels cv' (0, 0) \<noteq> (9 / 16, 9 / 16, 9 / 16, 1)" by simp
  from cv a b c show ?thesis unfolding s0_def by blast
qed

section \<open>Dither amount 1\<close>

lemma colorIndexAt_first: "0 < n \<Longrightarrow> colorIndexAt n 0 = 0"
  by (simp add: colorIndexAt_alt)

lemma colorIndexAt_last: "0 < n \<Longrightarrow> colorIndexAt n 255 = int n - 1"
  by (simp add: colorIndexAt_alt)

lemma uploadedBytes_ends:
  "texelAt (uploadedBytes options) 0 =
     (case hexToRgb (effectiveColors options ! 0) of (r, g, b) \<Rightarrow> (nat r, nat g, nat b, 255))
   \<and> texelAt (uploadedBytes options) 255 =
     (case hexToRgb (effectiveColors options ! (length (effectiveColors options) - 1)) of
        (r, g, b) \<Rightarrow> (nat r, nat g, nat b, 255))"
proof -
  have pos: "0 < length (effectiveColors options)"
    using effectiveColors_nonempty [of options] by simp
  from paletteData_texels [OF effectiveColors_nonempty, of options]
  have "\<forall>j<256. texelAt (uploadedBytes options) j = paletteTexel (effectiveColors options) j"
    by (simp add: paletteData_effective)
  then have "texelAt (uploadedBytes options) 0 = paletteTexel (effectiveColors options) 0"
    "texelAt (uploadedBytes options) 255 = paletteTexel (effectiveColors options) 255"
    by simp_all
  moreover have "nat (int (length (effectiveColors options)) - 1)
      = length (effectiveColors options) - 1"
    by simp
  ultimately show ?thesis
    using pos by (simp add: paletteTexel_def colorIndexAt_first colorIndexAt_last)
qed

lemma palette_lookup_ends:
  assumes "u_usePalette U" "T (u_palette U) = sampleImage (BytesImage 256 1 data)"
  shows "findClosestPaletteColor U T (vec3s 0) = texelColor data 0"
    and "findClosestPaletteColor U T (vec3s 1) = texelColor data 255"
  using assms
  by (simp_all add: findClosestPaletteColor_def toGrayscale_black toGrayscale_white
      sampleLinear_first sampleLinear_last)

text \<open>
  Claim C4, as amended. Take a render call that returns true with dither amount 1 and
  type Bayer or Ordered, on a context whose quad is set up. With the palette off every
  pixel of the frame is exactly black or exactly white. With the palette on (and a
  palette texture present) every pixel is the first or the last entry of the lookup
  texture, whatever 256 by 1 image that texture holds. When this call uploads the
  palette, the texture holds the rasterization of the resolved colours (black and white
  when none are resolved), whose first and last entries are the first and the last of
  these colours. Error diffusion is left out: its frame is not two-tone.
\<close>

theorem full_amount_frame:
  assumes "fst (ditherImage env img options s) = Inr True"
    and "gl s = Some g" and "quadReady g"
    and "ditherAmount options = 1"
    and "ditherType options = 0 \<or> ditherType options = 2"
  shows "\<exists>g' cv'.
      gl (snd (ditherImage env img options s)) = Some g'
    \<and> canvas (snd (ditherImage env img options s)) = Some cv'
    \<and> canvasWidth cv' = imageWidth (processedImageOf env img options)
    \<and> canvasHeight cv' = imageHeight (processedImageOf env img options)
    \<and> (\<forall>x<canvasWidth cv'. \<forall>y<canvasHeight cv'.
          (usePalette options \<noteq> Some True \<longrightarrow>
             pixels cv' (x, y) = (0, 0, 0, 1) \<or> pixels cv' (x, y) = (1, 1, 1, 1))
        \<and> (usePalette options = Some True \<and> paletteTexture s \<longrightarrow>
             (\<forall>data. texImage g' PaletteTexture = BytesImage 256 1 data \<longrightarrow>
                pixels cv' (x, y) = rgba (texelColor data 0) 1
                \<or> pixels cv' (x, y) = rgba (texelColor data 255) 1)))
    \<and> (paletteTexture s \<and> lastPaletteOptions s \<noteq> Some (paletteOptionsKey options) \<longrightarrow>
          texImage g' PaletteTexture = BytesImage 256 1 (uploadedBytes options)
        \<and> paletteData (effectiveColors options) = Some (uploadedBytes options)
        \<and> texelAt (uploadedBytes options) 0 =
            (case hexToRgb (effectiveColors options ! 0) of
               (r, g, b) \<Rightarrow> (nat r, nat g, nat b, 255))
        \<and> texelAt (uploadedBytes options) 255 =
            (case hexToRgb (effectiveColors options ! (length (effectiveColors options) - 1)) of
               (r, g, b) \<Rightarrow> (nat r, nat g, nat b, 255)))"
proof -
  define p where "p = processedImageOf env img options"
  define g' where "g' = finalGl p options g s"
  define U where "U = uniformValues g'"
  define T where "T = texture2D g'"
  from rendered_frame [OF assms(1-3)] obtain cv' where
    cv: "canvas (snd (ditherImage env img options s)) = Some cv'"
    and gl': "gl (snd (ditherImage env img options s)) = Some g'"
    and size: "canvasWidth cv' = imageWidth p" "canvasHeight cv' = imageHeight p"
    and px: "\<And>x y. x < canvasWidth cv' \<Longrightarrow> y < canvasHeight cv' \<Longrightarrow>
          pixels cv' (x, y) = rgba (main U T (pixelCentre (int x) (int y))) 1"
    unfolding p_def [symmetric] g'_def [symmetric] U_def T_def by blast
  have ou: "optionUniforms p options U"
    unfolding U_def g'_def by (rule finalGl_optionUniforms)
  then have amount: "u_ditherAmount U = 1"
    and type: "u_ditherType U = ditherType options"
    and pal: "u_usePalette U = (usePalette options = Some True)"
    using assms(4) by (simp_all add: optionUniforms_def)
  have m: "main U T fc = findClosestPaletteColor U T (vec3s 0)
      \<or> main U T fc = findClosestPaletteColor U T (vec3s 1)" for fc
    using assms(5) amount type by (auto simp: main_bayer_one main_ordered_one)
  have off: "usePalette options \<noteq> Some True \<Longrightarrow>
      rgba (main U T fc) 1 = (0, 0, 0, 1) \<or> rgba (main U T fc) 1 = (1, 1, 1, 1)" for fc
    using m [of fc] pal by (auto simp: findClosestPaletteColor_def vec3s_def rgba_def)
  have on: "rgba (main U T fc) 1 = rgba (texelColor data 0) 1
      \<or> rgba (main U T fc) 1 = rgba (texelColor data 255) 1"
    if "usePalette options = Some True" "paletteTexture s"
      "texImage g' PaletteTexture = BytesImage 256 1 data" for fc data
  proof -
    have smp: "T (u_palette U) = sampleImage (BytesImage 256 1 data)"
      unfolding T_def U_def g'_def
      using finalGl_sample_palette [OF that(2), of p options g] that(3)
      by (auto simp: g'_def)
    have up: "u_usePalette U" using pal that(1) by simp
    from palette_lookup_ends [where U = U and T = T and data = data, OF up smp] m [of fc]
    show ?thesis by auto
  qed
  have up: "texImage g' PaletteTexture = BytesImage 256 1 (uploadedBytes options)"
    if "paletteTexture s \<and> lastPaletteOptions s \<noteq> Some (paletteOptionsKey options)"
    using that by (simp add: g'_def finalGl_palette_image)
  show ?thesis
    unfolding p_def [symmetric]
    apply (rule exI [of _ g'], rule exI [of _ cv'])
    apply (intro conjI cv gl' size allI impI)
    subgoal for x y using off [of "pixelCentre (int x) (int y)"] by (simp add: px)
    subgoal for x y data
      using on [of data "pixelCentre (int x) (int y)"] by (simp add: px)
    subgoal by (rule up)
    subgoal by (rule paletteData_effective)
    subgoal by (rule uploadedBytes_ends [THEN conjunct1])
    subgoal by (rule uploadedBytes_ends [THEN conjunct2])
    done
qed

theorem full_amount_frame_witness:
  "\<exists>cv'. canvas (snd (ditherImage okBrowser greyImage (plainOptions 1 0)
             (snd (setupWebGL okBrowser onePixelCanvas True newService)))) = Some cv'
     \<and> (pixels cv' (0, 0) = (0, 0, 0, 1) \<or> pixels cv' (0, 0) = (1, 1, 1, 1))"
proof -
  define s0 where "s0 = snd (setupWebGL okBrowser onePixelCanvas True newService)"
  from grey_render [OF s0_def, of "plainOptions 1 0"] obtain g0 where
    h: "gl s0 = Some g0" "quadReady g0"
    "fst (ditherImage okBrowser greyImage (plainOptions 1 0) s0) = Inr True"
    and p: "processedImageOf okBrowser greyImage (plainOptions 1 0) = greyImage"
    by blast
  have o: "ditherAmount (plainOptions 1 0) = 1"
    "ditherType (plainOptions 1 0) = 0 \<or> ditherType (plainOptions 1 0) = 2"
    "usePalette (plainOptions 1 0) \<noteq> Some True"
    by (simp_all add: plainOptions_def)
  from full_amount_frame [OF h(3) h(1) h(2) o(1) o(2)] obtain cv' where
    cv: "canvas (snd (ditherImage okBrowser greyImage (plainOptions 1 0) s0)) = Some cv'"
    and size: "canvasWidth cv' = 1" "canvasHeight cv' = 1"
    and px: "\<forall>x<canvasWidth cv'. \<forall>y<canvasHeight cv'.
          (usePalette (plainOptions 1 0) \<noteq> Some True \<longrightarrow>
             pixels cv' (x, y) = (0, 0, 0, 1) \<or> pixels cv' (x, y) = (1, 1, 1, 1))"
    unfolding p by (auto simp: greyImage_def)
  from px size o(3) have "pixels cv' (0, 0) = (0, 0, 0, 1) \<or> pixels cv' (0, 0) = (1, 1, 1, 1)"
    by simp
  with cv show ?thesis unfolding s0_def by blast
qed

text \<open>
  The claim as stated fails for error diffusion: with amount 1 and the palette off the
  one-pixel grey image is rendered as the grey 1/2, neither black nor white.
\<close>

theorem full_amount_error_diffusion_counterexample:
  "\<exists>cv'. canvas (snd (ditherImage okBrowser greyImage (plainOptions 1 1)
             (snd (setupWebGL okBrowser onePixelCanvas True newService)))) = Some cv'
     \<and> usePalette (plainOptions 1 1) \<noteq> Some True
     \<and> pixels cv' (0, 0) = (1 / 2, 1 / 2, 1 / 2, 1)
     \<and> pixels cv' (0, 0) \<noteq> (0, 0, 0, 1) \<and> pixels cv' (0, 0) \<noteq> (1, 1, 1, 1)"
proof -
  from grey_error_diffusion [of 1] obtain cv' where
    cv: "canvas (snd (ditherImage okBrowser greyImage (plainOptions 1 1)
             (snd (setupWebGL okBrowser onePixelCanvas True newService)))) = Some cv'"
    and px: "pixels cv' (0, 0) = rgba (reduceColor (3 / 5, 3 / 5, 3 / 5) (mix 16 2 1)) 1"
    by blast
  from px have "pixels cv' (0, 0) = (1 / 2, 1 / 2, 1 / 2, 1)"
    by (simp add: mix_one reduceColor_def rgba_def)
  with cv show ?thesis by (auto simp: plainOptions_def)
qed

section \<open>Error diffusion\<close>

text \<open>
  Every error-diffusion render call that returns true leaves the error texture as the
  zero allocation made at its start, has uploaded to it exactly once (that allocation),
  and leaves in every pixel the preprocessed colour quantized once (or looked up in the
  palette): the second pass adds a zero error and repeats the first.
\<close>

lemma error_diffusion_frame:
  assumes ok: "fst (ditherImage env img options s) = Inr True"
    and g: "gl s = Some g" and ready: "quadReady g"
    and fs: "ditherType options = 1"
  shows "\<exists>g' cv'.
      gl (snd (ditherImage env img options s)) = Some g'
    \<and> canvas (snd (ditherImage env img options s)) = Some cv'
    \<and> texImage g' ErrorTexture
        = FloatImage (imageWidth (processedImageOf env img options))
            (imageHeight (processedImageOf env img options))
    \<and> texUploads g' ErrorTexture = Suc (texUploads g ErrorTexture)
    \<and> (\<forall>uv. texture2D g' (u_errorTexture (uniformValues g')) uv = (0, 0, 0))
    \<and> (\<forall>x<canvasWidth cv'. \<forall>y<canvasHeight cv'.
          pixels cv' (x, y) =
            rgba (if usePalette options = Some True
                  then findClosestPaletteColor (uniformValues g') (texture2D g')
                         (preprocessed (uniformValues g') (texture2D g')
                            (pixelCentre (int x) (int y)))
                  else reduceColor (preprocessed (uniformValues g') (texture2D g')
                                      (pixelCentre (int x) (int y)))
                         (mix 16 2 (ditherAmount options))) 1)"
proof -
  define p where "p = processedImageOf env img options"
  define g' where "g' = finalGl p options g s"
  from rendered_frame [OF ok g ready] obtain cv' where
    cv: "canvas (snd (ditherImage env img options s)) = Some cv'"
    and gl': "gl (snd (ditherImage env img options s)) = Some g'"
    and px: "\<And>x y. x < canvasWidth cv' \<Longrightarrow> y < canvasHeight cv' \<Longrightarrow>
          pixels cv' (x, y) =
            rgba (main (uniformValues g') (texture2D g') (pixelCentre (int x) (int y))) 1"
    unfolding p_def [symmetric] g'_def [symmetric] by blast
  have ou: "optionUniforms p options (uniformValues g')"
    unfolding g'_def by (rule finalGl_optionUniforms)
  then have u: "u_ditherAmount (uniformValues g') = ditherAmount options"
    "u_ditherType (uniformValues g') = 1"
    "u_usePalette (uniformValues g') = (usePalette options = Some True)"
    using fs by (simp_all add: optionUniforms_def)
  have z: "texture2D g' (u_errorTexture (uniformValues g')) uv = (0, 0, 0)" for uv
    unfolding g'_def by (rule finalGl_sample_error [OF fs])
  have m: "main (uniformValues g') (texture2D g') fc =
      (if usePalette options = Some True
       then findClosestPaletteColor (uniformValues g') (texture2D g')
              (preprocessed (uniformValues g') (texture2D g') fc)
       else reduceColor (preprocessed (uniformValues g') (texture2D g') fc)
              (mix 16 2 (ditherAmount options)))" for fc
    using u z by (subst main_error_diffusion) simp_all
  have e: "texImage g' ErrorTexture = FloatImage (imageWidth p) (imageHeight p)"
    "texUploads g' ErrorTexture = Suc (texUploads g ErrorTexture)"
    unfolding g'_def using fs by (simp_all add: finalGl_error_image finalGl_error_uploads)
  show ?thesis
    unfolding p_def [symmetric]
    by (rule exI [of _ g'], rule exI [of _ cv']) (simp add: cv gl' e z px m)
qed

text \<open>
  Claim C1, at an input where the code departs from it. An error-diffusion render of
  the one-pixel image of the grey 0.6 with dither amount 0 (16 levels) and no palette
  returns true. The quantization error of the pixel is \<open>0.6 - 9/16 = 3/80\<close>; the claim has
  pass 0 store it and pass 1 output the re-quantized sum, \<open>5/8\<close>. The code's only
  upload to the error texture is the zero allocation, pass 1 reads \<open>(0, 0, 0)\<close> at the
  pixel's coordinate, and the frame holds \<open>9/16\<close>.
\<close>

theorem error_diffusion_drops_error:
  "\<exists>g' cv'.
      fst (ditherImage okBrowser greyImage (plainOptions 0 1)
             (snd (setupWebGL okBrowser onePixelCanvas True newService))) = Inr True
    \<and> gl (snd (ditherImage okBrowser greyImage (plainOptions 0 1)
             (snd (setupWebGL okBrowser onePixelCanvas True newService)))) = Some g'
    \<and> canvas (snd (ditherImage okBrowser greyImage (plainOptions 0 1)
             (snd (setupWebGL okBrowser onePixelCanvas True newService)))) = Some cv'
    \<and> vsub (3 / 5, 3 / 5, 3 / 5) (reduceColor (3 / 5, 3 / 5, 3 / 5) 16)
        = (3 / 80, 3 / 80, 3 / 80)
    \<and> texImage g' ErrorTexture = FloatImage 1 1
    \<and> texUploads g' ErrorTexture = 1
    \<and> texture2D g' (u_errorTexture (uniformValues g')) (1 / 2, 1 / 2) = (0, 0, 0)
    \<and> pixels cv' (0, 0) = (9 / 16, 9 / 16, 9 / 16, 1)
    \<and> rgba (reduceColor (vadd (3 / 5, 3 / 5, 3 / 5) (3 / 80, 3 / 80, 3 / 80)) 16) 1
        = (5 / 8, 5 / 8, 5 / 8, 1)"
proof -
  from grey_error_diffusion [of 0] obtain g' cv' where
    a: "fst (ditherImage okBrowser greyImage (plainOptions 0 1)
             (snd (setupWebGL okBrowser onePixelCanvas True newService))) = Inr True"
    "gl (snd (ditherImage okBrowser greyImage (plainOptions 0 1)
             (snd (setupWebGL okBrowser onePixelCanvas True newService)))) = Some g'"
    "canvas (snd (ditherImage okBrowser greyImage (plainOptions 0 1)
             (snd (setupWebGL okBrowser onePixelCanvas True newService)))) = Some cv'"
    "texImage g' ErrorTexture = FloatImage 1 1"
    "texUploads g' ErrorTexture = 1"
    "texture2D g' (u_errorTexture (uniformValues g')) (1 / 2, 1 / 2) = (0, 0, 0)"
    and px: "pixels cv' (0, 0) = rgba (reduceColor (3 / 5, 3 / 5, 3 / 5) (mix 16 2 0)) 1"
    by blast
  have b: "pixels cv' (0, 0) = (9 / 16, 9 / 16, 9 / 16, 1)"
    using px by (simp add: mix_zero reduceColor_def rgba_def)
  have c: "vsub (3 / 5, 3 / 5, 3 / 5) (reduceColor (3 / 5, 3 / 5, 3 / 5) 16)
        = (3 / 80, 3 / 80, 3 / 80)"
    by (simp add: vsub_def reduceColor_def)
  have d: "rgba (reduceColor (vadd (3 / 5, 3 / 5, 3 / 5) (3 / 80, 3 / 80, 3 / 80)) 16) 1
        = (5 / 8, 5 / 8, 5 / 8, 1)"
    by (simp add: vadd_def reduceColor_def rgba_def)
  from a b c d show ?thesis by blast
qed

section \<open>The destination surface of a render call that fails\<close>

text \<open>
  Once the wait for the animation frame is over, the canvas is resized to the processed
  image; a render call that then does not return true, and in which the second draw
  call of error diffusion has not thrown, leaves every pixel cleared.
\<close>

lemma ditherImage_try_canvas:
  assumes "\<not> throws env AnimationFrame"
  shows "\<exists>cv'. canvas (snd (ditherImage_try env p options g cv s)) = Some cv'
     \<and> canvasWidth cv' = imageWidth p \<and> canvasHeight cv' = imageHeight p
     \<and> (fst (ditherImage_try env p options g cv s) \<noteq> Inr True \<and> \<not> throws env (DrawArrays 1)
          \<longrightarrow> pixels cv' = (\<lambda>q. (0, 0, 0, 0)))"
proof (cases "fst (ditherImage_try env p options g cv s) = Inr True")
  case True
  show ?thesis
    by (simp add: True ditherImage_try_success [OF True] drawArrays_size clearCanvas_def
        resizeCanvas_def)
next
  case f: False
  note defs = ditherImage_try_def Let_def loadImageTexture_def updatePaletteIfNeeded_eq
    clearCanvas_def resizeCanvas_def
  show ?thesis
  proof (cases "throws env Viewport \<or> throws env Clear
      \<or> (texture s \<and> throws env LoadImageTexture)")
    case True
    then show ?thesis using assms by (auto simp: defs)
  next
    case a: False
    show ?thesis
    proof (cases "paletteTexture s \<and> lastPaletteOptions s \<noteq> Some (paletteOptionsKey options)
        \<and> throws env UpdatePaletteTexture")
      case True
      then show ?thesis using assms a by (auto simp: defs)
    next
      case b: False
      show ?thesis
      proof (cases "throws env SetupShaderUniforms")
        case True
        then show ?thesis using assms a b by (auto simp: defs)
      next
        case c: False
        show ?thesis
        proof (cases "ditherType options = 1")
          case True
          then show ?thesis using assms a b c f [unfolded ditherImage_try_true_iff]
            by (auto simp: defs renderFloydSteinberg_def drawArrays_size)
        next
          case False
          then show ?thesis using assms a b c f [unfolded ditherImage_try_true_iff]
            by (auto simp: defs renderStandardDither_def)
        qed
      qed
    qed
  qed
qed

text \<open>
  A render call that fails, and not by its second draw call alone, leaves every pixel
  cleared.
\<close>

lemma ditherImage_try_cleared:
  assumes "\<not> throws env AnimationFrame"
    and f: "fst (ditherImage_try env p options g cv s) \<noteq> Inr True"
    and n: "\<not> secondDrawFails env options s"
  shows "\<exists>cv'. canvas (snd (ditherImage_try env p options g cv s)) = Some cv'
     \<and> pixels cv' = (\<lambda>q. (0, 0, 0, 0))"
proof -
  note defs = ditherImage_try_def Let_def loadImageTexture_def updatePaletteIfNeeded_eq
    clearCanvas_def resizeCanvas_def
  show ?thesis
  proof (cases "throws env Viewport \<or> throws env Clear
      \<or> (texture s \<and> throws env LoadImageTexture)")
    case True
    then show ?thesis using assms(1) by (auto simp: defs)
  next
    case a: False
    show ?thesis
    proof (cases "paletteTexture s \<and> lastPaletteOptions s \<noteq> Some (paletteOptionsKey options)
        \<and> throws env UpdatePaletteTexture")
      case True
      then show ?thesis using assms(1) a by (auto simp: defs)
    next
      case b: False
      show ?thesis
      proof (cases "throws env SetupShaderUniforms")
        case True
        then show ?thesis using assms(1) a b by (auto simp: defs)
      next
        case c: False
        show ?thesis
        proof (cases "ditherType options = 1")
          case True
          then show ?thesis
            using assms(1) a b c f [unfolded ditherImage_try_true_iff]
              n [unfolded secondDrawFails_def]
            by (auto simp: defs renderFloydSteinberg_def)
        next
          case False
          then show ?thesis using assms(1) a b c f [unfolded ditherImage_try_true_iff]
            by (auto simp: defs renderStandardDither_def)
        qed
      qed
    qed
  qed
qed

text \<open>
  When only the second draw call of error diffusion throws, the call returns false and
  the surface holds the frame of the first draw call: the shader at pass index 0 gives
  the preprocessed colour quantized once, or its palette lookup.
\<close>

lemma ditherImage_try_second_draw:
  assumes "secondDrawFails env options s"
  shows "ditherImage_try env p options g cv s =
     (Inr False,
      s\<lparr>gl := Some (finalGl p options g s),
        canvas := Some (drawArrays (pass0Gl p options g s)
                    (clearCanvas (resizeCanvas (imageWidth p) (imageHeight p) cv))),
        lastPaletteOptions :=
          (if paletteTexture s then Some (paletteOptionsKey options)
           else lastPaletteOptions s)\<rparr>)"
proof -
  note facts = assms [unfolded secondDrawFails_def]
  note defs = ditherImage_try_def Let_def loadImageTexture_def updatePaletteIfNeeded_eq
    finalGl_def pass0Gl_def preparedGl_def renderFloydSteinberg_def
  from facts show ?thesis
    by (cases "texture s"; cases "paletteTexture s";
        cases "lastPaletteOptions s = Some (paletteOptionsKey options)")
       (simp_all add: defs)
qed

lemma main_first_pass:
  assumes "u_ditherType u = 1" "u_passIndex u = 0"
  shows "main u tex fc =
     (if u_usePalette u then findClosestPaletteColor u tex (preprocessed u tex fc)
      else reduceColor (preprocessed u tex fc) (mix 16 2 (u_ditherAmount u)))"
  using assms by (simp add: main_def applyFloydSteinberg_def Let_def)

lemma pass_index_preprocessed:
  "preprocessed (u\<lparr>u_passIndex := i\<rparr>) tex fc = preprocessed u tex fc"
  by (simp add: preprocessed_def fragUV_def preprocessImage_def Let_def)

lemma pass_index_palette:
  "findClosestPaletteColor (u\<lparr>u_passIndex := i\<rparr>) tex c = findClosestPaletteColor u tex c"
  by (simp add: findClosestPaletteColor_def)

lemma second_draw_frame:
  assumes sd: "secondDrawFails env options s"
    and g: "gl s = Some g" and prog: "program s" and c: "canvas s = Some cv"
    and ready: "quadReady g"
  shows "fst (ditherImage env img options s) = Inr False
    \<and> (\<exists>g' cv'.
         gl (snd (ditherImage env img options s)) = Some g'
       \<and> canvas (snd (ditherImage env img options s)) = Some cv'
       \<and> canvasWidth cv' = imageWidth (processedImageOf env img options)
       \<and> canvasHeight cv' = imageHeight (processedImageOf env img options)
       \<and> optionUniforms (processedImageOf env img options) options (uniformValues g')
       \<and> (\<forall>x<canvasWidth cv'. \<forall>y<canvasHeight cv'.
            pixels cv' (x, y) =
              rgba (if usePalette options = Some True
                    then findClosestPaletteColor (uniformValues g') (texture2D g')
                           (preprocessed (uniformValues g') (texture2D g')
                              (pixelCentre (int x) (int y)))
                    else reduceColor (preprocessed (uniformValues g') (texture2D g')
                                        (pixelCentre (int x) (int y)))
                           (mix 16 2 (ditherAmount options))) 1
            \<and> preprocessed (uniformValues g') (texture2D g') (pixelCentre (int x) (int y))
                = preprocessImage (uniformValues g')
                    (if texture s
                     then imageSample (processedImageOf env img options)
                            (fragUV (uniformValues g') (pixelCentre (int x) (int y)))
                     else (0, 0, 0))))"
proof -
  define p where "p = processedImageOf env img options"
  define g' where "g' = finalGl p options g s"
  define cv0 where "cv0 = clearCanvas (resizeCanvas (imageWidth p) (imageHeight p) cv)"
  define cv' where "cv' = drawArrays (pass0Gl p options g s) cv0"
  from sd have fs: "ditherType options = 1" by (simp add: secondDrawFails_def)
  note run = ditherImage_run [OF g prog c, of env img options, folded p_def]
  note tr = ditherImage_try_second_draw [OF sd, of p g cv]
  have r: "fst (ditherImage env img options s) = Inr False" using run by (simp add: tr)
  have gl': "gl (snd (ditherImage env img options s)) = Some g'"
    and cv: "canvas (snd (ditherImage env img options s)) = Some cv'"
    using run by (simp_all add: tr g'_def cv'_def cv0_def)
  have size0: "canvasWidth cv0 = imageWidth p" "canvasHeight cv0 = imageHeight p"
    by (simp_all add: cv0_def clearCanvas_def resizeCanvas_def)
  have size: "canvasWidth cv' = imageWidth p" "canvasHeight cv' = imageHeight p"
    by (simp_all add: cv'_def drawArrays_size size0)
  have ou: "optionUniforms p options (uniformValues g')"
    unfolding g'_def by (rule finalGl_optionUniforms)
  then have u: "u_ditherAmount (uniformValues g') = ditherAmount options"
    "u_ditherType (uniformValues g') = 1"
    "u_usePalette (uniformValues g') = (usePalette options = Some True)"
    using fs by (simp_all add: optionUniforms_def)
  have px: "pixels cv' (x, y) =
      rgba (main ((uniformValues g')\<lparr>u_passIndex := 0\<rparr>) (texture2D g')
              (pixelCentre (int x) (int y))) 1"
    if "x < imageWidth p" "y < imageHeight p" for x y
    unfolding cv'_def g'_def
    using ready that
    by (simp add: drawArrays_pixel pass0Gl_quad pass0Gl_viewport size0
        pass0Gl_uniforms [OF fs] pass0Gl_samplers [OF fs])
  have m: "main ((uniformValues g')\<lparr>u_passIndex := 0\<rparr>) (texture2D g') fc =
      (if usePalette options = Some True
       then findClosestPaletteColor (uniformValues g') (texture2D g')
              (preprocessed (uniformValues g') (texture2D g') fc)
       else reduceColor (preprocessed (uniformValues g') (texture2D g') fc)
              (mix 16 2 (ditherAmount options)))" for fc
    using u by (subst main_first_pass)
      (simp_all add: pass_index_preprocessed pass_index_palette)
  have pre: "preprocessed (uniformValues g') (texture2D g') fc
      = preprocessImage (uniformValues g')
          (if texture s then imageSample p (fragUV (uniformValues g') fc) else (0, 0, 0))" for fc
    unfolding g'_def by (rule finalGl_preprocessed)
  show ?thesis
    unfolding p_def [symmetric]
    by (rule conjI [OF r], rule exI [of _ g'], rule exI [of _ cv'])
       (simp add: cv gl' size ou px m pre)
qed

lemma ditherImage_try_frame_wait:
  "throws env AnimationFrame \<Longrightarrow> ditherImage_try env p options g cv s = (Inl JsError, s)"
  by (simp add: ditherImage_try_def)

text \<open>
  Claim C2, as amended. A render call that fails at its guard (no context, program or
  canvas) or at the wait for the animation frame returns false and leaves the service,
  and with it the destination surface, exactly as it was. Every other render call
  resizes the surface to the processed image before anything else can fail, whatever
  it returns. If it then returns false, and the failure is not the second draw call of
  error diffusion throwing (in particular when that call does not throw), every pixel
  of the surface is cleared to transparent black: the previous frame is gone. If the
  second draw call of error diffusion is the only step that fails, the call returns
  false and, on a context whose quad is set up, the surface holds the frame of the
  first draw call: every pixel is the preprocessed colour of that pixel quantized once
  at the levels of the dither amount, or its palette lookup when the palette is enabled.
\<close>

theorem failed_render_surface:
  "(gl s = None \<or> \<not> program s \<or> canvas s = None \<or> throws env AnimationFrame \<longrightarrow>
      ditherImage env img options s = (Inr False, s))
   \<and> (gl s \<noteq> None \<and> program s \<and> canvas s \<noteq> None \<and> \<not> throws env AnimationFrame \<longrightarrow>
        (\<exists>cv'. canvas (snd (ditherImage env img options s)) = Some cv'
           \<and> canvasWidth cv' = imageWidth (processedImageOf env img options)
           \<and> canvasHeight cv' = imageHeight (processedImageOf env img options)
           \<and> (fst (ditherImage env img options s) = Inr False \<and> \<not> throws env (DrawArrays 1)
                \<longrightarrow> pixels cv' = (\<lambda>q. (0, 0, 0, 0)))
           \<and> (fst (ditherImage env img options s) = Inr False
                \<and> \<not> secondDrawFails env options s
                \<longrightarrow> pixels cv' = (\<lambda>q. (0, 0, 0, 0)))))
   \<and> (gl s = Some g \<and> quadReady g \<and> program s \<and> canvas s \<noteq> None
        \<and> secondDrawFails env options s \<longrightarrow>
        fst (ditherImage env img options s) = Inr False
        \<and> (\<exists>g' cv'.
             gl (snd (ditherImage env img options s)) = Some g'
           \<and> canvas (snd (ditherImage env img options s)) = Some cv'
           \<and> canvasWidth cv' = imageWidth (processedImageOf env img options)
           \<and> canvasHeight cv' = imageHeight (processedImageOf env img options)
           \<and> optionUniforms (processedImageOf env img options) options (uniformValues g')
           \<and> (\<forall>x<canvasWidth cv'. \<forall>y<canvasHeight cv'.
                pixels cv' (x, y) =
                  rgba (if usePalette options = Some True
                        then findClosestPaletteColor (uniformValues g') (texture2D g')
                               (preprocessed (uniformValues g') (texture2D g')
                                  (pixelCentre (int x) (int y)))
                        else reduceColor (preprocessed (uniformValues g') (texture2D g')
                                            (pixelCentre (int x) (int y)))
                               (mix 16 2 (ditherAmount options))) 1
                \<and> preprocessed (uniformValues g') (texture2D g')
                      (pixelCentre (int x) (int y))
                    = preprocessImage (uniformValues g')
                        (if texture s
                         then imageSample (processedImageOf env img options)
                                (fragUV (uniformValues g') (pixelCentre (int x) (int y)))
                         else (0, 0, 0)))))"
proof (intro conjI impI)
  assume a: "gl s = None \<or> \<not> program s \<or> canvas s = None \<or> throws env AnimationFrame"
  show "ditherImage env img options s = (Inr False, s)"
  proof (cases "gl s = None \<or> \<not> program s \<or> canvas s = None")
    case True
    then show ?thesis by (rule ditherImage_guard)
  next
    case False
    with a have "throws env AnimationFrame" by blast
    with False show ?thesis
      by (auto simp: ditherImage_def Let_def ditherImage_try_frame_wait)
  qed
next
  assume a: "gl s \<noteq> None \<and> program s \<and> canvas s \<noteq> None \<and> \<not> throws env AnimationFrame"
  then obtain g0 cv where s: "gl s = Some g0" "program s" "canvas s = Some cv" by auto
  define p where "p = processedImageOf env img options"
  from a ditherImage_try_canvas [of env p options g0 cv s] obtain cv' where
    cv: "canvas (snd (ditherImage_try env p options g0 cv s)) = Some cv'"
    "canvasWidth cv' = imageWidth p" "canvasHeight cv' = imageHeight p"
    by blast
  note run = ditherImage_run [OF s, of env img options, folded p_def]
  have f: "fst (ditherImage env img options s) = Inr False \<Longrightarrow>
      fst (ditherImage_try env p options g0 cv s) \<noteq> Inr True"
    using run by auto
  have n: "\<not> throws env (DrawArrays 1) \<Longrightarrow> \<not> secondDrawFails env options s"
    by (simp add: secondDrawFails_def)
  have z: "pixels cv' = (\<lambda>q. (0, 0, 0, 0))"
    if "fst (ditherImage env img options s) = Inr False" "\<not> secondDrawFails env options s"
    using ditherImage_try_cleared [of env p options g0 cv s] a f [OF that(1)] that(2) cv(1)
    by auto
  from cv z n run show "\<exists>cv'. canvas (snd (ditherImage env img options s)) = Some cv'
           \<and> canvasWidth cv' = imageWidth (processedImageOf env img options)
           \<and> canvasHeight cv' = imageHeight (processedImageOf env img options)
           \<and> (fst (ditherImage env img options s) = Inr False \<and> \<not> throws env (DrawArrays 1)
                \<longrightarrow> pixels cv' = (\<lambda>q. (0, 0, 0, 0)))
           \<and> (fst (ditherImage env img options s) = Inr False
                \<and> \<not> secondDrawFails env options s
                \<longrightarrow> pixels cv' = (\<lambda>q. (0, 0, 0, 0)))"
    unfolding p_def [symmetric] by (intro exI [of _ cv']) simp
next
  assume a: "gl s = Some g \<and> quadReady g \<and> program s \<and> canvas s \<noteq> None
        \<and> secondDrawFails env options s"
  then obtain cv where c: "canvas s = Some cv" by auto
  from a have h: "secondDrawFails env options s" "gl s = Some g" "program s" "quadReady g"
    by simp_all
  note frame = second_draw_frame [OF h(1) h(2) h(3) c h(4), of img]
  from frame show "fst (ditherImage env img options s) = Inr False" by (rule conjunct1)
  from frame show "\<exists>g' cv'.
             gl (snd (ditherImage env img options s)) = Some g'
           \<and> canvas (snd (ditherImage env img options s)) = Some cv'
           \<and> canvasWidth cv' = imageWidth (processedImageOf env img options)
           \<and> canvasHeight cv' = imageHeight (processedImageOf env img options)
           \<and> optionUniforms (processedImageOf env img options) options (uniformValues g')
           \<and> (\<forall>x<canvasWidth cv'. \<forall>y<canvasHeight cv'.
                pixels cv' (x, y) =
                  rgba (if usePalette options = Some True
                        then findClosestPaletteColor (uniformValues g') (texture2D g')
                               (preprocessed (uniformValues g') (texture2D g')
                                  (pixelCentre (int x) (int y)))
                        else reduceColor (preprocessed (uniformValues g') (texture2D g')
                                            (pixelCentre (int x) (int y)))
                               (mix 16 2 (ditherAmount options))) 1
                \<and> preprocessed (uniformValues g') (texture2D g')
                      (pixelCentre (int x) (int y))
                    = preprocessImage (uniformValues g')
                        (if texture s
                         then imageSample (processedImageOf env img options)
                                (fragUV (uniformValues g') (pixelCentre (int x) (int y)))
                         else (0, 0, 0)))"
    by (rule conjunct2)
qed

text \<open>
  A service without error texture: the set-up still succeeds, a Bayer render draws the
  grey image, and an error-diffusion render fails.
\<close>

lemma no_error_texture_setup:
  assumes "s0 = snd (setupWebGL noErrorTextureBrowser onePixelCanvas True newService)"
  shows "\<exists>g0. s0 = \<lparr>gl = Some g0, program = True, texture = True, errorTexture = False,
         paletteTexture = True, canvas = Some onePixelCanvas, lastPaletteOptions = None,
         isOffscreenCanvas = False\<rparr> \<and> quadReady g0"
  using setup_quiet [of noErrorTextureBrowser onePixelCanvas True]
  unfolding assms by (auto simp: noErrorTextureBrowser_def okBrowser_def)

lemma no_error_texture_quiet: "\<forall>c. \<not> throws noErrorTextureBrowser c"
  by (simp add: noErrorTextureBrowser_def okBrowser_def)

lemma no_error_texture_processed:
  "processedImageOf noErrorTextureBrowser greyImage (plainOptions a t) = greyImage"
  by (simp add: processedImageOf_def plainOptions_def)

lemma greyImage_size: "imageWidth greyImage = 1" "imageHeight greyImage = 1"
  by (simp_all add: greyImage_def)

lemma second_draw_processed:
  "processedImageOf secondDrawBrowser greyImage (plainOptions a t) = greyImage"
  by (simp add: processedImageOf_def plainOptions_def)

theorem failed_render_surface_witness:
  "ditherImage okBrowser greyImage (plainOptions 0 1) newService = (Inr False, newService)
   \<and> fst (ditherImage noErrorTextureBrowser greyImage (plainOptions 0 1)
        (snd (setupWebGL noErrorTextureBrowser onePixelCanvas True newService))) = Inr False
   \<and> (\<exists>cv'. canvas (snd (ditherImage noErrorTextureBrowser greyImage (plainOptions 0 1)
        (snd (setupWebGL noErrorTextureBrowser onePixelCanvas True newService)))) = Some cv'
          \<and> canvasWidth cv' = 1 \<and> canvasHeight cv' = 1
          \<and> pixels cv' = (\<lambda>q. (0, 0, 0, 0)))
   \<and> fst (ditherImage secondDrawBrowser greyImage (plainOptions 0 1)
        (snd (setupWebGL okBrowser onePixelCanvas True newService))) = Inr False
   \<and> (\<exists>cv'. canvas (snd (ditherImage secondDrawBrowser greyImage (plainOptions 0 1)
        (snd (setupWebGL okBrowser onePixelCanvas True newService)))) = Some cv'
          \<and> canvasWidth cv' = 1 \<and> canvasHeight cv' = 1
          \<and> pixels cv' (0, 0) = (9 / 16, 9 / 16, 9 / 16, 1))"
proof -
  define s0 where "s0 = snd (setupWebGL noErrorTextureBrowser onePixelCanvas True newService)"
  from no_error_texture_setup [OF s0_def] obtain g0 where
    s0: "s0 = \<lparr>gl = Some g0, program = True, texture = True, errorTexture = False,
         paletteTexture = True, canvas = Some onePixelCanvas, lastPaletteOptions = None,
         isOffscreenCanvas = False\<rparr>"
    by blast
  have f: "fst (ditherImage noErrorTextureBrowser greyImage (plainOptions 0 1) s0) = Inr False"
    using render_quiet [OF no_error_texture_quiet, of s0 g0 onePixelCanvas greyImage
        "plainOptions 0 1"]
    by (simp add: s0 plainOptions_def)
  have h1: "gl newService = None \<or> \<not> program newService \<or> canvas newService = None
      \<or> throws okBrowser AnimationFrame"
    by (simp add: newService_def)
  have h2: "gl s0 \<noteq> None \<and> program s0 \<and> canvas s0 \<noteq> None
      \<and> \<not> throws noErrorTextureBrowser AnimationFrame"
    by (simp add: s0 no_error_texture_quiet)
  have h3: "\<not> throws noErrorTextureBrowser (DrawArrays 1)"
    "\<not> secondDrawFails noErrorTextureBrowser (plainOptions 0 1) s0"
    by (simp_all add: no_error_texture_quiet secondDrawFails_def)
  from failed_render_surface [where s = newService and env = okBrowser and img = greyImage
      and options = "plainOptions 0 1"] h1
  have a: "ditherImage okBrowser greyImage (plainOptions 0 1) newService
      = (Inr False, newService)"
    by blast
  from failed_render_surface [where s = s0 and env = noErrorTextureBrowser
      and img = greyImage and options = "plainOptions 0 1"] h2 h3 f
  have b: "\<exists>cv'. canvas (snd (ditherImage noErrorTextureBrowser greyImage (plainOptions 0 1) s0))
        = Some cv'
      \<and> canvasWidth cv' = 1 \<and> canvasHeight cv' = 1 \<and> pixels cv' = (\<lambda>q. (0, 0, 0, 0))"
    by (auto simp: no_error_texture_processed greyImage_size)
  define s1 where "s1 = snd (setupWebGL okBrowser onePixelCanvas True newService)"
  from setup_ok [of onePixelCanvas True] obtain g1 where
    s1: "s1 = \<lparr>gl = Some g1, program = True, texture = True, errorTexture = True,
         paletteTexture = True, canvas = Some onePixelCanvas, lastPaletteOptions = None,
         isOffscreenCanvas = False\<rparr>"
    and q: "quadReady g1"
    unfolding s1_def by auto
  have h4: "gl s1 = Some g1 \<and> quadReady g1 \<and> program s1 \<and> canvas s1 \<noteq> None
      \<and> secondDrawFails secondDrawBrowser (plainOptions 0 1) s1"
    by (simp add: s1 q secondDrawFails_def secondDrawBrowser_def okBrowser_def plainOptions_def)
  from failed_render_surface [where s = s1 and env = secondDrawBrowser
      and img = greyImage and options = "plainOptions 0 1" and g = g1] h4
  obtain g' cv' where
    c: "fst (ditherImage secondDrawBrowser greyImage (plainOptions 0 1) s1) = Inr False"
    and cv: "canvas (snd (ditherImage secondDrawBrowser greyImage (plainOptions 0 1) s1))
        = Some cv'"
    and size: "canvasWidth cv' = 1" "canvasHeight cv' = 1"
    and ou: "optionUniforms greyImage (plainOptions 0 1) (uniformValues g')"
    and px: "\<forall>x<canvasWidth cv'. \<forall>y<canvasHeight cv'.
        pixels cv' (x, y) =
          rgba (if usePalette (plainOptions 0 1) = Some True
                then findClosestPaletteColor (uniformValues g') (texture2D g')
                       (preprocessed (uniformValues g') (texture2D g')
                          (pixelCentre (int x) (int y)))
                else reduceColor (preprocessed (uniformValues g') (texture2D g')
                                    (pixelCentre (int x) (int y)))
                       (mix 16 2 (ditherAmount (plainOptions 0 1)))) 1
        \<and> preprocessed (uniformValues g') (texture2D g') (pixelCentre (int x) (int y))
            = preprocessImage (uniformValues g')
                (if texture s1
                 then imageSample greyImage
                        (fragUV (uniformValues g') (pixelCentre (int x) (int y)))
                 else (0, 0, 0))"
    unfolding second_draw_processed greyImage_size by blast
  have pre: "preprocessed (uniformValues g') (texture2D g') (pixelCentre 0 0)
      = (3 / 5, 3 / 5, 3 / 5)"
    using px size grey_preprocessed [OF ou] by (simp add: s1)
  have "pixels cv' (0, 0) =
      rgba (reduceColor (preprocessed (uniformValues g') (texture2D g')
              (pixelCentre 0 0)) (mix 16 2 0)) 1"
    using px size by (simp add: plainOptions_def)
  then have d: "pixels cv' (0, 0) = (9 / 16, 9 / 16, 9 / 16, 1)"
    by (simp add: pre mix_zero reduceColor_def rgba_def)
  from a f b c cv size d show ?thesis unfolding s0_def s1_def by blast
qed

text \<open>
  The claim as stated fails. On a service without error texture a Bayer render draws
  the grey image (the pixel holds 9/16, opaque); the error-diffusion render that
  follows returns false and leaves the pixel transparent black, not the previous frame.
\<close>

theorem failed_render_counterexample:
  "\<exists>cv1 cv2.
     fst (ditherImage noErrorTextureBrowser greyImage (plainOptions 0 0)
        (snd (setupWebGL noErrorTextureBrowser onePixelCanvas True newService))) = Inr True
   \<and> canvas (snd (ditherImage noErrorTextureBrowser greyImage (plainOptions 0 0)
        (snd (setupWebGL noErrorTextureBrowser onePixelCanvas True newService)))) = Some cv1
   \<and> pixels cv1 (0, 0) = (9 / 16, 9 / 16, 9 / 16, 1)
   \<and> fst (ditherImage noErrorTextureBrowser greyImage (plainOptions 0 1)
        (snd (ditherImage noErrorTextureBrowser greyImage (plainOptions 0 0)
          (snd (setupWebGL noErrorTextureBrowser onePixelCanvas True newService)))))
       = Inr False
   \<and> canvas (snd (ditherImage noErrorTextureBrowser greyImage (plainOptions 0 1)
        (snd (ditherImage noErrorTextureBrowser greyImage (plainOptions 0 0)
          (snd (setupWebGL noErrorTextureBrowser onePixelCanvas True newService))))))
       = Some cv2
   \<and> pixels cv2 (0, 0) = (0, 0, 0, 0)
   \<and> cv2 \<noteq> cv1"
proof -
  define env where "env = noErrorTextureBrowser"
  define s0 where "s0 = snd (setupWebGL env onePixelCanvas True newService)"
  define s1 where "s1 = snd (ditherImage env greyImage (plainOptions 0 0) s0)"
  from no_error_texture_setup [OF s0_def [unfolded env_def]] obtain g0 where
    s0: "s0 = \<lparr>gl = Some g0, program = True, texture = True, errorTexture = False,
         paletteTexture = True, canvas = Some onePixelCanvas, lastPaletteOptions = None,
         isOffscreenCanvas = False\<rparr>"
    and q: "quadReady g0"
    by blast
  have quiet: "\<forall>c. \<not> throws env c" unfolding env_def by (rule no_error_texture_quiet)
  have p: "processedImageOf env greyImage (plainOptions a t) = greyImage" for a t
    unfolding env_def by (rule no_error_texture_processed)
  \<comment> \<open>the Bayer render\<close>
  have ok1: "fst (ditherImage env greyImage (plainOptions 0 0) s0) = Inr True"
    using render_quiet [OF quiet, of s0 g0 onePixelCanvas greyImage "plainOptions 0 0"]
    by (simp add: s0 plainOptions_def)
  define g1 where "g1 = finalGl greyImage (plainOptions 0 0) g0 s0"
  from rendered_frame [OF ok1, of g0] q obtain cv1 where
    cv1: "canvas s1 = Some cv1" and gl1: "gl s1 = Some g1"
    and size: "canvasWidth cv1 = 1" "canvasHeight cv1 = 1"
    and px: "\<forall>x<canvasWidth cv1. \<forall>y<canvasHeight cv1. pixels cv1 (x, y) =
            rgba (main (uniformValues g1) (texture2D g1) (pixelCentre (int x) (int y))) 1"
    unfolding p g1_def s1_def by (auto simp: s0 greyImage_def)
  have ou: "optionUniforms greyImage (plainOptions 0 0) (uniformValues g1)"
    unfolding g1_def by (rule finalGl_optionUniforms)
  then have u: "u_ditherAmount (uniformValues g1) = 0" "u_ditherType (uniformValues g1) = 0"
    "\<not> u_usePalette (uniformValues g1)"
    by (simp_all add: optionUniforms_def plainOptions_def)
  have "preprocessed (uniformValues g1) (texture2D g1) fc = (3 / 5, 3 / 5, 3 / 5)" for fc
    unfolding g1_def finalGl_preprocessed
    using grey_preprocessed [OF ou [unfolded g1_def]] by (simp add: s0)
  then have "main (uniformValues g1) (texture2D g1) fc = (9 / 16, 9 / 16, 9 / 16)" for fc
    using u by (simp add: main_bayer_zero findClosestPaletteColor_def reduceColor_def)
  with px size have a: "pixels cv1 (0, 0) = (9 / 16, 9 / 16, 9 / 16, 1)"
    by (simp add: rgba_def)
  \<comment> \<open>the error-diffusion render on the service it left\<close>
  from rendered_fields [OF ok1] have f1: "program s1" "\<not> errorTexture s1"
    unfolding s1_def [symmetric] by (simp_all add: s0)
  have ok2: "fst (ditherImage env greyImage (plainOptions 0 1) s1) = Inr False"
    using render_quiet [OF quiet gl1 f1(1) cv1, of greyImage "plainOptions 0 1"] f1(2)
    by (simp add: plainOptions_def)
  from ditherImage_try_canvas [of env greyImage "plainOptions 0 1" g1 cv1 s1]
    ditherImage_run [OF gl1 f1(1) cv1, of env greyImage "plainOptions 0 1"] ok2 quiet
  obtain cv2 where cv2: "canvas (snd (ditherImage env greyImage (plainOptions 0 1) s1)) = Some cv2"
    and z: "pixels cv2 = (\<lambda>q. (0, 0, 0, 0))"
    unfolding p by auto
  from z have b: "pixels cv2 (0, 0) = (0, 0, 0, 0)" by simp
  with a have c: "cv2 \<noteq> cv1" by auto
  from ok1 cv1 a ok2 cv2 b c show ?thesis
    unfolding s1_def s0_def env_def by blast
qed

section \<open>The palette cache\<close>

text \<open>What a render call that returns true does to the palette texture.\<close>

lemma rendered_palette:
  assumes ok: "fst (ditherImage env img options s) = Inr True"
    and g: "gl s = Some g"
  shows "\<exists>g'. gl (snd (ditherImage env img options s)) = Some g'
     \<and> lastPaletteOptions (snd (ditherImage env img options s))
         = (if paletteTexture s then Some (paletteOptionsKey options)
            else lastPaletteOptions s)
     \<and> texUploads g' PaletteTexture =
         (if paletteTexture s \<and> lastPaletteOptions s \<noteq> Some (paletteOptionsKey options)
          then Suc (texUploads g PaletteTexture) else texUploads g PaletteTexture)
     \<and> texImage g' PaletteTexture =
         (if paletteTexture s \<and> lastPaletteOptions s \<noteq> Some (paletteOptionsKey options)
          then BytesImage 256 1 (uploadedBytes options) else texImage g PaletteTexture)"
proof -
  from ditherImage_true [OF ok] g obtain cv where
    t: "fst (ditherImage_try env (processedImageOf env img options) options g cv s) = Inr True"
    and e: "snd (ditherImage env img options s) =
      snd (ditherImage_try env (processedImageOf env img options) options g cv s)"
    by auto
  show ?thesis
    by (simp add: e ditherImage_try_success [OF t] finalGl_palette_uploads
        finalGl_palette_image)
qed

text \<open>
  Claim C5, as amended. Take two successive render calls that return true on a service
  with a palette texture. The second call uploads to the palette texture exactly when
  its palette options key (the values of \<^verbatim>\<open>usePalette\<close>, \<^verbatim>\<open>paletteType\<close>,
  \<^verbatim>\<open>paletteColors\<close>, \<^verbatim>\<open>customPalette\<close> and \<^verbatim>\<open>selectedUserPalette\<close>) differs from the key of
  the first call, which the service has remembered; it then uploads the rasterization
  of its resolved colours (black and white when none are resolved). With equal keys
  nothing is uploaded and the texture keeps its image. The resolved colour lists are
  not compared.
\<close>

theorem palette_upload_by_key:
  assumes "fst (ditherImage env1 img1 options1 s) = Inr True"
    and "paletteTexture s"
    and "s1 = snd (ditherImage env1 img1 options1 s)"
    and "fst (ditherImage env2 img2 options2 s1) = Inr True"
  shows "\<exists>g1 g2. gl s1 = Some g1
     \<and> gl (snd (ditherImage env2 img2 options2 s1)) = Some g2
     \<and> lastPaletteOptions s1 = Some (paletteOptionsKey options1)
     \<and> lastPaletteOptions (snd (ditherImage env2 img2 options2 s1))
         = Some (paletteOptionsKey options2)
     \<and> texUploads g2 PaletteTexture =
         (if paletteOptionsKey options2 = paletteOptionsKey options1
          then texUploads g1 PaletteTexture else Suc (texUploads g1 PaletteTexture))
     \<and> texImage g2 PaletteTexture =
         (if paletteOptionsKey options2 = paletteOptionsKey options1
          then texImage g1 PaletteTexture else BytesImage 256 1 (uploadedBytes options2))
     \<and> paletteData (effectiveColors options2) = Some (uploadedBytes options2)"
proof -
  from ditherImage_true [OF assms(1)] obtain g where g: "gl s = Some g" by blast
  from rendered_palette [OF assms(1) g] assms(2,3) obtain g1 where
    g1: "gl s1 = Some g1" and k1: "lastPaletteOptions s1 = Some (paletteOptionsKey options1)"
    by auto
  have p1: "paletteTexture s1"
    using rendered_fields [OF assms(1)] assms(2,3) by simp
  from rendered_palette [OF assms(4) g1] obtain g2 where
    g2: "gl (snd (ditherImage env2 img2 options2 s1)) = Some g2"
    "lastPaletteOptions (snd (ditherImage env2 img2 options2 s1))
         = (if paletteTexture s1 then Some (paletteOptionsKey options2)
            else lastPaletteOptions s1)"
    "texUploads g2 PaletteTexture =
         (if paletteTexture s1 \<and> lastPaletteOptions s1 \<noteq> Some (paletteOptionsKey options2)
          then Suc (texUploads g1 PaletteTexture) else texUploads g1 PaletteTexture)"
    "texImage g2 PaletteTexture =
         (if paletteTexture s1 \<and> lastPaletteOptions s1 \<noteq> Some (paletteOptionsKey options2)
          then BytesImage 256 1 (uploadedBytes options2) else texImage g1 PaletteTexture)"
    by blast
  show ?thesis
    by (rule exI [of _ g1], rule exI [of _ g2])
       (use g1 g2 k1 p1 in \<open>auto simp: paletteData_effective\<close>)
qed

text \<open>Two render calls of the grey image after a set-up in which everything works.\<close>

lemma two_renders:
  assumes "s0 = snd (setupWebGL okBrowser onePixelCanvas True newService)"
    and "s1 = snd (ditherImage okBrowser greyImage options1 s0)"
  shows "\<exists>g1 g2. fst (ditherImage okBrowser greyImage options1 s0) = Inr True
     \<and> paletteTexture s0
     \<and> fst (ditherImage okBrowser greyImage options2 s1) = Inr True
     \<and> gl s1 = Some g1
     \<and> gl (snd (ditherImage okBrowser greyImage options2 s1)) = Some g2
     \<and> texUploads g2 PaletteTexture =
         (if paletteOptionsKey options2 = paletteOptionsKey options1
          then texUploads g1 PaletteTexture else Suc (texUploads g1 PaletteTexture))
     \<and> texImage g1 PaletteTexture = BytesImage 256 1 (uploadedBytes options1)
     \<and> texImage g2 PaletteTexture =
         (if paletteOptionsKey options2 = paletteOptionsKey options1
          then BytesImage 256 1 (uploadedBytes options1)
          else BytesImage 256 1 (uploadedBytes options2))"
proof -
  from setup_ok [of onePixelCanvas True] obtain g0 where
    s0: "s0 = \<lparr>gl = Some g0, program = True, texture = True, errorTexture = True,
         paletteTexture = True, canvas = Some onePixelCanvas, lastPaletteOptions = None,
         isOffscreenCanvas = \<not> True\<rparr>"
    unfolding assms(1) by auto
  have ok1: "fst (ditherImage okBrowser greyImage options1 s0) = Inr True"
    by (rule render_ok [where s = s0 and g = g0 and cv = onePixelCanvas])
       (simp_all add: s0)
  from rendered_palette [OF ok1, of g0] obtain g1 where
    g1: "gl s1 = Some g1" "lastPaletteOptions s1 = Some (paletteOptionsKey options1)"
    "texImage g1 PaletteTexture = BytesImage 256 1 (uploadedBytes options1)"
    unfolding assms(2) by (auto simp: s0)
  from rendered_fields [OF ok1] have f1: "program s1" "errorTexture s1" "paletteTexture s1"
    unfolding assms(2) by (simp_all add: s0)
  have "\<exists>cv1. canvas s1 = Some cv1"
  proof -
    from ditherImage_true [OF ok1] obtain g cv where
      t: "fst (ditherImage_try okBrowser (processedImageOf okBrowser greyImage options1)
            options1 g cv s0) = Inr True"
      and e: "s1 = snd (ditherImage_try okBrowser (processedImageOf okBrowser greyImage options1)
            options1 g cv s0)"
      unfolding assms(2) by blast
    show ?thesis by (simp add: e ditherImage_try_success [OF t])
  qed
  then obtain cv1 where cv1: "canvas s1 = Some cv1" by blast
  have ok2: "fst (ditherImage okBrowser greyImage options2 s1) = Inr True"
    by (rule render_ok [OF g1(1) f1(1) cv1 f1(2)])
  from rendered_palette [OF ok2 g1(1)] obtain g2 where
    g2: "gl (snd (ditherImage okBrowser greyImage options2 s1)) = Some g2"
    "texUploads g2 PaletteTexture =
         (if paletteTexture s1 \<and> lastPaletteOptions s1 \<noteq> Some (paletteOptionsKey options2)
          then Suc (texUploads g1 PaletteTexture) else texUploads g1 PaletteTexture)"
    "texImage g2 PaletteTexture =
         (if paletteTexture s1 \<and> lastPaletteOptions s1 \<noteq> Some (paletteOptionsKey options2)
          then BytesImage 256 1 (uploadedBytes options2) else texImage g1 PaletteTexture)"
    by blast
  show ?thesis
    by (rule exI [of _ g1], rule exI [of _ g2])
       (use ok1 ok2 g1 g2 f1 in \<open>auto simp: s0\<close>)
qed

theorem palette_upload_by_key_witness:
  "\<exists>g1 g2.
     gl (snd (ditherImage okBrowser greyImage (builtinOptions 0 2)
          (snd (setupWebGL okBrowser onePixelCanvas True newService)))) = Some g1
   \<and> gl (snd (ditherImage okBrowser greyImage (builtinOptions 0 2)
          (snd (ditherImage okBrowser greyImage (builtinOptions 0 2)
            (snd (setupWebGL okBrowser onePixelCanvas True newService)))))) = Some g2
   \<and> texUploads g2 PaletteTexture = texUploads g1 PaletteTexture
   \<and> texImage g2 PaletteTexture = texImage g1 PaletteTexture"
proof -
  define s0 where "s0 = snd (setupWebGL okBrowser onePixelCanvas True newService)"
  define s1 where "s1 = snd (ditherImage okBrowser greyImage (builtinOptions 0 2) s0)"
  from two_renders [OF s0_def s1_def, of "builtinOptions 0 2"]
  have h: "fst (ditherImage okBrowser greyImage (builtinOptions 0 2) s0) = Inr True"
    "paletteTexture s0"
    "fst (ditherImage okBrowser greyImage (builtinOptions 0 2) s1) = Inr True"
    by blast+
  from palette_upload_by_key [OF h(1) h(2) s1_def h(3)]
  show ?thesis unfolding s1_def s0_def by auto
qed

text \<open>
  The claim as stated fails. Black and white with colour count 2 and with colour count
  3 resolve to the same list of two colours, but their keys differ, and the second
  render call uploads the palette again.
\<close>

theorem palette_upload_counterexample:
  "\<exists>g1 g2.
     getPaletteColors (builtinOptions 0 3) = getPaletteColors (builtinOptions 0 2)
   \<and> gl (snd (ditherImage okBrowser greyImage (builtinOptions 0 2)
          (snd (setupWebGL okBrowser onePixelCanvas True newService)))) = Some g1
   \<and> gl (snd (ditherImage okBrowser greyImage (builtinOptions 0 3)
          (snd (ditherImage okBrowser greyImage (builtinOptions 0 2)
            (snd (setupWebGL okBrowser onePixelCanvas True newService)))))) = Some g2
   \<and> texUploads g2 PaletteTexture = Suc (texUploads g1 PaletteTexture)"
proof -
  define s0 where "s0 = snd (setupWebGL okBrowser onePixelCanvas True newService)"
  define s1 where "s1 = snd (ditherImage okBrowser greyImage (builtinOptions 0 2) s0)"
  have c: "getPaletteColors (builtinOptions 0 3) = getPaletteColors (builtinOptions 0 2)"
    by (simp add: getPaletteColors_def builtinOptions_def plainOptions_def predefinedKey_def
        PaletteType_BW_def PaletteType_CUSTOM_def PaletteType_USER_def)
  have k: "paletteOptionsKey (builtinOptions 0 3) \<noteq> paletteOptionsKey (builtinOptions 0 2)"
    by (simp add: paletteOptionsKey_def builtinOptions_def plainOptions_def)
  from two_renders [OF s0_def s1_def, of "builtinOptions 0 3"] k obtain g1 g2 where
    "gl s1 = Some g1"
    "gl (snd (ditherImage okBrowser greyImage (builtinOptions 0 3) s1)) = Some g2"
    "texUploads g2 PaletteTexture = Suc (texUploads g1 PaletteTexture)"
    by auto
  with c show ?thesis unfolding s1_def s0_def by blast
qed

section \<open>An empty resolved palette\<close>

lemma effectiveColors_empty:
  "getPaletteColors options = [] \<Longrightarrow> effectiveColors options = [''#000000'', ''#FFFFFF'']"
  by (simp add: effectiveColors_def)

text \<open>
  When a render call with an empty resolved palette uploads the palette (its key differs
  from the remembered one), the lookup texture receives black and white, and the call
  returns what it would return otherwise: the empty list is no error.
\<close>

lemma empty_palette_fallback:
  assumes ok: "fst (ditherImage env img options s) = Inr True"
    and g: "gl s = Some g" and pt: "paletteTexture s"
    and key: "lastPaletteOptions s \<noteq> Some (paletteOptionsKey options)"
    and empty: "getPaletteColors options = []"
  shows "\<exists>g' bw. gl (snd (ditherImage env img options s)) = Some g'
     \<and> paletteData [''#000000'', ''#FFFFFF''] = Some bw
     \<and> texImage g' PaletteTexture = BytesImage 256 1 bw"
proof -
  from rendered_palette [OF ok g] pt key obtain g' where
    "gl (snd (ditherImage env img options s)) = Some g'"
    "texImage g' PaletteTexture = BytesImage 256 1 (uploadedBytes options)"
    by auto
  moreover have "paletteData [''#000000'', ''#FFFFFF''] = Some (uploadedBytes options)"
    using paletteData_effective [of options] by (simp add: effectiveColors_empty [OF empty])
  ultimately show ?thesis by blast
qed

lemma ocean_blue_colors:
  "getPaletteColors (userOptions DEFAULT_USER_PALETTES)
     = [''#001F3F'', ''#0074D9'', ''#7FDBFF'', ''#FFFFFF'']"
  by (simp add: getPaletteColors_def userOptions_def plainOptions_def DEFAULT_USER_PALETTES_def
      PaletteType_CUSTOM_def PaletteType_USER_def)

lemma emptied_colors: "getPaletteColors (userOptions emptiedUserPalettes) = []"
  by (simp add: getPaletteColors_def userOptions_def plainOptions_def emptiedUserPalettes_def
      PaletteType_CUSTOM_def PaletteType_USER_def)

text \<open>
  Claim C8, at an input where the code departs from it. A render call with the user
  palette 1 (Ocean Blue) is followed by a render call in which that user palette has
  been emptied. The second call has \<^verbatim>\<open>usePalette\<close> true and resolves to the empty list,
  and it returns true; but its key equals the remembered key (the key holds the
  identifier of the user palette, not its colours), so nothing is uploaded and the
  lookup texture still holds the rasterization of Ocean Blue, whose first entry is
  \<open>(0, 31, 63)\<close>, not black and white, whose first entry is \<open>(0, 0, 0)\<close>.
\<close>

theorem empty_user_palette_keeps_stale_texture:
  "\<exists>g2 bw.
     usePalette (userOptions emptiedUserPalettes) = Some True
   \<and> getPaletteColors (userOptions emptiedUserPalettes) = []
   \<and> fst (ditherImage okBrowser greyImage (userOptions emptiedUserPalettes)
        (snd (ditherImage okBrowser greyImage (userOptions DEFAULT_USER_PALETTES)
          (snd (setupWebGL okBrowser onePixelCanvas True newService))))) = Inr True
   \<and> gl (snd (ditherImage okBrowser greyImage (userOptions emptiedUserPalettes)
        (snd (ditherImage okBrowser greyImage (userOptions DEFAULT_USER_PALETTES)
          (snd (setupWebGL okBrowser onePixelCanvas True newService)))))) = Some g2
   \<and> texImage g2 PaletteTexture
       = BytesImage 256 1 (uploadedBytes (userOptions DEFAULT_USER_PALETTES))
   \<and> texelAt (uploadedBytes (userOptions DEFAULT_USER_PALETTES)) 0 = (0, 31, 63, 255)
   \<and> paletteData [''#000000'', ''#FFFFFF''] = Some bw
   \<and> texelAt bw 0 = (0, 0, 0, 255)
   \<and> texImage g2 PaletteTexture \<noteq> BytesImage 256 1 bw"
proof -
  define s0 where "s0 = snd (setupWebGL okBrowser onePixelCanvas True newService)"
  define s1 where
    "s1 = snd (ditherImage okBrowser greyImage (userOptions DEFAULT_USER_PALETTES) s0)"
  have k: "paletteOptionsKey (userOptions emptiedUserPalettes)
      = paletteOptionsKey (userOptions DEFAULT_USER_PALETTES)"
    by (simp add: paletteOptionsKey_def userOptions_def)
  from two_renders [OF s0_def s1_def, of "userOptions emptiedUserPalettes"] k obtain g2 where
    r: "fst (ditherImage okBrowser greyImage (userOptions emptiedUserPalettes) s1) = Inr True"
    "gl (snd (ditherImage okBrowser greyImage (userOptions emptiedUserPalettes) s1)) = Some g2"
    "texImage g2 PaletteTexture
       = BytesImage 256 1 (uploadedBytes (userOptions DEFAULT_USER_PALETTES))"
    by auto
  have h: "hexToRgb ''#001F3F'' = (0, 31, 63)" "hexToRgb ''#000000'' = (0, 0, 0)"
    by (simp_all add: hexToRgb_def parseInt16_def stripSign_def stripHexPrefix_def
        isWhiteSpace_def hexDigit_def toInt32_def)
  have e: "effectiveColors (userOptions DEFAULT_USER_PALETTES)
      = [''#001F3F'', ''#0074D9'', ''#7FDBFF'', ''#FFFFFF'']"
    by (simp add: effectiveColors_def ocean_blue_colors)
  have o: "texelAt (uploadedBytes (userOptions DEFAULT_USER_PALETTES)) 0 = (0, 31, 63, 255)"
    using uploadedBytes_ends [of "userOptions DEFAULT_USER_PALETTES"] by (simp add: e h)
  from paletteData_texels [of "[''#000000'', ''#FFFFFF'']"] obtain bw where
    bw: "paletteData [''#000000'', ''#FFFFFF''] = Some bw"
    and t: "\<forall>j<256. texelAt bw j = paletteTexel [''#000000'', ''#FFFFFF''] j"
    by auto
  from t have b: "texelAt bw 0 = (0, 0, 0, 255)"
    by (simp add: paletteTexel_def colorIndexAt_first h)
  from o b have ne: "uploadedBytes (userOptions DEFAULT_USER_PALETTES) \<noteq> bw" by auto
  have u: "usePalette (userOptions emptiedUserPalettes) = Some True"
    by (simp add: userOptions_def)
  from r o bw b ne u emptied_colors show ?thesis
    unfolding s1_def s0_def by auto
qed

section \<open>The results of the public operations\<close>

lemma setupWebGL_returns: "\<exists>b. fst (setupWebGL env cv isHtml s) = Inr b"
  by (cases "setupWebGL_try env cv isHtml s"; cases "fst (setupWebGL_try env cv isHtml s)")
     (auto simp: setupWebGL_def)

lemma ditherImage_returns: "\<exists>b. fst (ditherImage env img options s) = Inr b"
proof (cases "gl s = None \<or> \<not> program s \<or> canvas s = None")
  case True
  from ditherImage_guard [OF True, of env img options] show ?thesis
    by (intro exI [of _ False]) simp
next
  case False
  then obtain g cv where s: "gl s = Some g" "program s" "canvas s = Some cv" by auto
  show ?thesis
    using ditherImage_run [OF s, of env img options]
    by (cases "fst (ditherImage_try env (processedImageOf env img options) options g cv s)")
       auto
qed

lemma setupWebGL_try_true_iff:
  "fst (setupWebGL_try env cv isHtml s) = Inr True \<longleftrightarrow>
     \<not> throws env GetContext \<and> contextAvailable env
     \<and> \<not> throws env (CreateShader VERTEX_SHADER) \<and> \<not> throws env (CreateShader FRAGMENT_SHADER)
     \<and> createShader env VERTEX_SHADER \<and> createShader env FRAGMENT_SHADER
     \<and> \<not> throws env CreateProgram \<and> createProgram env
     \<and> \<not> throws env UseProgram \<and> \<not> throws env SetupPositionBuffer
     \<and> \<not> throws env CreateMainTexture \<and> \<not> throws env CreateErrorTexture
     \<and> (textureCreated env PaletteTexture \<longrightarrow> \<not> throws env CreatePaletteTexture)"
proof -
  obtain d where d: "paletteData [''#000000'', ''#FFFFFF''] = Some d"
    using paletteData_texels [of "[''#000000'', ''#FFFFFF'']"] by auto
  show ?thesis
    by (simp add: setupWebGL_try_def Let_def createMainTexture_def createErrorTexture_def
        createPaletteTexture_def d split: prod.splits) blast
qed

lemma setupWebGL_true_iff:
  "fst (setupWebGL env cv isHtml s) = Inr True
     \<longleftrightarrow> fst (setupWebGL_try env cv isHtml s) = Inr True"
  by (cases "setupWebGL_try env cv isHtml s"; cases "fst (setupWebGL_try env cv isHtml s)")
     (auto simp: setupWebGL_def)

lemma ditherImage_true_iff:
  "fst (ditherImage env img options s) = Inr True \<longleftrightarrow>
     gl s \<noteq> None \<and> program s \<and> canvas s \<noteq> None
     \<and> \<not> throws env AnimationFrame \<and> \<not> throws env Viewport \<and> \<not> throws env Clear
     \<and> (texture s \<longrightarrow> \<not> throws env LoadImageTexture)
     \<and> (paletteTexture s \<and> lastPaletteOptions s \<noteq> Some (paletteOptionsKey options)
          \<longrightarrow> \<not> throws env UpdatePaletteTexture)
     \<and> \<not> throws env SetupShaderUniforms
     \<and> (if ditherType options = 1
         then errorTexture s \<and> \<not> throws env InitErrorTexture \<and> \<not> throws env (DrawArrays 0)
              \<and> \<not> throws env (DrawArrays 1)
         else \<not> throws env BindMainTexture \<and> \<not> throws env (DrawArrays 0))"
proof (cases "gl s = None \<or> \<not> program s \<or> canvas s = None")
  case True
  then show ?thesis using ditherImage_guard [OF True, of env img options] by auto
next
  case False
  then obtain g cv where s: "gl s = Some g" "program s" "canvas s = Some cv" by auto
  let ?r = "fst (ditherImage_try env (processedImageOf env img options) options g cv s)"
  have "fst (ditherImage env img options s) = Inr True \<longleftrightarrow> ?r = Inr True"
    using ditherImage_run [OF s, of env img options] by (cases ?r) auto
  then show ?thesis using s by (simp add: ditherImage_try_true_iff)
qed

text \<open>
  Claim C9, as amended. Neither public operation throws: each returns a boolean.
  \<^verbatim>\<open>setupWebGL\<close> returns false when the context cannot be obtained, when a shader cannot be
  created or compiled, when the program cannot be created or linked, and when a call
  throws; it returns true otherwise, also when textures could not be created (their
  creation is not checked). \<^verbatim>\<open>ditherImage\<close> returns true exactly when the context, the
  program and the canvas are there, no step up to its last draw call throws and, for
  error diffusion, the error texture exists: a render call whose draw calls are
  submitted returns true, and a missing error texture makes an error-diffusion render
  return false. A missing main or palette texture does not fail a render call.
\<close>

theorem public_operations_results:
  "(\<exists>b. fst (setupWebGL env cv isHtml s) = Inr b)
   \<and> (\<exists>b. fst (ditherImage env img options s) = Inr b)
   \<and> (\<not> contextAvailable env
        \<or> (\<exists>k. \<not> shaderCreated env k \<or> \<not> shaderCompiles env k)
        \<or> \<not> programCreated env \<or> \<not> programLinks env
        \<or> (\<exists>c \<in> {GetContext, CreateShader VERTEX_SHADER, CreateShader FRAGMENT_SHADER,
                   CreateProgram, UseProgram, SetupPositionBuffer, CreateMainTexture,
                   CreateErrorTexture}. throws env c)
      \<longrightarrow> fst (setupWebGL env cv isHtml s) = Inr False)
   \<and> (contextAvailable env
        \<and> (\<forall>k. shaderCreated env k \<and> shaderCompiles env k)
        \<and> programCreated env \<and> programLinks env \<and> (\<forall>c. \<not> throws env c)
      \<longrightarrow> fst (setupWebGL env cv isHtml s) = Inr True)
   \<and> (fst (ditherImage env img options s) = Inr True \<longleftrightarrow>
        gl s \<noteq> None \<and> program s \<and> canvas s \<noteq> None
        \<and> \<not> throws env AnimationFrame \<and> \<not> throws env Viewport \<and> \<not> throws env Clear
        \<and> (texture s \<longrightarrow> \<not> throws env LoadImageTexture)
        \<and> (paletteTexture s \<and> lastPaletteOptions s \<noteq> Some (paletteOptionsKey options)
             \<longrightarrow> \<not> throws env UpdatePaletteTexture)
        \<and> \<not> throws env SetupShaderUniforms
        \<and> (if ditherType options = 1
            then errorTexture s \<and> \<not> throws env InitErrorTexture
                 \<and> \<not> throws env (DrawArrays 0) \<and> \<not> throws env (DrawArrays 1)
            else \<not> throws env BindMainTexture \<and> \<not> throws env (DrawArrays 0)))"
proof (intro conjI)
  show "\<exists>b. fst (setupWebGL env cv isHtml s) = Inr b" by (rule setupWebGL_returns)
  show "\<exists>b. fst (ditherImage env img options s) = Inr b" by (rule ditherImage_returns)
  show "\<not> contextAvailable env
        \<or> (\<exists>k. \<not> shaderCreated env k \<or> \<not> shaderCompiles env k)
        \<or> \<not> programCreated env \<or> \<not> programLinks env
        \<or> (\<exists>c \<in> {GetContext, CreateShader VERTEX_SHADER, CreateShader FRAGMENT_SHADER,
                   CreateProgram, UseProgram, SetupPositionBuffer, CreateMainTexture,
                   CreateErrorTexture}. throws env c)
      \<longrightarrow> fst (setupWebGL env cv isHtml s) = Inr False"
  proof
    assume a: "\<not> contextAvailable env
        \<or> (\<exists>k. \<not> shaderCreated env k \<or> \<not> shaderCompiles env k)
        \<or> \<not> programCreated env \<or> \<not> programLinks env
        \<or> (\<exists>c \<in> {GetContext, CreateShader VERTEX_SHADER, CreateShader FRAGMENT_SHADER,
                   CreateProgram, UseProgram, SetupPositionBuffer, CreateMainTexture,
                   CreateErrorTexture}. throws env c)"
    have k: "(\<exists>k. \<not> shaderCreated env k \<or> \<not> shaderCompiles env k) \<Longrightarrow>
        \<not> createShader env VERTEX_SHADER \<or> \<not> createShader env FRAGMENT_SHADER"
    proof -
      assume "\<exists>k. \<not> shaderCreated env k \<or> \<not> shaderCompiles env k"
      then obtain k where "\<not> shaderCreated env k \<or> \<not> shaderCompiles env k" by blast
      then show ?thesis by (cases k) (auto simp: createShader_def)
    qed
    from a k have "fst (setupWebGL env cv isHtml s) \<noteq> Inr True"
      unfolding setupWebGL_true_iff setupWebGL_try_true_iff
      by (auto simp: createProgram_def)
    with setupWebGL_returns [of env cv isHtml s] show "fst (setupWebGL env cv isHtml s) = Inr False"
      by auto
  qed
  show "contextAvailable env
        \<and> (\<forall>k. shaderCreated env k \<and> shaderCompiles env k)
        \<and> programCreated env \<and> programLinks env \<and> (\<forall>c. \<not> throws env c)
      \<longrightarrow> fst (setupWebGL env cv isHtml s) = Inr True"
    unfolding setupWebGL_true_iff setupWebGL_try_true_iff
    by (simp add: createShader_def createProgram_def)
  show "fst (ditherImage env img options s) = Inr True \<longleftrightarrow>
        gl s \<noteq> None \<and> program s \<and> canvas s \<noteq> None
        \<and> \<not> throws env AnimationFrame \<and> \<not> throws env Viewport \<and> \<not> throws env Clear
        \<and> (texture s \<longrightarrow> \<not> throws env LoadImageTexture)
        \<and> (paletteTexture s \<and> lastPaletteOptions s \<noteq> Some (paletteOptionsKey options)
             \<longrightarrow> \<not> throws env UpdatePaletteTexture)
        \<and> \<not> throws env SetupShaderUniforms
        \<and> (if ditherType options = 1
            then errorTexture s \<and> \<not> throws env InitErrorTexture
                 \<and> \<not> throws env (DrawArrays 0) \<and> \<not> throws env (DrawArrays 1)
            else \<not> throws env BindMainTexture \<and> \<not> throws env (DrawArrays 0))"
    by (rule ditherImage_true_iff)
qed

theorem public_operations_results_witness:
  "fst (setupWebGL (okBrowser\<lparr>contextAvailable := False\<rparr>) onePixelCanvas True newService)
     = Inr False
   \<and> fst (setupWebGL noTextureBrowser onePixelCanvas True newService) = Inr True
   \<and> fst (ditherImage okBrowser greyImage (plainOptions 0 1) newService) = Inr False"
proof -
  note th = public_operations_results
  have a: "fst (setupWebGL (okBrowser\<lparr>contextAvailable := False\<rparr>) onePixelCanvas True
      newService) = Inr False"
    using th [of "okBrowser\<lparr>contextAvailable := False\<rparr>" onePixelCanvas True newService]
    by simp
  have b: "fst (setupWebGL noTextureBrowser onePixelCanvas True newService) = Inr True"
    using th [of noTextureBrowser onePixelCanvas True newService]
    by (simp add: noTextureBrowser_def okBrowser_def)
  have "fst (ditherImage okBrowser greyImage (plainOptions 0 1) newService) \<noteq> Inr True"
    using th [of okBrowser onePixelCanvas True newService greyImage "plainOptions 0 1"]
    by (simp add: newService_def)
  moreover have "\<exists>b. fst (ditherImage okBrowser greyImage (plainOptions 0 1) newService) = Inr b"
    using th [of okBrowser onePixelCanvas True newService greyImage "plainOptions 0 1"]
    by blast
  ultimately have c: "fst (ditherImage okBrowser greyImage (plainOptions 0 1) newService)
      = Inr False"
    by auto
  from a b c show ?thesis by simp
qed

text \<open>
  The claim as stated fails. In a browser where no texture can be created (and all else
  works) \<^verbatim>\<open>setupWebGL\<close> returns true, with none of the three textures, and the Bayer
  render call that follows returns true as well.
\<close>

theorem texture_failure_counterexample:
  "\<not> textureCreated noTextureBrowser MainTexture
   \<and> \<not> textureCreated noTextureBrowser ErrorTexture
   \<and> \<not> textureCreated noTextureBrowser PaletteTexture
   \<and> fst (setupWebGL noTextureBrowser onePixelCanvas True newService) = Inr True
   \<and> \<not> texture (snd (setupWebGL noTextureBrowser onePixelCanvas True newService))
   \<and> \<not> errorTexture (snd (setupWebGL noTextureBrowser onePixelCanvas True newService))
   \<and> \<not> paletteTexture (snd (setupWebGL noTextureBrowser onePixelCanvas True newService))
   \<and> fst (ditherImage noTextureBrowser greyImage (plainOptions 0 0)
        (snd (setupWebGL noTextureBrowser onePixelCanvas True newService))) = Inr True"
proof -
  have q: "\<forall>c. \<not> throws noTextureBrowser c"
    by (simp add: noTextureBrowser_def okBrowser_def)
  from setup_quiet [OF q, of onePixelCanvas True] obtain g0 where
    s: "setupWebGL noTextureBrowser onePixelCanvas True newService =
      (Inr True, \<lparr>gl = Some g0, program = True, texture = False, errorTexture = False,
         paletteTexture = False, canvas = Some onePixelCanvas, lastPaletteOptions = None,
         isOffscreenCanvas = False\<rparr>)"
    by (auto simp: noTextureBrowser_def okBrowser_def)
  have "fst (ditherImage noTextureBrowser greyImage (plainOptions 0 0)
        (snd (setupWebGL noTextureBrowser onePixelCanvas True newService))) = Inr True"
    using render_quiet [OF q, of "snd (setupWebGL noTextureBrowser onePixelCanvas True
        newService)" g0 onePixelCanvas greyImage "plainOptions 0 0"]
    by (simp add: s plainOptions_def)
  then show ?thesis by (simp add: s) (simp add: noTextureBrowser_def)
qed

end
